theory Spec2Isabelle
  imports Complex_Main "HOL-Library.DAList"
begin

section \<open>JavaScript values shared by the two utilities\<close>

text \<open>
  The repository holds two utilities with logic of their own: \<^verbatim>\<open>AsyncBatchProcessor\<close>
  (cooperative batching of an array) and \<^verbatim>\<open>ElkLayoutProcessor\<close> (the adapter between
  X6 nodes and edges and the ELK layout engine). Both are embedded below, function by
  function and under the names of the source.

  A JavaScript \<^verbatim>\<open>number\<close> that counts or indexes (batch size, index, node count,
  spacing, duration) is an \<^typ>\<open>int\<close>; a coordinate or a size is a \<^typ>\<open>rat\<close>.
  Quotients the code computes can leave the finite numbers, so the result of a division
  is a \<open>jsnum\<close>: a finite rational, an infinity or \<^verbatim>\<open>NaN\<close>. Non-integral batch sizes
  and spacings, and the rounding of doubles, are outside the model.
\<close>

datatype jsnum = Fin rat | PosInf | NegInf | NaN

text \<open>\<^verbatim>\<open>a / b\<close> for two integral numbers, the divisor being \<open>+0\<close> when it is zero.\<close>

definition js_div :: "int \<Rightarrow> int \<Rightarrow> jsnum" where
  "js_div a b =
     (if b = 0 then (if a = 0 then NaN else if 0 < a then PosInf else NegInf)
      else Fin (of_int a / of_int b))"

text \<open>\<^verbatim>\<open>x < q\<close> and \<^verbatim>\<open>x > q\<close> against a finite literal; every comparison with \<^verbatim>\<open>NaN\<close> is false.\<close>

fun js_lt :: "jsnum \<Rightarrow> rat \<Rightarrow> bool" where
  "js_lt (Fin r) q = (r < q)"
| "js_lt NegInf q = True"
| "js_lt PosInf q = False"
| "js_lt NaN q = False"

fun js_gt :: "jsnum \<Rightarrow> rat \<Rightarrow> bool" where
  "js_gt (Fin r) q = (q < r)"
| "js_gt PosInf q = True"
| "js_gt NegInf q = False"
| "js_gt NaN q = False"

text \<open>
  \<^verbatim>\<open>Array.prototype.slice(start, end)\<close>: a negative bound counts from the end of the
  array, and both bounds are clipped to the array.
\<close>

definition js_slice :: "'a list \<Rightarrow> int \<Rightarrow> int \<Rightarrow> 'a list" where
  "js_slice xs start fin =
     (let len = int (length xs);
          k = (if start < 0 then max (len + start) 0 else min start len);
          final = (if fin < 0 then max (len + fin) 0 else min fin len)
      in take (nat (final - k)) (drop (nat k) xs))"

text \<open>\<^verbatim>\<open>v || d\<close> on an optional number: \<^verbatim>\<open>undefined\<close> and \<open>0\<close> are falsy.\<close>

definition or_int :: "int option \<Rightarrow> int \<Rightarrow> int" where
  "or_int v d = (case v of None \<Rightarrow> d | Some n \<Rightarrow> if n = 0 then d else n)"

definition or_num :: "rat option \<Rightarrow> rat \<Rightarrow> rat" where
  "or_num v d = (case v of None \<Rightarrow> d | Some n \<Rightarrow> if n = 0 then d else n)"

text \<open>\<^verbatim>\<open>a || b\<close> on optional strings: \<^verbatim>\<open>undefined\<close> and the empty string are falsy.\<close>

definition truthy_str :: "string option \<Rightarrow> bool" where
  "truthy_str v = (case v of None \<Rightarrow> False | Some s \<Rightarrow> s \<noteq> [])"

definition or_str :: "string option \<Rightarrow> string option \<Rightarrow> string option" where
  "or_str a b = (if truthy_str a then a else b)"

text \<open>
  \<^verbatim>\<open>Number.prototype.toString()\<close> on an integral number: its decimal numeral. This is
  what JavaScript prints for the integers up to \<open>2\<^sup>5\<^sup>3\<close> in magnitude. Beyond, a
  JavaScript number no longer holds every integer, and from \<open>10\<^sup>2\<^sup>1\<close> on it is printed
  in exponent notation (\<^verbatim>\<open>1e+21\<close>); such values are outside the model.
\<close>

definition digit_char :: "nat \<Rightarrow> char" where
  "digit_char d = ''0123456789'' ! d"

fun digits :: "nat \<Rightarrow> string" where
  "digits n = (if n < 10 then [digit_char n] else digits (n div 10) @ [digit_char (n mod 10)])"

definition number_toString :: "int \<Rightarrow> string" where
  "number_toString n = (if n < 0 then CHR ''-'' # digits (nat (- n)) else digits (nat n))"

text \<open>\<^verbatim>\<open>Math.round\<close>: the nearest integer, a half rounding up.\<close>

definition Math_round :: "rat \<Rightarrow> int" where
  "Math_round x = \<lfloor>x + 1 / 2\<rfloor>"

text \<open>
  \<^verbatim>\<open>new Map(entries)\<close> and \<^verbatim>\<open>Map.prototype.get\<close>: the entries are inserted in order, a
  later entry replacing an earlier one under the same key.
\<close>

definition new_Map :: "('k \<times> 'v) list \<Rightarrow> ('k \<rightharpoonup> 'v)" where
  "new_Map entries = foldl (\<lambda>m kv. m(fst kv \<mapsto> snd kv)) Map.empty entries"

text \<open>
  \<^verbatim>\<open>obj[key]\<close> on an object literal. A key that is not an own property is looked up
  on \<^verbatim>\<open>Object.prototype\<close>, whose members are all truthy (functions, and the prototype
  object itself under \<^verbatim>\<open>__proto__\<close>); only then is the result \<^verbatim>\<open>undefined\<close>.
\<close>

definition object_prototype_members :: "string list" where
  "object_prototype_members =
     [''constructor'', ''hasOwnProperty'', ''isPrototypeOf'', ''propertyIsEnumerable'',
      ''toLocaleString'', ''toString'', ''valueOf'', ''__proto__'',
      ''__defineGetter__'', ''__defineSetter__'', ''__lookupGetter__'', ''__lookupSetter__'']"

datatype 'a js_member = Own 'a | Inherited string | Undefined

definition js_get :: "(string \<times> 'a) list \<Rightarrow> string \<Rightarrow> 'a js_member" where
  "js_get obj key =
     (case map_of obj key of
        Some v \<Rightarrow> Own v
      | None \<Rightarrow> if key \<in> set object_prototype_members then Inherited key else Undefined)"

text \<open>\<^verbatim>\<open>a || b\<close> on such lookups: only \<^verbatim>\<open>undefined\<close> is falsy.\<close>

definition or_member :: "'a js_member \<Rightarrow> 'a js_member \<Rightarrow> 'a js_member" where
  "or_member a b = (case a of Undefined \<Rightarrow> b | _ \<Rightarrow> a)"

section \<open>AsyncBatchProcessor\<close>

text \<open>
  \<^verbatim>\<open>processBatches\<close> keeps \<^verbatim>\<open>allResults\<close> and \<^verbatim>\<open>currentIndex\<close> in its closure and
  schedules \<^verbatim>\<open>processNextBatch\<close> again through \<^verbatim>\<open>requestAnimationFrame\<close> while items
  remain. The closure is the record \<open>batch_state\<close>; its \<open>trace\<close> lists, in the order
  they happen, the calls of the transform (\<open>Call\<close> with the batch passed), the calls of
  the progress callback (\<open>Progress\<close> with its three arguments) and the frames requested
  (\<open>Frame\<close>). The transform is a function of the batch; a transform that throws is
  outside the model. The rescheduling is recursion that need not end, so the loop is a
  partial function: \<open>None\<close> is a promise that never settles.
\<close>

datatype 'a event = Call "'a list" | Progress jsnum int int | Frame

record ('a, 'r) batch_state =
  allResults :: "'r list"
  currentIndex :: int
  trace :: "'a event list"

partial_function (option) processNextBatch ::
  "'a list \<Rightarrow> int \<Rightarrow> ('a list \<Rightarrow> 'r) \<Rightarrow> bool \<Rightarrow> ('a, 'r) batch_state
     \<Rightarrow> ('a, 'r) batch_state option" where
  "processNextBatch fullArray batchSize processBatchData onProgress s =
     (let total = int (length fullArray);
          batchEnd = min (currentIndex s + batchSize) total;
          currentBatch = js_slice fullArray (currentIndex s) batchEnd;
          batchResult = processBatchData currentBatch;
          progress = js_div batchEnd total;
          s' = \<lparr>allResults = allResults s @ [batchResult],
                currentIndex = batchEnd,
                trace = trace s @ [Call currentBatch]
                          @ (if onProgress then [Progress progress batchEnd total] else [])\<rparr>
      in if batchEnd < total
         then processNextBatch fullArray batchSize processBatchData onProgress
                (s'\<lparr>trace := trace s' @ [Frame]\<rparr>)
         else Some s')"

text \<open>
  The whole run from the initial closure (\<open>onProgress\<close> tells whether a progress callback
  was passed), and \<^verbatim>\<open>processBatches\<close> itself, which resolves with \<^verbatim>\<open>allResults\<close>.
\<close>

definition processBatches_run ::
  "'a list \<Rightarrow> int \<Rightarrow> ('a list \<Rightarrow> 'r) \<Rightarrow> bool \<Rightarrow> ('a, 'r) batch_state option" where
  "processBatches_run fullArray batchSize processBatchData onProgress =
     processNextBatch fullArray batchSize processBatchData onProgress
       \<lparr>allResults = [], currentIndex = 0, trace = []\<rparr>"

definition processBatches ::
  "'a list \<Rightarrow> int \<Rightarrow> ('a list \<Rightarrow> 'r) \<Rightarrow> bool \<Rightarrow> 'r list option" where
  "processBatches fullArray batchSize processBatchData onProgress =
     map_option allResults (processBatches_run fullArray batchSize processBatchData onProgress)"

text \<open>
  Batch results of the merging variant are plain objects: finite lists of own enumerable
  properties with pairwise different keys, in the order the \<^verbatim>\<open>for\<close>-\<^verbatim>\<open>in\<close> loop visits
  them, and \<^verbatim>\<open>Object.prototype\<close> behind them. A property value is an array, a number or
  a string; values that are objects, functions, \<^verbatim>\<open>null\<close> or \<^verbatim>\<open>undefined\<close> are outside the
  model. \<^verbatim>\<open>Array.isArray\<close> tells arrays from the rest, and a read that finds no array
  (a missing property, or one of the functions of a prototype) is \<open>None\<close>, which is no
  array.
\<close>

datatype jsval = Arr "jsval list" | Num int | Str string

type_synonym jsobj = "(string, jsval) alist"

fun isArray :: "jsval option \<Rightarrow> bool" where
  "isArray (Some (Arr vs)) = True"
| "isArray v = False"

fun elements :: "jsval option \<Rightarrow> jsval list" where
  "elements (Some (Arr vs)) = vs"
| "elements v = []"

text \<open>
  The two ways the merging variant rejects: the \<^verbatim>\<open>Error\<close> it throws itself on an empty
  result list, and the \<^verbatim>\<open>TypeError\<close> of calling something that is no function.
\<close>

datatype batch_error = NoBatchesToMerge | TypeError

text \<open>
  \<^verbatim>\<open>merged\<close> is the one object the loop writes to. It starts as a copy of the own
  properties of the first result, with \<^verbatim>\<open>Object.prototype\<close> as its prototype
  (\<open>prototype_array = None\<close>). Writing an array to its \<^verbatim>\<open>__proto__\<close> while it has no own
  property of that name runs the setter of \<^verbatim>\<open>Object.prototype\<close> and makes that array
  its prototype (\<open>prototype_array = Some\<close> of its elements).
\<close>

record merged_object =
  own_fields :: jsobj
  prototype_array :: "jsval list option"

text \<open>
  What an array offers to a read through the prototype chain: its elements under their
  indices, written as decimal numerals, and its \<^verbatim>\<open>length\<close>.
\<close>

definition array_member :: "jsval list \<Rightarrow> string \<Rightarrow> jsval option" where
  "array_member vs key =
     (if key = ''length'' then Some (Num (int (length vs)))
      else map_of (zip (map digits [0..<length vs]) vs) key)"

text \<open>
  \<^verbatim>\<open>merged[key]\<close>: the own property, else what the prototype gives. With
  \<^verbatim>\<open>Object.prototype\<close> as the prototype the read finds nothing or something that is no
  array (for \<^verbatim>\<open>__proto__\<close> it is \<^verbatim>\<open>Object.prototype\<close> itself); with an array as the
  prototype, \<^verbatim>\<open>__proto__\<close> reads as that array.
\<close>

definition get_member :: "merged_object \<Rightarrow> string \<Rightarrow> jsval option" where
  "get_member merged key =
     (case DAList.lookup (own_fields merged) key of
        Some v \<Rightarrow> Some v
      | None \<Rightarrow>
          (case prototype_array merged of
             None \<Rightarrow> None
           | Some vs \<Rightarrow> if key = ''__proto__'' then Some (Arr vs) else array_member vs key))"

text \<open>
  \<^verbatim>\<open>merged[key] = v\<close>: an own property is created or overwritten, except that the
  name \<^verbatim>\<open>__proto__\<close>, while no own property has it, reaches the setter of
  \<^verbatim>\<open>Object.prototype\<close>: an array becomes the prototype, a number or a string is ignored.
\<close>

definition set_member :: "merged_object \<Rightarrow> string \<Rightarrow> jsval \<Rightarrow> merged_object" where
  "set_member merged key v =
     (if key = ''__proto__'' \<and> DAList.lookup (own_fields merged) key = None
      then (case v of
              Arr vs \<Rightarrow> merged\<lparr>prototype_array := Some vs\<rparr>
            | Num n \<Rightarrow> merged
            | Str s \<Rightarrow> merged)
      else merged\<lparr>own_fields := DAList.update key v (own_fields merged)\<rparr>)"

text \<open>
  \<^verbatim>\<open>current.hasOwnProperty(key)\<close>: the method is looked up on \<^verbatim>\<open>current\<close> itself. An own
  property named \<^verbatim>\<open>hasOwnProperty\<close> hides the one of \<^verbatim>\<open>Object.prototype\<close>, and its value,
  an array, a number or a string, cannot be called.
\<close>

definition hasOwnProperty_call :: "jsobj \<Rightarrow> string \<Rightarrow> batch_error + bool" where
  "hasOwnProperty_call current key =
     (case DAList.lookup current ''hasOwnProperty'' of
        Some v \<Rightarrow> Inl TypeError
      | None \<Rightarrow> Inr (DAList.lookup current key \<noteq> None))"

text \<open>
  The body of the \<^verbatim>\<open>for (const key in current)\<close> loop, for one enumerated property of
  \<^verbatim>\<open>current\<close> (its key and \<^verbatim>\<open>current[key]\<close>).
\<close>

definition mergeField ::
  "jsobj \<Rightarrow> merged_object \<Rightarrow> string \<times> jsval \<Rightarrow> batch_error + merged_object" where
  "mergeField current merged kv =
     (let key = fst kv in
      case hasOwnProperty_call current key of
        Inl e \<Rightarrow> Inl e
      | Inr own \<Rightarrow>
          if own
          then (let currentValue = Some (snd kv);
                    mergedValue = get_member merged key
                in if isArray currentValue \<and> isArray mergedValue
                   then Inr (set_member merged key
                               (Arr (elements mergedValue @ elements currentValue)))
                   else Inr (set_member merged key (snd kv)))
          else Inr merged)"

text \<open>
  The \<^verbatim>\<open>for\<close>-\<^verbatim>\<open>in\<close> loop over the properties of \<^verbatim>\<open>current\<close>; a throw ends it.
\<close>

fun for_in ::
  "jsobj \<Rightarrow> merged_object \<Rightarrow> (string \<times> jsval) list \<Rightarrow> batch_error + merged_object" where
  "for_in current merged [] = Inr merged"
| "for_in current merged (kv # kvs) =
     (case mergeField current merged kv of
        Inl e \<Rightarrow> Inl e
      | Inr merged' \<Rightarrow> for_in current merged' kvs)"

definition mergeInto :: "merged_object \<Rightarrow> jsobj \<Rightarrow> batch_error + merged_object" where
  "mergeInto merged current = for_in current merged (DAList.impl_of current)"

text \<open>The loop \<^verbatim>\<open>for (let i = 1; i < batchResults.length; i++)\<close>; a throw ends it.\<close>

fun mergeResults :: "merged_object \<Rightarrow> jsobj list \<Rightarrow> batch_error + merged_object" where
  "mergeResults merged [] = Inr merged"
| "mergeResults merged (current # later) =
     (case mergeInto merged current of
        Inl e \<Rightarrow> Inl e
      | Inr merged' \<Rightarrow> mergeResults merged' later)"

text \<open>
  \<^verbatim>\<open>processBatchesWithAutoMerge\<close>: the guard on an empty result list, the copy of the
  first result, and the loop from the second result on. The inner \<open>Inl\<close> is what the
  promise is rejected with; the inner \<open>Inr\<close> lists the own properties of the object it
  resolves with, in the order the copy and the loop created them.
\<close>

definition autoMerge :: "jsobj list \<Rightarrow> batch_error + jsobj" where
  "autoMerge batchResults =
     (if length batchResults = 0 then Inl NoBatchesToMerge
      else map_sum id own_fields
             (mergeResults \<lparr>own_fields = batchResults ! 0, prototype_array = None\<rparr>
                (drop 1 batchResults)))"

definition processBatchesWithAutoMerge ::
  "'a list \<Rightarrow> int \<Rightarrow> ('a list \<Rightarrow> jsobj) \<Rightarrow> bool \<Rightarrow> (batch_error + jsobj) option" where
  "processBatchesWithAutoMerge fullArray batchSize processBatchData onProgress =
     map_option autoMerge (processBatches fullArray batchSize processBatchData onProgress)"

text \<open>
  The merge the specification describes, for the values one field has in the
  accumulator and in a later batch result (\<open>None\<close>: the field is missing there): two
  arrays are concatenated, any other later value replaces the earlier one, and a field
  the later result lacks is kept. It is what the loop is compared with.
\<close>

definition mergeValue :: "jsval option \<Rightarrow> jsval option \<Rightarrow> jsval option" where
  "mergeValue mergedValue currentValue =
     (case currentValue of
        None \<Rightarrow> mergedValue
      | Some v \<Rightarrow>
          if isArray currentValue \<and> isArray mergedValue
          then Some (Arr (elements mergedValue @ elements currentValue))
          else Some v)"

text \<open>
  Two transforms for the examples: \<^verbatim>\<open>batch => ({ cells: batch })\<close>, and
  \<^verbatim>\<open>batch => ({ cells: batch, hasOwnProperty: 1 })\<close>, whose result has an own field named
  like the method the loop calls.
\<close>

definition cells_result :: "int list \<Rightarrow> jsobj" where
  "cells_result batch = DAList.update ''cells'' (Arr (map Num batch)) DAList.empty"

definition shadowing_result :: "int list \<Rightarrow> jsobj" where
  "shadowing_result batch = DAList.update ''hasOwnProperty'' (Num 1) (cells_result batch)"

text \<open>
  Three more batch results: \<^verbatim>\<open>{ cells: [3, 4], "__proto__": 5 }\<close> and
  \<^verbatim>\<open>{ "__proto__": [[7]] }\<close>, as \<^verbatim>\<open>JSON.parse\<close> yields them, with \<^verbatim>\<open>__proto__\<close> an own
  field, and \<^verbatim>\<open>{ "0": [8] }\<close>.
\<close>

definition proto_number_result :: jsobj where
  "proto_number_result = DAList.update ''__proto__'' (Num 5) (cells_result [3, 4])"

definition proto_array_result :: jsobj where
  "proto_array_result = DAList.update ''__proto__'' (Arr [Arr [Num 7]]) DAList.empty"

definition zero_result :: jsobj where
  "zero_result = DAList.update ''0'' (Arr [Num 8]) DAList.empty"

text \<open>
  The partition the specification describes, in its own words: consecutive batches of
  the requested size, the final one possibly smaller. It is what the loop is compared
  with. \<open>batch_events\<close> is the sequence of events such a partition should produce: one
  transform call and one progress report per batch, and a frame between two batches.
\<close>

function batches_of :: "nat \<Rightarrow> 'a list \<Rightarrow> 'a list list" where
  "batches_of n xs =
     (if n = 0 \<or> length xs \<le> n then [xs] else take n xs # batches_of n (drop n xs))"
  by pat_completeness auto
termination
  by (relation "measure (\<lambda>(n, xs). length xs)") auto

fun batch_events :: "bool \<Rightarrow> int \<Rightarrow> int \<Rightarrow> 'a list list \<Rightarrow> 'a event list" where
  "batch_events onProgress tot processed [] = []"
| "batch_events onProgress tot processed (b # bs) =
     (let processed' = processed + int (length b) in
        Call b # (if onProgress then [Progress (js_div processed' tot) processed' tot] else [])
          @ (if bs = [] then [] else Frame # batch_events onProgress tot processed' bs))"

fun call_args :: "'a event list \<Rightarrow> 'a list list" where
  "call_args [] = []"
| "call_args (Call b # es) = b # call_args es"
| "call_args (e # es) = call_args es"

section \<open>ElkLayoutProcessor: data\<close>

text \<open>
  X6 nodes and edges are objects the adapter holds by reference and the graph owns, so
  they live in a store: a \<open>ref\<close> is an object identity, \<open>node_heap\<close> and \<open>edge_heap\<close>
  give the state of the object behind it. A node carries what the adapter reads of it:
  \<^verbatim>\<open>id\<close>, \<^verbatim>\<open>getPosition()\<close>, \<^verbatim>\<open>getSize()\<close> and the three places of \<^verbatim>\<open>toJSON()\<close>
  where a label is looked for. An edge carries \<^verbatim>\<open>id\<close>, \<^verbatim>\<open>getSourceCellId()\<close>,
  \<^verbatim>\<open>getTargetCellId()\<close> and its vertices.
\<close>

type_synonym ref = nat
type_synonym point = "rat \<times> rat"

record x6node =
  node_id :: string
  node_position :: point
  node_size :: "rat \<times> rat"
  node_label :: "string option"
  node_attrs_text_text :: "string option"
  node_attrs_label_text :: "string option"

record x6edge =
  edge_id :: string
  edge_source :: string
  edge_target :: string
  edge_vertices :: "point list"

text \<open>
  The calls that change an X6 object: \<^verbatim>\<open>node.position(x, y, options)\<close>, whose last
  component is the duration of the \<^verbatim>\<open>ease-in-out\<close> transition when one is passed, and
  \<^verbatim>\<open>edge.setVertices(points)\<close>.
\<close>

datatype x6_call =
  SetPosition ref rat rat "int option"
| SetVertices ref "point list"

datatype algorithm = layered | force | stress | mrtree | radial
datatype direction = UNDEFINED | RIGHT | LEFT | DOWN | UP
datatype edge_routing = ORTHOGONAL | POLYLINE | SPLINES

fun algorithm_name :: "algorithm \<Rightarrow> string" where
  "algorithm_name layered = ''layered''"
| "algorithm_name force = ''force''"
| "algorithm_name stress = ''stress''"
| "algorithm_name mrtree = ''mrtree''"
| "algorithm_name radial = ''radial''"

fun direction_name :: "direction \<Rightarrow> string" where
  "direction_name UNDEFINED = ''UNDEFINED''"
| "direction_name RIGHT = ''RIGHT''"
| "direction_name LEFT = ''LEFT''"
| "direction_name DOWN = ''DOWN''"
| "direction_name UP = ''UP''"

fun edge_routing_name :: "edge_routing \<Rightarrow> string" where
  "edge_routing_name ORTHOGONAL = ''ORTHOGONAL''"
| "edge_routing_name POLYLINE = ''POLYLINE''"
| "edge_routing_name SPLINES = ''SPLINES''"

text \<open>\<^verbatim>\<open>LayoutOptions\<close>: directives by name.\<close>

type_synonym layout_options = "string \<rightharpoonup> string"

text \<open>
  \<^verbatim>\<open>ElkLayoutConfig\<close>, every property optional, and its \<^verbatim>\<open>spacing\<close> object. An
  optional property is an \<open>option\<close>: a property that is present with the value
  \<^verbatim>\<open>undefined\<close> is not told apart from one that is absent.
\<close>

record spacing_config =
  nodeNodeBetweenLayers :: "int option"
  edgeNodeBetweenLayers :: "int option"
  nodeNode :: "int option"
  edgeEdge :: "int option"

record ElkLayoutConfig =
  algorithm :: "algorithm option"
  direction :: "direction option"
  spacing :: "spacing_config option"
  useWorker :: "bool option"
  workerUrl :: "string option"
  layoutOptions :: "layout_options option"

text \<open>\<^verbatim>\<open>this.config\<close> of a constructed processor: everything but \<^verbatim>\<open>workerUrl\<close> is required.\<close>

record processor_config =
  cfg_algorithm :: algorithm
  cfg_direction :: direction
  cfg_spacing :: spacing_config
  cfg_useWorker :: bool
  cfg_workerUrl :: "string option"
  cfg_layoutOptions :: layout_options

text \<open>\<^verbatim>\<open>X6ToElkOptions\<close>, every property optional.\<close>

record X6ToElkOptions =
  defaultNodeSize :: "(rat \<times> rat) option"
  autoCalculateSize :: "bool option"
  edgeRouting :: "edge_routing option"
  preserveNodeData :: "bool option"

text \<open>
  The descriptor handed to the layout engine and returned by it. \<^verbatim>\<open>ElkNode\<close> is one
  recursive type in elkjs; the adapter builds and reads a root with one level of
  children, so the root (\<open>elk_graph\<close>) and a child (\<open>elk_node\<close>) are two records.
\<close>

record elk_label =
  label_id :: string
  label_text :: string

record elk_node =
  elk_id :: string
  elk_x :: "rat option"
  elk_y :: "rat option"
  elk_width :: "rat option"
  elk_height :: "rat option"
  elk_x6Data :: "x6node option"
  elk_labels :: "elk_label list option"

record elk_section =
  bendPoints :: "point list option"

record elk_edge =
  elk_edge_id :: string
  elk_sources :: "string list option"
  elk_targets :: "string list option"
  elk_sections :: "elk_section list option"
  elk_edge_x6Data :: "x6edge option"

record elk_graph =
  root_id :: string
  root_layoutOptions :: layout_options
  root_children :: "elk_node list option"
  root_edges :: "elk_edge list option"
  root_width :: "rat option"
  root_height :: "rat option"

text \<open>\<^verbatim>\<open>ElkLayoutResult\<close>.\<close>

record result_node =
  rn_id :: string
  rn_x :: rat
  rn_y :: rat
  rn_width :: rat
  rn_height :: rat
  originalNode :: "ref option"

record result_edge =
  re_id :: string
  re_source :: string
  re_target :: string
  re_vertices :: "point list option"
  originalEdge :: "ref option"

record ElkLayoutResult =
  res_nodes :: "result_node list"
  res_edges :: "result_edge list"
  layoutSize :: "rat \<times> rat"

text \<open>
  The layout engine is an external service: a function from the descriptor to the laid
  out descriptor, or to the failure it raises. The \<open>world\<close> is everything a layout
  invocation reads or changes: the store of X6 objects, what \<^verbatim>\<open>graph.getNodes()\<close> and
  \<^verbatim>\<open>graph.getEdges()\<close> return, the changing calls made on X6 objects so far, and the
  descriptors handed to the engine so far.
\<close>

datatype layout_error = EngineFailure string

type_synonym engine = "elk_graph \<Rightarrow> layout_error + elk_graph"

record world =
  node_heap :: "ref \<Rightarrow> x6node"
  edge_heap :: "ref \<Rightarrow> x6edge"
  graph_nodes :: "ref list"
  graph_edges :: "ref list"
  x6_calls :: "x6_call list"
  elk_calls :: "elk_graph list"

section \<open>ElkLayoutProcessor: operations\<close>

text \<open>
  The constructor spreads the caller's configuration over the defaults. It also creates
  the ELK instance, with or without a worker; the instance is the \<open>engine\<close> argument of
  the operations below, and which mode it runs in changes none of their results.
\<close>

definition default_spacing :: spacing_config where
  "default_spacing =
     \<lparr>nodeNodeBetweenLayers = Some 25, edgeNodeBetweenLayers = Some 15,
      nodeNode = Some 20, edgeEdge = Some 15\<rparr>"

definition new_ElkLayoutProcessor :: "ElkLayoutConfig \<Rightarrow> processor_config" where
  "new_ElkLayoutProcessor config =
     \<lparr>cfg_algorithm = (case algorithm config of None \<Rightarrow> layered | Some a \<Rightarrow> a),
      cfg_direction = (case direction config of None \<Rightarrow> DOWN | Some d \<Rightarrow> d),
      cfg_spacing = (case spacing config of None \<Rightarrow> default_spacing | Some s \<Rightarrow> s),
      cfg_useWorker = (case useWorker config of None \<Rightarrow> True | Some u \<Rightarrow> u),
      cfg_workerUrl = workerUrl config,
      cfg_layoutOptions = (case layoutOptions config of None \<Rightarrow> Map.empty | Some l \<Rightarrow> l)\<rparr>"

text \<open>\<^verbatim>\<open>buildLayoutOptions\<close>: the computed directives, then the spread of \<^verbatim>\<open>this.config.layoutOptions\<close>.\<close>

definition buildLayoutOptions :: "processor_config \<Rightarrow> X6ToElkOptions \<Rightarrow> layout_options" where
  "buildLayoutOptions config options =
     (let spacing = cfg_spacing config in
      map_of
        [(''elk.algorithm'', algorithm_name (cfg_algorithm config)),
         (''elk.direction'', direction_name (cfg_direction config)),
         (''elk.spacing.nodeNode'',
            number_toString (max (or_int (nodeNode spacing) 30) 30)),
         (''elk.layered.spacing.nodeNodeBetweenLayers'',
            number_toString (max (or_int (nodeNodeBetweenLayers spacing) 60) 60)),
         (''elk.layered.spacing.edgeNodeBetweenLayers'',
            number_toString (max (or_int (edgeNodeBetweenLayers spacing) 30) 30)),
         (''elk.spacing.edgeEdge'',
            number_toString (max (or_int (edgeEdge spacing) 20) 20)),
         (''elk.edge.routing'',
            (case edgeRouting options of None \<Rightarrow> ''ORTHOGONAL'' | Some r \<Rightarrow> edge_routing_name r)),
         (''elk.layered.crossingMinimization.strategy'', ''LAYER_SWEEP''),
         (''elk.layered.nodePlacement.strategy'', ''BRANDES_KOEPF''),
         (''elk.layered.cycleBreaking.strategy'', ''GREEDY''),
         (''elk.layered.compaction.postCompaction.strategy'', ''EDGE_LENGTH''),
         (''elk.layered.compaction.postCompaction.constraints'', ''SEQUENCE''),
         (''elk.layered.edgeRouting.selfLoopDistribution'', ''EQUALLY''),
         (''elk.layered.edgeRouting.selfLoopOrdering'', ''STACKED''),
         (''elk.layered.thoroughness'', ''100''),
         (''elk.layered.unnecessaryBendpoints'', ''true''),
         (''elk.portConstraints'', ''FIXED_SIDE''),
         (''elk.port.side'', ''SOUTH'')]
      ++ cfg_layoutOptions config)"

text \<open>The spread of the caller's options over the defaults of \<^verbatim>\<open>convertX6ToElk\<close>.\<close>

definition with_defaults :: "X6ToElkOptions \<Rightarrow> X6ToElkOptions \<Rightarrow> X6ToElkOptions" where
  "with_defaults defaults options =
     \<lparr>defaultNodeSize =
        (case defaultNodeSize options of None \<Rightarrow> defaultNodeSize defaults | Some v \<Rightarrow> Some v),
      autoCalculateSize =
        (case autoCalculateSize options of None \<Rightarrow> autoCalculateSize defaults | Some v \<Rightarrow> Some v),
      edgeRouting =
        (case edgeRouting options of None \<Rightarrow> edgeRouting defaults | Some v \<Rightarrow> Some v),
      preserveNodeData =
        (case preserveNodeData options of None \<Rightarrow> preserveNodeData defaults | Some v \<Rightarrow> Some v)\<rparr>"

definition convert_defaults :: X6ToElkOptions where
  "convert_defaults =
     \<lparr>defaultNodeSize = Some (80, 40), autoCalculateSize = Some True,
      edgeRouting = Some ORTHOGONAL, preserveNodeData = Some True\<rparr>"

text \<open>The two \<^verbatim>\<open>map\<close> callbacks of \<^verbatim>\<open>convertX6ToElk\<close>, on the state of one node or edge.\<close>

definition convertNode :: "X6ToElkOptions \<Rightarrow> x6node \<Rightarrow> elk_node" where
  "convertNode opts node =
     (let size = node_size node;
          auto = (autoCalculateSize opts = Some True);
          dflt = the (defaultNodeSize opts);
          width = (if auto \<and> 0 < fst size then fst size else fst dflt);
          height = (if auto \<and> 0 < snd size then snd size else snd dflt);
          labelText = or_str (or_str (node_label node) (node_attrs_text_text node))
                        (node_attrs_label_text node)
      in \<lparr>elk_id = node_id node,
          elk_x = None,
          elk_y = None,
          elk_width = Some width,
          elk_height = Some height,
          elk_x6Data = (if preserveNodeData opts = Some True then Some node else None),
          elk_labels =
            (if truthy_str labelText
             then Some [\<lparr>label_id = node_id node @ ''-label'', label_text = the labelText\<rparr>]
             else None)\<rparr>)"

definition convertEdge :: "X6ToElkOptions \<Rightarrow> x6edge \<Rightarrow> elk_edge" where
  "convertEdge opts edge =
     \<lparr>elk_edge_id = edge_id edge,
      elk_sources = Some [edge_source edge],
      elk_targets = Some [edge_target edge],
      elk_sections = None,
      elk_edge_x6Data = (if preserveNodeData opts = Some True then Some edge else None)\<rparr>"

definition convertX6ToElk ::
  "processor_config \<Rightarrow> world \<Rightarrow> ref list \<Rightarrow> ref list \<Rightarrow> X6ToElkOptions \<Rightarrow> elk_graph" where
  "convertX6ToElk config w nodes edges options =
     (let opts = with_defaults convert_defaults options;
          elkNodes = map (\<lambda>node. convertNode opts (node_heap w node)) nodes;
          elkEdges = map (\<lambda>edge. convertEdge opts (edge_heap w edge)) edges
      in \<lparr>root_id = ''root'',
          root_layoutOptions = buildLayoutOptions config opts,
          root_children = Some elkNodes,
          root_edges = Some elkEdges,
          root_width = None,
          root_height = None\<rparr>)"

text \<open>\<^verbatim>\<open>convertElkToX6\<close>: the two identifier maps, then one entry per returned child and edge.\<close>

definition firstOrEmpty :: "string list option \<Rightarrow> string" where
  "firstOrEmpty ids = (case ids of None \<Rightarrow> [] | Some [] \<Rightarrow> [] | Some (s # rest) \<Rightarrow> s)"

definition convertElkToX6 :: "world \<Rightarrow> elk_graph \<Rightarrow> ref list \<Rightarrow> ref list \<Rightarrow> ElkLayoutResult" where
  "convertElkToX6 w elkResult originalNodes originalEdges =
     (let nodeMap = new_Map (map (\<lambda>node. (node_id (node_heap w node), node)) originalNodes);
          edgeMap = new_Map (map (\<lambda>edge. (edge_id (edge_heap w edge), edge)) originalEdges);
          nodes = map (\<lambda>elkNode.
                    \<lparr>rn_id = elk_id elkNode,
                     rn_x = or_num (elk_x elkNode) 0,
                     rn_y = or_num (elk_y elkNode) 0,
                     rn_width = or_num (elk_width elkNode) 80,
                     rn_height = or_num (elk_height elkNode) 40,
                     originalNode = nodeMap (elk_id elkNode)\<rparr>)
                  (case root_children elkResult of None \<Rightarrow> [] | Some cs \<Rightarrow> cs);
          edges = map (\<lambda>elkEdge.
                    (let sections = (case elk_sections elkEdge of None \<Rightarrow> [] | Some ss \<Rightarrow> ss);
                         vertices = (if 0 < length sections
                                     then (case bendPoints (sections ! 0) of
                                             None \<Rightarrow> [] | Some ps \<Rightarrow> ps)
                                     else []);
                         sourceId = firstOrEmpty (elk_sources elkEdge);
                         targetId = firstOrEmpty (elk_targets elkEdge)
                     in \<lparr>re_id = elk_edge_id elkEdge,
                         re_source = sourceId,
                         re_target = targetId,
                         re_vertices = Some (map (\<lambda>point. (fst point, snd point)) vertices),
                         originalEdge = edgeMap (elk_edge_id elkEdge)\<rparr>))
                  (case root_edges elkResult of None \<Rightarrow> [] | Some es \<Rightarrow> es)
      in \<lparr>res_nodes = nodes,
          res_edges = edges,
          layoutSize = (or_num (root_width elkResult) 0, or_num (root_height elkResult) 0)\<rparr>)"

text \<open>
  \<^verbatim>\<open>performLayout\<close>: convert, hand the descriptor to the engine, convert back. A failure
  of the engine is logged and thrown again, so it is the result.
\<close>

definition performLayout ::
  "engine \<Rightarrow> processor_config \<Rightarrow> ref list \<Rightarrow> ref list \<Rightarrow> X6ToElkOptions \<Rightarrow> world
     \<Rightarrow> (layout_error + ElkLayoutResult) \<times> world" where
  "performLayout elk config nodes edges options w =
     (let elkGraph = convertX6ToElk config w nodes edges options;
          w' = w\<lparr>elk_calls := elk_calls w @ [elkGraph]\<rparr>
      in case elk elkGraph of
           Inl error \<Rightarrow> (Inl error, w')
         | Inr layoutResult \<Rightarrow> (Inr (convertElkToX6 w' layoutResult nodes edges), w'))"

text \<open>
  The effect of one changing call on the store. With a transition the node arrives at
  the position when the animation ends; the store holds the position the call sets.
\<close>

fun x6_exec :: "world \<Rightarrow> x6_call \<Rightarrow> world" where
  "x6_exec w (SetPosition node x y transition) =
     w\<lparr>node_heap := (node_heap w)(node := (node_heap w node)\<lparr>node_position := (x, y)\<rparr>),
       x6_calls := x6_calls w @ [SetPosition node x y transition]\<rparr>"
| "x6_exec w (SetVertices edge vertices) =
     w\<lparr>edge_heap := (edge_heap w)(edge := (edge_heap w edge)\<lparr>edge_vertices := vertices\<rparr>),
       x6_calls := x6_calls w @ [SetVertices edge vertices]\<rparr>"

text \<open>The three \<^verbatim>\<open>forEach\<close> callbacks of \<^verbatim>\<open>applyLayoutToGraph\<close>.\<close>

definition applyNodeAnimated :: "int \<Rightarrow> world \<Rightarrow> result_node \<Rightarrow> world" where
  "applyNodeAnimated animationDuration w nodeResult =
     (case originalNode nodeResult of
        Some node \<Rightarrow> x6_exec w (SetPosition node (rn_x nodeResult) (rn_y nodeResult)
                                  (Some animationDuration))
      | None \<Rightarrow> w)"

definition applyNodeDirect :: "world \<Rightarrow> result_node \<Rightarrow> world" where
  "applyNodeDirect w nodeResult =
     (case originalNode nodeResult of
        Some node \<Rightarrow> x6_exec w (SetPosition node (rn_x nodeResult) (rn_y nodeResult) None)
      | None \<Rightarrow> w)"

definition applyEdge :: "world \<Rightarrow> result_edge \<Rightarrow> world" where
  "applyEdge w edgeResult =
     (case (originalEdge edgeResult, re_vertices edgeResult) of
        (Some edge, Some vertices) \<Rightarrow>
          if 0 < length vertices then x6_exec w (SetVertices edge vertices) else w
      | _ \<Rightarrow> w)"

text \<open>The part of \<^verbatim>\<open>applyLayoutToGraph\<close> after the layout has been computed.\<close>

definition applyResult :: "ElkLayoutResult \<Rightarrow> int \<Rightarrow> world \<Rightarrow> world" where
  "applyResult layoutResult animationDuration w =
     (let w1 = (if 0 < animationDuration
                then foldl (applyNodeAnimated animationDuration) w (res_nodes layoutResult)
                else foldl applyNodeDirect w (res_nodes layoutResult))
      in foldl applyEdge w1 (res_edges layoutResult))"

definition empty_result :: ElkLayoutResult where
  "empty_result = \<lparr>res_nodes = [], res_edges = [], layoutSize = (0, 0)\<rparr>"

definition applyLayoutToGraph ::
  "engine \<Rightarrow> processor_config \<Rightarrow> X6ToElkOptions \<Rightarrow> int \<Rightarrow> world
     \<Rightarrow> (layout_error + ElkLayoutResult) \<times> world" where
  "applyLayoutToGraph elk config layoutOptions' animationDuration w =
     (let nodes = graph_nodes w;
          edges = graph_edges w
      in if length nodes = 0 then (Inr empty_result, w)
         else case performLayout elk config nodes edges layoutOptions' w of
                (Inl error, w') \<Rightarrow> (Inl error, w')
              | (Inr layoutResult, w') \<Rightarrow>
                  (Inr layoutResult, applyResult layoutResult animationDuration w'))"

text \<open>
  \<^verbatim>\<open>applyFlowchartLayout\<close>. Its options are the conversion options together with
  \<^verbatim>\<open>elkConfig\<close> and \<^verbatim>\<open>animationDuration\<close>, here three arguments. It builds a processor
  of its own from the flowchart configuration and the caller's \<^verbatim>\<open>elkConfig\<close>.
\<close>

definition flowchartConfig_layoutOptions :: "(string \<times> string) list" where
  "flowchartConfig_layoutOptions =
     [(''elk.edge.routing'', ''ORTHOGONAL''),
      (''elk.alignment'', ''CENTER''),
      (''elk.layered.nodePlacement.strategy'', ''BRANDES_KOEPF''),
      (''elk.layered.nodePlacement.favorStraightEdges'', ''true''),
      (''elk.layered.nodePlacement.linearSegmentsDeflectionDampening'', ''0.2''),
      (''elk.layered.crossingMinimization.strategy'', ''LAYER_SWEEP''),
      (''elk.layered.crossingMinimization.greedySwitch.type'', ''TWO_SIDED''),
      (''elk.layered.unnecessaryBendpoints'', ''true''),
      (''elk.layered.straightening.strategy'', ''IMPROVE_STRAIGHTNESS''),
      (''elk.layered.compaction.postCompaction.strategy'', ''EDGE_LENGTH''),
      (''elk.layered.compaction.postCompaction.constraints'', ''SEQUENCE''),
      (''elk.layered.compaction.connectedComponents'', ''true''),
      (''elk.layered.thoroughness'', ''100''),
      (''elk.layered.cycleBreaking.strategy'', ''GREEDY''),
      (''elk.portConstraints'', ''FREE''),
      (''elk.portAlignment'', ''CENTER''),
      (''elk.port.borderOffset'', ''0''),
      (''elk.layered.edgeRouting.selfLoopDistribution'', ''EQUALLY''),
      (''elk.layered.edgeRouting.selfLoopOrdering'', ''STACKED''),
      (''elk.spacing.portPort'', ''10''),
      (''elk.layered.mergeEdges'', ''true''),
      (''elk.separateConnectedComponents'', ''false'')]"

definition flowchartConfig :: ElkLayoutConfig where
  "flowchartConfig =
     \<lparr>algorithm = Some layered,
      direction = Some DOWN,
      spacing = Some \<lparr>nodeNodeBetweenLayers = Some 100, edgeNodeBetweenLayers = Some 50,
                      nodeNode = Some 80, edgeEdge = Some 30\<rparr>,
      useWorker = Some True,
      workerUrl = None,
      layoutOptions = Some (map_of flowchartConfig_layoutOptions)\<rparr>"

text \<open>The spread \<^verbatim>\<open>{...base, ...over}\<close> of two configurations.\<close>

definition spread_config :: "ElkLayoutConfig \<Rightarrow> ElkLayoutConfig \<Rightarrow> ElkLayoutConfig" where
  "spread_config base over =
     \<lparr>algorithm = (case algorithm over of None \<Rightarrow> algorithm base | Some v \<Rightarrow> Some v),
      direction = (case direction over of None \<Rightarrow> direction base | Some v \<Rightarrow> Some v),
      spacing = (case spacing over of None \<Rightarrow> spacing base | Some v \<Rightarrow> Some v),
      useWorker = (case useWorker over of None \<Rightarrow> useWorker base | Some v \<Rightarrow> Some v),
      workerUrl = (case workerUrl over of None \<Rightarrow> workerUrl base | Some v \<Rightarrow> Some v),
      layoutOptions =
        (case layoutOptions over of None \<Rightarrow> layoutOptions base | Some v \<Rightarrow> Some v)\<rparr>"

definition empty_config :: ElkLayoutConfig where
  "empty_config =
     \<lparr>algorithm = None, direction = None, spacing = None, useWorker = None,
      workerUrl = None, layoutOptions = None\<rparr>"

definition applyFlowchartLayout ::
  "engine \<Rightarrow> X6ToElkOptions \<Rightarrow> ElkLayoutConfig option \<Rightarrow> int option \<Rightarrow> world
     \<Rightarrow> (layout_error + ElkLayoutResult) \<times> world" where
  "applyFlowchartLayout elk options elkConfig animationDuration w =
     (let nodes = graph_nodes w in
      if length nodes = 0 then (Inr empty_result, w)
      else
        let over = (case elkConfig of None \<Rightarrow> empty_config | Some c \<Rightarrow> c);
            mergedConfig = (spread_config flowchartConfig over)
              \<lparr>layoutOptions :=
                 Some (map_of flowchartConfig_layoutOptions
                         ++ (case layoutOptions over of None \<Rightarrow> Map.empty | Some l \<Rightarrow> l))\<rparr>;
            elkProcessor = new_ElkLayoutProcessor mergedConfig;
            layoutOptions' =
              with_defaults
                \<lparr>defaultNodeSize = Some (120, 50), autoCalculateSize = Some True,
                 edgeRouting = Some ORTHOGONAL, preserveNodeData = Some True\<rparr>
                options
        in applyLayoutToGraph elk elkProcessor layoutOptions' (or_int animationDuration 600) w)"

text \<open>
  \<^verbatim>\<open>createPresetConfig\<close> of \<^verbatim>\<open>ElkLayoutProcessor.ts\<close>: the table of presets, each
  bundle under a name of its own here, and the lookup
  \<^verbatim>\<open>presets[preset] || presets.flowchart\<close>. The bundles \<^verbatim>\<open>flowchart\<close> and \<^verbatim>\<open>clear\<close>
  are the same in both editions of the class.
\<close>

definition flowchart_preset :: ElkLayoutConfig where
  "flowchart_preset =
     \<lparr>algorithm = Some layered,
      direction = Some DOWN,
      spacing = Some \<lparr>nodeNodeBetweenLayers = Some 80, edgeNodeBetweenLayers = Some 40,
                      nodeNode = Some 60, edgeEdge = Some 20\<rparr>,
      useWorker = None,
      workerUrl = None,
      layoutOptions = Some (map_of
        [(''elk.edge.routing'', ''ORTHOGONAL''),
         (''elk.layered.crossingMinimization.strategy'', ''LAYER_SWEEP''),
         (''elk.layered.nodePlacement.strategy'', ''BRANDES_KOEPF''),
         (''elk.alignment'', ''CENTER''),
         (''elk.layered.nodePlacement.favorStraightEdges'', ''true''),
         (''elk.layered.nodePlacement.linearSegmentsDeflectionDampening'', ''0.3''),
         (''elk.layered.unnecessaryBendpoints'', ''true''),
         (''elk.layered.compaction.postCompaction.strategy'', ''EDGE_LENGTH''),
         (''elk.layered.compaction.postCompaction.constraints'', ''SEQUENCE''),
         (''elk.layered.edgeRouting.selfLoopDistribution'', ''EQUALLY''),
         (''elk.layered.edgeRouting.selfLoopOrdering'', ''STACKED''),
         (''elk.layered.edgeRouting.splines.mode'', ''CONSERVATIVE''),
         (''elk.layered.thoroughness'', ''100''),
         (''elk.layered.cycleBreaking.strategy'', ''GREEDY''),
         (''elk.portConstraints'', ''FIXED_SIDE''),
         (''elk.portAlignment'', ''CENTER'')])\<rparr>"

definition clear_preset :: ElkLayoutConfig where
  "clear_preset =
     \<lparr>algorithm = Some layered,
      direction = Some DOWN,
      spacing = Some \<lparr>nodeNodeBetweenLayers = Some 120, edgeNodeBetweenLayers = Some 60,
                      nodeNode = Some 80, edgeEdge = Some 40\<rparr>,
      useWorker = None,
      workerUrl = None,
      layoutOptions = Some (map_of
        [(''elk.layered.crossingMinimization.strategy'', ''LAYER_SWEEP''),
         (''elk.layered.nodePlacement.strategy'', ''SIMPLE''),
         (''elk.edge.routing'', ''ORTHOGONAL''),
         (''elk.layered.unnecessaryBendpoints'', ''true''),
         (''elk.spacing.portPort'', ''20''),
         (''elk.layered.thoroughness'', ''100'')])\<rparr>"

definition hierarchy_preset :: ElkLayoutConfig where
  "hierarchy_preset =
     \<lparr>algorithm = Some mrtree, direction = Some DOWN,
      spacing = Some \<lparr>nodeNodeBetweenLayers = Some 60, edgeNodeBetweenLayers = Some 30,
                      nodeNode = Some 40, edgeEdge = Some 20\<rparr>,
      useWorker = None, workerUrl = None, layoutOptions = None\<rparr>"

definition network_preset :: ElkLayoutConfig where
  "network_preset =
     \<lparr>algorithm = Some force, direction = Some UNDEFINED,
      spacing = Some \<lparr>nodeNodeBetweenLayers = None, edgeNodeBetweenLayers = None,
                      nodeNode = Some 50, edgeEdge = Some 25\<rparr>,
      useWorker = None, workerUrl = None, layoutOptions = None\<rparr>"

definition circular_preset :: ElkLayoutConfig where
  "circular_preset =
     \<lparr>algorithm = Some radial, direction = Some UNDEFINED,
      spacing = Some \<lparr>nodeNodeBetweenLayers = None, edgeNodeBetweenLayers = None,
                      nodeNode = Some 60, edgeEdge = Some 30\<rparr>,
      useWorker = None, workerUrl = None, layoutOptions = None\<rparr>"

definition presets :: "(string \<times> ElkLayoutConfig) list" where
  "presets =
     [(''flowchart'', flowchart_preset),
      (''hierarchy'', hierarchy_preset),
      (''network'', network_preset),
      (''circular'', circular_preset),
      (''clear'', clear_preset)]"

definition createPresetConfig :: "string \<Rightarrow> ElkLayoutConfig js_member" where
  "createPresetConfig preset = or_member (js_get presets preset) (js_get presets ''flowchart'')"

text \<open>
  \<^verbatim>\<open>createPresetConfig\<close> of the JavaScript edition of the class (the one that has
  \<^verbatim>\<open>smartLayout\<close>): other values for three presets, and a sixth preset, \<^verbatim>\<open>compact\<close>.
\<close>

definition hierarchy_preset_js :: ElkLayoutConfig where
  "hierarchy_preset_js =
     \<lparr>algorithm = Some mrtree, direction = Some DOWN,
      spacing = Some \<lparr>nodeNodeBetweenLayers = Some 100, edgeNodeBetweenLayers = Some 50,
                      nodeNode = Some 60, edgeEdge = Some 30\<rparr>,
      useWorker = None, workerUrl = None,
      layoutOptions = Some (map_of
        [(''elk.mrtree.searchOrder'', ''DFS''),
         (''elk.edge.routing'', ''POLYLINE'')])\<rparr>"

definition network_preset_js :: ElkLayoutConfig where
  "network_preset_js =
     \<lparr>algorithm = Some force, direction = Some UNDEFINED,
      spacing = Some \<lparr>nodeNodeBetweenLayers = None, edgeNodeBetweenLayers = None,
                      nodeNode = Some 80, edgeEdge = Some 40\<rparr>,
      useWorker = None, workerUrl = None,
      layoutOptions = Some (map_of
        [(''elk.force.repulsion'', ''200.0''),
         (''elk.force.attraction'', ''0.1''),
         (''elk.force.iterations'', ''300''),
         (''elk.edge.routing'', ''SPLINES'')])\<rparr>"

definition circular_preset_js :: ElkLayoutConfig where
  "circular_preset_js =
     \<lparr>algorithm = Some radial, direction = Some UNDEFINED,
      spacing = Some \<lparr>nodeNodeBetweenLayers = None, edgeNodeBetweenLayers = None,
                      nodeNode = Some 100, edgeEdge = Some 50\<rparr>,
      useWorker = None, workerUrl = None,
      layoutOptions = Some (map_of
        [(''elk.radial.radius'', ''150.0''),
         (''elk.radial.compaction'', ''true''),
         (''elk.edge.routing'', ''SPLINES'')])\<rparr>"

definition compact_preset_js :: ElkLayoutConfig where
  "compact_preset_js =
     \<lparr>algorithm = Some layered, direction = Some RIGHT,
      spacing = Some \<lparr>nodeNodeBetweenLayers = Some 40, edgeNodeBetweenLayers = Some 20,
                      nodeNode = Some 30, edgeEdge = Some 15\<rparr>,
      useWorker = None, workerUrl = None,
      layoutOptions = Some (map_of
        [(''elk.layered.compaction.connectedComponents'', ''true''),
         (''elk.layered.compaction.postCompaction.strategy'', ''EDGE_LENGTH''),
         (''elk.edge.routing'', ''ORTHOGONAL'')])\<rparr>"

definition presets_js :: "(string \<times> ElkLayoutConfig) list" where
  "presets_js =
     [(''flowchart'', flowchart_preset),
      (''hierarchy'', hierarchy_preset_js),
      (''network'', network_preset_js),
      (''circular'', circular_preset_js),
      (''compact'', compact_preset_js),
      (''clear'', clear_preset)]"

definition createPresetConfig_js :: "string \<Rightarrow> ElkLayoutConfig js_member" where
  "createPresetConfig_js preset =
     or_member (js_get presets_js preset) (js_get presets_js ''flowchart'')"

text \<open>
  What the caller of \<^verbatim>\<open>createPresetConfig\<close> reads as a configuration: the bundle
  itself, while a member inherited from \<^verbatim>\<open>Object.prototype\<close> has none of the
  configuration properties.
\<close>

definition as_config :: "ElkLayoutConfig js_member \<Rightarrow> ElkLayoutConfig" where
  "as_config m = (case m of Own c \<Rightarrow> c | _ \<Rightarrow> empty_config)"

text \<open>
  \<^verbatim>\<open>smartLayout\<close> (JavaScript edition). \<open>degreeMap_of\<close> is the \<^verbatim>\<open>forEach\<close> that counts
  the endpoints of the edges in a \<^verbatim>\<open>Map\<close>; \<open>scale_spacing\<close> is the loop over
  \<^verbatim>\<open>Object.keys(layoutConfig.spacing)\<close>; \<open>smartLayout_plan\<close> is the body of
  \<^verbatim>\<open>smartLayout\<close> between the guard on an empty graph and the construction of the
  processor: it yields the configuration, the conversion options and the animation
  duration that the rest of the function uses.
\<close>

definition degreeMap_of :: "(string \<times> string) list \<Rightarrow> (string \<times> int) list" where
  "degreeMap_of ends =
     foldl (\<lambda>degreeMap e.
              (let source = fst e;
                   target = snd e;
                   dm = AList.update source (or_int (map_of degreeMap source) 0 + 1) degreeMap
               in AList.update target (or_int (map_of dm target) 0 + 1) dm))
           [] ends"

definition maxDegree_of :: "(string \<times> int) list \<Rightarrow> int" where
  "maxDegree_of degreeMap = fold max (map snd degreeMap) 0"

definition scale_spacing :: "rat \<Rightarrow> spacing_config \<Rightarrow> spacing_config" where
  "scale_spacing spacingMultiplier sp =
     \<lparr>nodeNodeBetweenLayers =
        map_option (\<lambda>v. Math_round (of_int v * spacingMultiplier)) (nodeNodeBetweenLayers sp),
      edgeNodeBetweenLayers =
        map_option (\<lambda>v. Math_round (of_int v * spacingMultiplier)) (edgeNodeBetweenLayers sp),
      nodeNode = map_option (\<lambda>v. Math_round (of_int v * spacingMultiplier)) (nodeNode sp),
      edgeEdge = map_option (\<lambda>v. Math_round (of_int v * spacingMultiplier)) (edgeEdge sp)\<rparr>"

definition graph_density :: "world \<Rightarrow> jsnum" where
  "graph_density w =
     (let nodeCount = int (length (graph_nodes w));
          edgeCount = int (length (graph_edges w))
      in js_div edgeCount (nodeCount * (nodeCount - 1) div 2))"

definition graph_maxDegree :: "world \<Rightarrow> int" where
  "graph_maxDegree w =
     maxDegree_of (degreeMap_of
       (map (\<lambda>edge. (edge_source (edge_heap w edge), edge_target (edge_heap w edge)))
            (graph_edges w)))"

text \<open>
  The degree of an identifier in the words of the specification: the number of edge ends
  at it, an edge from a node to itself counting twice. It is what the count in the \<^verbatim>\<open>Map\<close>
  is compared with.
\<close>

definition degree_of :: "(string \<times> string) list \<Rightarrow> string \<Rightarrow> int" where
  "degree_of ends i =
     int (length (filter (\<lambda>e. fst e = i) ends)) + int (length (filter (\<lambda>e. snd e = i) ends))"

definition smartLayout_plan ::
  "world \<Rightarrow> X6ToElkOptions \<Rightarrow> ElkLayoutConfig \<times> X6ToElkOptions \<times> int" where
  "smartLayout_plan w options =
     (let nodeCount = int (length (graph_nodes w));
          density = graph_density w;
          maxDegree = graph_maxDegree w;
          layoutOptions' =
            with_defaults
              \<lparr>defaultNodeSize = Some (120, 50), autoCalculateSize = Some True,
               edgeRouting = Some ORTHOGONAL, preserveNodeData = None\<rparr>
              options;
          chosen =
            (if nodeCount \<le> 10 \<and> js_lt density (3 / 10)
             then (as_config (createPresetConfig_js ''clear''), layoutOptions')
             else if nodeCount \<le> 20 \<and> maxDegree \<le> 3
             then (as_config (createPresetConfig_js ''flowchart''), layoutOptions')
             else if js_gt density (1 / 2) \<or> 5 < maxDegree
             then (as_config (createPresetConfig_js ''network''),
                   layoutOptions'\<lparr>edgeRouting := Some SPLINES\<rparr>)
             else if 30 < nodeCount
             then (as_config (createPresetConfig_js ''compact''), layoutOptions')
             else (as_config (createPresetConfig_js ''hierarchy''), layoutOptions'));
          layoutConfig = fst chosen;
          spacingMultiplier = max 1 (min 2 (of_int nodeCount / 15));
          scaled = layoutConfig
            \<lparr>spacing := map_option (scale_spacing spacingMultiplier) (spacing layoutConfig)\<rparr>
      in (scaled, snd chosen, min 800 (nodeCount * 20)))"

definition smartLayout ::
  "engine \<Rightarrow> X6ToElkOptions \<Rightarrow> world \<Rightarrow> (layout_error + ElkLayoutResult) \<times> world" where
  "smartLayout elk options w =
     (if length (graph_nodes w) = 0 then (Inr empty_result, w)
      else case smartLayout_plan w options of
             (layoutConfig, layoutOptions', animationDuration) \<Rightarrow>
               applyLayoutToGraph elk (new_ElkLayoutProcessor layoutConfig)
                 layoutOptions' animationDuration w)"

text \<open>
  The changing calls a layout result asks for, in the words of the apply step: one
  \<^verbatim>\<open>position\<close> call per result node that has an original, with the transition when
  the duration is positive, then one \<^verbatim>\<open>setVertices\<close> call per result edge that has an
  original and a bend-point list that is not empty. They are what \<open>applyResult\<close> is
  compared with.
\<close>

definition node_writes :: "int \<Rightarrow> result_node list \<Rightarrow> x6_call list" where
  "node_writes animationDuration rs =
     concat (map (\<lambda>r. case originalNode r of
                          None \<Rightarrow> []
                        | Some node \<Rightarrow>
                            [SetPosition node (rn_x r) (rn_y r)
                               (if 0 < animationDuration then Some animationDuration else None)])
                 rs)"

definition edge_writes :: "result_edge list \<Rightarrow> x6_call list" where
  "edge_writes rs =
     concat (map (\<lambda>r. case (originalEdge r, re_vertices r) of
                          (Some edge, Some vertices) \<Rightarrow>
                            if vertices = [] then [] else [SetVertices edge vertices]
                        | _ \<Rightarrow> [])
                 rs)"

fun written_node :: "x6_call \<Rightarrow> ref option" where
  "written_node (SetPosition node x y transition) = Some node"
| "written_node (SetVertices edge vertices) = None"

fun written_edge :: "x6_call \<Rightarrow> ref option" where
  "written_edge (SetPosition node x y transition) = None"
| "written_edge (SetVertices edge vertices) = Some edge"

section \<open>Concrete inputs\<close>

text \<open>
  The inputs at which the theorems below are instantiated: a processor built with no
  configuration, a call without options, an engine that returns the descriptor it is
  given, and the graphs. \<open>abc_world\<close> has the nodes \<^verbatim>\<open>A\<close>, \<^verbatim>\<open>B\<close>, \<^verbatim>\<open>C\<close> (objects
  10, 11, 12) and the edges \<^verbatim>\<open>A\<close> to \<^verbatim>\<open>B\<close> and \<^verbatim>\<open>B\<close> to \<^verbatim>\<open>C\<close> (objects 20 and 21), the
  first with one vertex from an earlier layout. \<open>twins_world\<close> has no graph, only two
  different node objects that both carry the identifier \<^verbatim>\<open>A\<close>. \<open>empty_world\<close> is a
  graph without nodes. \<open>sixteen_world\<close> is a graph of sixteen nodes and no edge.
\<close>

definition example_node :: "string \<Rightarrow> x6node" where
  "example_node name =
     \<lparr>node_id = name, node_position = (0, 0), node_size = (80, 40),
      node_label = Some name, node_attrs_text_text = None, node_attrs_label_text = None\<rparr>"

definition example_edge :: "string \<Rightarrow> string \<Rightarrow> string \<Rightarrow> point list \<Rightarrow> x6edge" where
  "example_edge name source target vertices =
     \<lparr>edge_id = name, edge_source = source, edge_target = target, edge_vertices = vertices\<rparr>"

definition default_processor :: processor_config where
  "default_processor = new_ElkLayoutProcessor empty_config"

definition no_options :: X6ToElkOptions where
  "no_options =
     \<lparr>defaultNodeSize = None, autoCalculateSize = None, edgeRouting = None,
      preserveNodeData = None\<rparr>"

definition echo_engine :: engine where
  "echo_engine elkGraph = Inr elkGraph"

definition abc_world :: world where
  "abc_world =
     \<lparr>node_heap = (\<lambda>r. example_node ''C'')(10 := example_node ''A'', 11 := example_node ''B''),
      edge_heap = (\<lambda>r. example_edge ''e2'' ''B'' ''C'' [])
                    (20 := example_edge ''e1'' ''A'' ''B'' [(7, 7)]),
      graph_nodes = [10, 11, 12],
      graph_edges = [20, 21],
      x6_calls = [],
      elk_calls = []\<rparr>"

definition twins_world :: world where
  "twins_world =
     \<lparr>node_heap = (\<lambda>r. example_node ''A''),
      edge_heap = (\<lambda>r. example_edge ''e'' ''A'' ''A'' []),
      graph_nodes = [],
      graph_edges = [],
      x6_calls = [],
      elk_calls = []\<rparr>"

definition empty_world :: world where
  "empty_world =
     \<lparr>node_heap = (\<lambda>r. example_node ''A''),
      edge_heap = (\<lambda>r. example_edge ''e'' ''A'' ''A'' []),
      graph_nodes = [],
      graph_edges = [],
      x6_calls = [],
      elk_calls = []\<rparr>"

definition sixteen_world :: world where
  "sixteen_world =
     \<lparr>node_heap = (\<lambda>r. example_node (digits r)),
      edge_heap = (\<lambda>r. example_edge ''e'' ''0'' ''1'' []),
      graph_nodes = [0, 1, 2, 3, 4, 5, 6, 7, 8, 9, 10, 11, 12, 13, 14, 15],
      graph_edges = [],
      x6_calls = [],
      elk_calls = []\<rparr>"

text \<open>
  \<open>graph_of n ends\<close> is a graph of \<open>n\<close> nodes, named \<^verbatim>\<open>0\<close>, \<^verbatim>\<open>1\<close>, ... in decimal, with one
  edge per pair of \<open>ends\<close>, from the first identifier to the second. \<open>star k\<close> lists \<open>k\<close>
  edges, up to six, from node \<^verbatim>\<open>0\<close> to the nodes \<^verbatim>\<open>1\<close>, ..., \<open>k\<close>, and \<open>complete_five\<close> the
  ten edges between five nodes.
\<close>

definition graph_of :: "nat \<Rightarrow> (string \<times> string) list \<Rightarrow> world" where
  "graph_of n ends =
     \<lparr>node_heap = (\<lambda>r. example_node (digits r)),
      edge_heap = (\<lambda>r. if r < length ends
                         then example_edge (CHR ''e'' # digits r) (fst (ends ! r)) (snd (ends ! r)) []
                         else example_edge ''e'' ''0'' ''0'' []),
      graph_nodes = [0..<n],
      graph_edges = [0..<length ends],
      x6_calls = [],
      elk_calls = []\<rparr>"

definition star :: "nat \<Rightarrow> (string \<times> string) list" where
  "star k =
     take k [(''0'', ''1''), (''0'', ''2''), (''0'', ''3''), (''0'', ''4''), (''0'', ''5''),
             (''0'', ''6'')]"

definition complete_five :: "(string \<times> string) list" where
  "complete_five =
     [(''0'', ''1''), (''0'', ''2''), (''0'', ''3''), (''0'', ''4''), (''1'', ''2''),
      (''1'', ''3''), (''1'', ''4''), (''2'', ''3''), (''2'', ''4''), (''3'', ''4'')]"

text \<open>
  A layout result for \<open>abc_world\<close>: node \<^verbatim>\<open>A\<close> moved, an entry whose original is gone,
  and one bend point for the first edge. And an engine that is down.
\<close>

definition example_result :: ElkLayoutResult where
  "example_result =
     \<lparr>res_nodes =
        [\<lparr>rn_id = ''A'', rn_x = 12, rn_y = 34, rn_width = 80, rn_height = 40,
          originalNode = Some 10\<rparr>,
         \<lparr>rn_id = ''gone'', rn_x = 5, rn_y = 6, rn_width = 80, rn_height = 40,
          originalNode = None\<rparr>],
      res_edges =
        [\<lparr>re_id = ''e1'', re_source = ''A'', re_target = ''B'', re_vertices = Some [(1, 2)],
          originalEdge = Some 20\<rparr>],
      layoutSize = (100, 100)\<rparr>"

definition failing_engine :: engine where
  "failing_engine elkGraph = Inl (EngineFailure ''layout failed'')"

text \<open>
  What an engine may return for \<open>abc_world\<close> while the graph changes: the children out of
  order, a child \<^verbatim>\<open>Z\<close> and an edge \<^verbatim>\<open>zz\<close> that no original has.
\<close>

definition returned_node :: "string \<Rightarrow> elk_node" where
  "returned_node name =
     \<lparr>elk_id = name, elk_x = Some 12, elk_y = Some 34, elk_width = Some 80,
      elk_height = Some 40, elk_x6Data = None, elk_labels = None\<rparr>"

definition returned_edge :: "string \<Rightarrow> elk_edge" where
  "returned_edge name =
     \<lparr>elk_edge_id = name, elk_sources = None, elk_targets = None, elk_sections = None,
      elk_edge_x6Data = None\<rparr>"

definition stale_graph :: elk_graph where
  "stale_graph =
     \<lparr>root_id = ''root'',
      root_layoutOptions = Map.empty,
      root_children = Some [returned_node ''B'', returned_node ''Z'', returned_node ''A''],
      root_edges = Some [returned_edge ''e2'', returned_edge ''zz''],
      root_width = Some 300,
      root_height = Some 200\<rparr>"

section \<open>AsyncBatchProcessor: the batching loop\<close>

declare batches_of.simps [simp del]

lemma js_slice_take_drop:
  assumes "0 \<le> i" and "i \<le> e" and "e \<le> int (length xs)"
  shows "js_slice xs i e = take (nat (e - i)) (drop (nat i) xs)"
  using assms by (simp add: js_slice_def Let_def min_def)

lemma batches_of_nonempty: "batches_of n xs \<noteq> []"
  by (subst batches_of.simps) simp

lemma concat_batches_of: "concat (batches_of n xs) = xs"
proof (induction n xs rule: batches_of.induct)
  case (1 n xs)
  show ?case
  proof (cases "n = 0 \<or> length xs \<le> n")
    case True
    then show ?thesis by (subst batches_of.simps) simp
  next
    case False
    with 1 show ?thesis by (subst batches_of.simps) simp
  qed
qed

lemma butlast_batches_of_length:
  "b \<in> set (butlast (batches_of n xs)) \<Longrightarrow> length b = n"
proof (induction n xs rule: batches_of.induct)
  case (1 n xs)
  show ?case
  proof (cases "n = 0 \<or> length xs \<le> n")
    case True
    with "1.prems" show ?thesis by (subst (asm) batches_of.simps) simp
  next
    case False
    from False have unfold: "batches_of n xs = take n xs # batches_of n (drop n xs)"
      by (subst batches_of.simps) simp
    from "1.prems" have "b = take n xs \<or> b \<in> set (butlast (batches_of n (drop n xs)))"
      by (simp add: unfold batches_of_nonempty)
    then show ?thesis
    proof
      assume "b = take n xs"
      with False show ?thesis by simp
    next
      assume "b \<in> set (butlast (batches_of n (drop n xs)))"
      with False "1.IH" show ?thesis by simp
    qed
  qed
qed

lemma last_batches_of_length:
  "0 < n \<Longrightarrow> length (last (batches_of n xs)) \<le> n"
proof (induction n xs rule: batches_of.induct)
  case (1 n xs)
  show ?case
  proof (cases "n = 0 \<or> length xs \<le> n")
    case True
    with "1.prems" show ?thesis by (subst batches_of.simps) simp
  next
    case False
    from False have unfold: "batches_of n xs = take n xs # batches_of n (drop n xs)"
      by (subst batches_of.simps) simp
    from False "1.IH" "1.prems" show ?thesis
      by (simp add: unfold batches_of_nonempty)
  qed
qed

lemma call_args_batch_events:
  "call_args (batch_events onProgress tot processed bs) = bs"
  by (induction bs arbitrary: processed) (auto simp add: Let_def)

text \<open>
  With a positive batch size the loop ends, from every index it can reach: it appends the
  transform of each remaining batch and produces the events of these batches.
\<close>

lemma processNextBatch_resolves:
  assumes "0 < batchSize" and "0 \<le> currentIndex s"
    and "currentIndex s < int (length xs) \<or> (currentIndex s = 0 \<and> xs = [])"
  shows "processNextBatch xs batchSize f p s =
           Some \<lparr>allResults = allResults s
                     @ map f (batches_of (nat batchSize) (drop (nat (currentIndex s)) xs)),
                 currentIndex = int (length xs),
                 trace = trace s @ batch_events p (int (length xs)) (currentIndex s)
                           (batches_of (nat batchSize) (drop (nat (currentIndex s)) xs))\<rparr>"
  using assms
proof (induction "nat (int (length xs) - currentIndex s)" arbitrary: s rule: less_induct)
  case less
  let ?i = "currentIndex s"
  let ?len = "int (length xs)"
  let ?n = "nat batchSize"
  show ?case
  proof (cases "?i + batchSize < ?len")
    case True
    let ?b = "take ?n (drop (nat ?i) xs)"
    let ?s' = "\<lparr>allResults = allResults s @ [f ?b], currentIndex = ?i + batchSize,
                 trace = (trace s @ [Call ?b]
                    @ (if p then [Progress (js_div (?i + batchSize) ?len) (?i + batchSize) ?len] else []))
                    @ [Frame]\<rparr>"
    have slice: "js_slice xs ?i (?i + batchSize) = ?b"
      using True less.prems by (simp add: js_slice_take_drop)
    have step: "processNextBatch xs batchSize f p s = processNextBatch xs batchSize f p ?s'"
      using True less.prems
      by (subst processNextBatch.simps) (simp add: Let_def slice min_def)
    have lenb: "int (length ?b) = batchSize"
      using True less.prems by simp
    have dd: "drop ?n (drop (nat ?i) xs) = drop (nat (?i + batchSize)) xs"
      using less.prems by (simp add: nat_add_distrib add.commute)
    have bo: "batches_of ?n (drop (nat ?i) xs)
                = ?b # batches_of ?n (drop (nat (?i + batchSize)) xs)"
    proof -
      have "\<not> (?n = 0 \<or> length (drop (nat ?i) xs) \<le> ?n)"
        using True less.prems by auto
      then show ?thesis
        by (subst batches_of.simps) (simp only: if_False dd)
    qed
    have ih: "processNextBatch xs batchSize f p ?s' =
           Some \<lparr>allResults = allResults ?s'
                     @ map f (batches_of ?n (drop (nat (currentIndex ?s')) xs)),
                 currentIndex = ?len,
                 trace = trace ?s' @ batch_events p ?len (currentIndex ?s')
                           (batches_of ?n (drop (nat (currentIndex ?s')) xs))\<rparr>"
      using True less.prems by (intro less.hyps) simp_all
    show ?thesis
      unfolding step ih bo using batches_of_nonempty [of ?n "drop (nat (?i + batchSize)) xs"] lenb
      by (simp add: Let_def)
  next
    case False
    have be: "min (?i + batchSize) ?len = ?len" using False by simp
    have slice: "js_slice xs ?i ?len = drop (nat ?i) xs"
      using less.prems by (auto simp add: js_slice_take_drop)
    have bo: "batches_of ?n (drop (nat ?i) xs) = [drop (nat ?i) xs]"
      using False less.prems by (subst batches_of.simps) auto
    have lend: "?i + int (length xs - nat ?i) = ?len"
      using less.prems by auto
    show ?thesis
      using lend less.prems(2)
      by (subst processNextBatch.simps) (simp add: Let_def be slice bo)
  qed
qed

text \<open>
  Two facts about every run that resolves, by induction over the unfolding of the loop:
  the loop was not started with a batch size of at most zero before the end of the array
  (from there the index never reaches the end), and the result list is not empty (a
  result is pushed before the loop looks at the index).
\<close>

lemma processNextBatch_Some_progress:
  assumes run: "processNextBatch xs batchSize f p s = Some y"
  shows "\<not> (batchSize \<le> 0 \<and> currentIndex s + batchSize < int (length xs))"
proof (rule processNextBatch.raw_induct
    [where P = "\<lambda>xs batchSize f p s y.
                  \<not> (batchSize \<le> 0 \<and> currentIndex s + batchSize < int (length xs))",
     OF _ run])
  fix rec :: "'a list \<Rightarrow> int \<Rightarrow> ('a list \<Rightarrow> 'b) \<Rightarrow> bool \<Rightarrow> ('a, 'b) batch_state
                \<Rightarrow> ('a, 'b) batch_state option"
  fix xs batchSize f p s y
  assume IH: "\<And>xs batchSize f p s y. rec xs batchSize f p s = Some y \<Longrightarrow>
                \<not> (batchSize \<le> 0 \<and> currentIndex s + batchSize < int (length xs))"
  assume body:
    "(let total = int (length xs);
          batchEnd = min (currentIndex s + batchSize) total;
          currentBatch = js_slice xs (currentIndex s) batchEnd;
          batchResult = f currentBatch;
          progress = js_div batchEnd total;
          s' = \<lparr>allResults = allResults s @ [batchResult],
                currentIndex = batchEnd,
                trace = trace s @ [Call currentBatch]
                          @ (if p then [Progress progress batchEnd total] else [])\<rparr>
      in if batchEnd < total
         then rec xs batchSize f p (s'\<lparr>trace := trace s' @ [Frame]\<rparr>)
         else Some s') = Some y"
  show "\<not> (batchSize \<le> 0 \<and> currentIndex s + batchSize < int (length xs))"
  proof
    assume stuck: "batchSize \<le> 0 \<and> currentIndex s + batchSize < int (length xs)"
    let ?s' = "\<lparr>allResults = allResults s
                    @ [f (js_slice xs (currentIndex s) (currentIndex s + batchSize))],
                 currentIndex = currentIndex s + batchSize,
                 trace = (trace s
                    @ [Call (js_slice xs (currentIndex s) (currentIndex s + batchSize))]
                    @ (if p then [Progress (js_div (currentIndex s + batchSize) (int (length xs)))
                                    (currentIndex s + batchSize) (int (length xs))] else []))
                    @ [Frame]\<rparr>"
    from stuck have be: "min (currentIndex s + batchSize) (int (length xs))
                           = currentIndex s + batchSize"
      by simp
    from stuck body have "rec xs batchSize f p ?s' = Some y"
      by (cases p) (simp_all add: Let_def be)
    then have "\<not> (batchSize \<le> 0 \<and> currentIndex ?s' + batchSize < int (length xs))"
      by (rule IH)
    with stuck show False by simp
  qed
qed

lemma processNextBatch_never_resolves:
  assumes "batchSize \<le> 0" and "currentIndex s + batchSize < int (length xs)"
  shows "processNextBatch xs batchSize f p s = None"
proof (cases "processNextBatch xs batchSize f p s")
  case None
  then show ?thesis .
next
  case (Some y)
  from processNextBatch_Some_progress [OF Some] assms show ?thesis by simp
qed

lemma processNextBatch_results_nonempty:
  assumes run: "processNextBatch xs batchSize f p s = Some y"
  shows "allResults y \<noteq> []"
proof (rule processNextBatch.raw_induct
    [where P = "\<lambda>xs batchSize f p s y. allResults y \<noteq> []", OF _ run])
  fix rec :: "'a list \<Rightarrow> int \<Rightarrow> ('a list \<Rightarrow> 'b) \<Rightarrow> bool \<Rightarrow> ('a, 'b) batch_state
                \<Rightarrow> ('a, 'b) batch_state option"
  fix xs batchSize f p s y
  assume IH: "\<And>xs batchSize f p s y. rec xs batchSize f p s = Some y \<Longrightarrow> allResults y \<noteq> []"
  assume body:
    "(let total = int (length xs);
          batchEnd = min (currentIndex s + batchSize) total;
          currentBatch = js_slice xs (currentIndex s) batchEnd;
          batchResult = f currentBatch;
          progress = js_div batchEnd total;
          s' = \<lparr>allResults = allResults s @ [batchResult],
                currentIndex = batchEnd,
                trace = trace s @ [Call currentBatch]
                          @ (if p then [Progress progress batchEnd total] else [])\<rparr>
      in if batchEnd < total
         then rec xs batchSize f p (s'\<lparr>trace := trace s' @ [Frame]\<rparr>)
         else Some s') = Some y"
  show "allResults y \<noteq> []"
    using body by (auto simp add: Let_def split: if_splits dest: IH)
qed

lemma processBatches_run_positive:
  assumes "0 < batchSize"
  shows "processBatches_run xs batchSize f p =
           Some \<lparr>allResults = map f (batches_of (nat batchSize) xs),
                 currentIndex = int (length xs),
                 trace = batch_events p (int (length xs)) 0 (batches_of (nat batchSize) xs)\<rparr>"
proof -
  let ?s0 = "\<lparr>allResults = [], currentIndex = 0, trace = []\<rparr> :: ('a, 'b) batch_state"
  have "currentIndex ?s0 < int (length xs) \<or> (currentIndex ?s0 = 0 \<and> xs = [])"
    by (cases xs) simp_all
  from processNextBatch_resolves [OF assms _ this, of f p] show ?thesis
    by (simp add: processBatches_run_def)
qed

lemma processBatches_positive:
  assumes "0 < batchSize"
  shows "processBatches xs batchSize f p = Some (map f (batches_of (nat batchSize) xs))"
  by (simp add: processBatches_def processBatches_run_positive [OF assms])

lemma processBatches_run_empty:
  assumes "0 \<le> batchSize"
  shows "processBatches_run [] batchSize f p =
           Some \<lparr>allResults = [f []], currentIndex = 0,
                 trace = Call [] # (if p then [Progress NaN 0 0] else [])\<rparr>"
  using assms
  by (simp add: processBatches_run_def processNextBatch.simps [of "[]"] Let_def
      js_slice_def js_div_def)

section \<open>AsyncBatchProcessor: merging the batch results\<close>

lemma mergeField_not_guard: "mergeField current merged kv \<noteq> Inl NoBatchesToMerge"
  by (simp add: mergeField_def hasOwnProperty_call_def Let_def split: option.split)

lemma for_in_not_guard: "for_in current merged kvs \<noteq> Inl NoBatchesToMerge"
proof (induction kvs arbitrary: merged)
  case Nil
  then show ?case by simp
next
  case (Cons kv kvs)
  show ?case
  proof (cases "mergeField current merged kv")
    case (Inl e)
    with mergeField_not_guard [of current merged kv] show ?thesis by simp
  next
    case (Inr m)
    with Cons.IH show ?thesis by simp
  qed
qed

lemma mergeResults_not_guard: "mergeResults merged later \<noteq> Inl NoBatchesToMerge"
proof (induction later arbitrary: merged)
  case Nil
  then show ?case by simp
next
  case (Cons current later)
  show ?case
  proof (cases "mergeInto merged current")
    case (Inl e)
    with for_in_not_guard [of current merged "DAList.impl_of current"] show ?thesis
      by (simp add: mergeInto_def)
  next
    case (Inr m)
    with Cons.IH show ?thesis by simp
  qed
qed

lemma autoMerge_not_guard: "rs \<noteq> [] \<Longrightarrow> autoMerge rs \<noteq> Inl NoBatchesToMerge"
proof -
  assume "rs \<noteq> []"
  let ?m = "mergeResults \<lparr>own_fields = rs ! 0, prototype_array = None\<rparr> (drop 1 rs)"
  show ?thesis
  proof (cases ?m)
    case (Inl e)
    with mergeResults_not_guard [of "\<lparr>own_fields = rs ! 0, prototype_array = None\<rparr>" "drop 1 rs"]
    show ?thesis using \<open>rs \<noteq> []\<close> by (simp add: autoMerge_def)
  next
    case (Inr m)
    then show ?thesis using \<open>rs \<noteq> []\<close> by (simp add: autoMerge_def)
  qed
qed

lemma autoMerge_single: "autoMerge [r] = Inr r"
  by (simp add: autoMerge_def)

lemma mergeField_shadowed:
  "DAList.lookup current ''hasOwnProperty'' = Some v
     \<Longrightarrow> mergeField current merged kv = Inl TypeError"
  by (simp add: mergeField_def hasOwnProperty_call_def Let_def)

lemma mergeInto_shadowed:
  assumes "DAList.lookup current ''hasOwnProperty'' = Some v"
  shows "mergeInto merged current = Inl TypeError"
proof (cases "DAList.impl_of current")
  case Nil
  with assms show ?thesis by (simp add: DAList.lookup.rep_eq)
next
  case (Cons kv kvs)
  then show ?thesis by (simp add: mergeInto_def mergeField_shadowed [OF assms])
qed

lemma mergeField_own:
  assumes "DAList.lookup current ''hasOwnProperty'' = None"
    and "(k, v) \<in> set (DAList.impl_of current)"
  shows "mergeField current merged (k, v) =
           Inr (set_member merged k
                  (if isArray (Some v) \<and> isArray (get_member merged k)
                   then Arr (elements (get_member merged k) @ elements (Some v))
                   else v))"
proof -
  have "distinct (map fst (DAList.impl_of current))" by simp
  with assms(2) have "DAList.lookup current k = Some v"
    by (simp add: DAList.lookup.rep_eq)
  with assms(1) show ?thesis
    by (simp add: mergeField_def hasOwnProperty_call_def Let_def)
qed

lemma for_in_resolves:
  assumes "DAList.lookup current ''hasOwnProperty'' = None"
    and "set kvs \<subseteq> set (DAList.impl_of current)"
  shows "\<exists>m. for_in current merged kvs = Inr m"
  using assms(2)
proof (induction kvs arbitrary: merged)
  case Nil
  then show ?case by simp
next
  case (Cons kv kvs)
  obtain k v where kv: "kv = (k, v)" by (cases kv)
  with Cons.prems have "(k, v) \<in> set (DAList.impl_of current)" by simp
  from mergeField_own [OF assms(1) this] Cons.IH Cons.prems show ?case
    by (simp add: kv)
qed

lemma mergeInto_resolves:
  "DAList.lookup current ''hasOwnProperty'' = None \<Longrightarrow> \<exists>m. mergeInto merged current = Inr m"
  unfolding mergeInto_def by (rule for_in_resolves) simp_all

lemma mergeResults_TypeError:
  "mergeResults merged later = Inl TypeError
     \<longleftrightarrow> (\<exists>r \<in> set later. DAList.lookup r ''hasOwnProperty'' \<noteq> None)"
proof (induction later arbitrary: merged)
  case Nil
  then show ?case by simp
next
  case (Cons current later)
  show ?case
  proof (cases "DAList.lookup current ''hasOwnProperty''")
    case None
    from mergeInto_resolves [OF this] obtain m where "mergeInto merged current = Inr m" ..
    with None Cons.IH [of m] show ?thesis by simp
  next
    case (Some v)
    from mergeInto_shadowed [OF this] Some show ?thesis by simp
  qed
qed

lemma get_member_plain:
  "prototype_array merged = None \<Longrightarrow> get_member merged key = DAList.lookup (own_fields merged) key"
  by (simp add: get_member_def split: option.split)

lemma set_member_plain:
  "key \<noteq> ''__proto__'' \<Longrightarrow>
     set_member merged key v = merged\<lparr>own_fields := DAList.update key v (own_fields merged)\<rparr>"
  by (simp add: set_member_def)

lemma mergeValue_None [simp]: "mergeValue a None = a"
  by (simp add: mergeValue_def)

lemma for_in_plain:
  assumes "DAList.lookup current ''hasOwnProperty'' = None"
    and "set kvs \<subseteq> set (DAList.impl_of current)"
    and "distinct (map fst kvs)"
    and "''__proto__'' \<notin> fst ` set kvs"
    and "prototype_array merged = None"
  shows "\<exists>m. for_in current merged kvs = Inr m \<and> prototype_array m = None
              \<and> (\<forall>key. DAList.lookup (own_fields m) key =
                          mergeValue (DAList.lookup (own_fields merged) key) (map_of kvs key))"
  using assms(2-)
proof (induction kvs arbitrary: merged)
  case Nil
  then show ?case by simp
next
  case (Cons kv kvs)
  obtain k v where kv: "kv = (k, v)" by (cases kv)
  let ?w = "if isArray (Some v) \<and> isArray (DAList.lookup (own_fields merged) k)
            then Arr (elements (DAList.lookup (own_fields merged) k) @ elements (Some v))
            else v"
  let ?m = "merged\<lparr>own_fields := DAList.update k ?w (own_fields merged)\<rparr>"
  from Cons.prems kv have mem: "(k, v) \<in> set (DAList.impl_of current)"
    and sub: "set kvs \<subseteq> set (DAList.impl_of current)"
    and dist: "distinct (map fst kvs)" and fresh: "map_of kvs k = None"
    and k: "k \<noteq> ''__proto__''" and noproto: "''__proto__'' \<notin> fst ` set kvs"
    by (auto simp add: map_of_eq_None_iff)
  have step: "mergeField current merged (k, v) = Inr ?m"
    by (simp only: mergeField_own [OF assms(1) mem] get_member_plain [OF Cons.prems(4)]
        set_member_plain [OF k])
  have "prototype_array ?m = None" using Cons.prems(4) by simp
  from Cons.IH [OF sub dist noproto this] obtain m where
    m: "for_in current ?m kvs = Inr m" "prototype_array m = None"
    and look: "\<And>key. DAList.lookup (own_fields m) key =
                 mergeValue (DAList.lookup (own_fields ?m) key) (map_of kvs key)"
    by blast
  have "DAList.lookup (own_fields m) key =
          mergeValue (DAList.lookup (own_fields merged) key) (map_of (kv # kvs) key)" for key
  proof (cases "key = k")
    case True
    with fresh look [of k] show ?thesis
      by (simp add: kv mergeValue_def)
  next
    case False
    with look [of key] show ?thesis by (simp add: kv)
  qed
  with m step show ?case by (simp add: kv)
qed

lemma mergeInto_plain:
  assumes "DAList.lookup current ''hasOwnProperty'' = None"
    and "DAList.lookup current ''__proto__'' = None"
    and "prototype_array merged = None"
  shows "\<exists>m. mergeInto merged current = Inr m \<and> prototype_array m = None
              \<and> (\<forall>key. DAList.lookup (own_fields m) key =
                          mergeValue (DAList.lookup (own_fields merged) key)
                                     (DAList.lookup current key))"
proof -
  from assms(2) have "''__proto__'' \<notin> fst ` set (DAList.impl_of current)"
    by (simp add: DAList.lookup.rep_eq map_of_eq_None_iff)
  from for_in_plain [OF assms(1) subset_refl _ this assms(3)] show ?thesis
    by (simp add: mergeInto_def DAList.lookup.rep_eq)
qed

lemma mergeResults_plain:
  assumes "\<forall>r \<in> set later. DAList.lookup r ''hasOwnProperty'' = None
                            \<and> DAList.lookup r ''__proto__'' = None"
    and "prototype_array merged = None"
  shows "\<exists>m. mergeResults merged later = Inr m \<and> prototype_array m = None
              \<and> (\<forall>key. DAList.lookup (own_fields m) key =
                          foldl mergeValue (DAList.lookup (own_fields merged) key)
                                (map (\<lambda>r. DAList.lookup r key) later))"
  using assms
proof (induction later arbitrary: merged)
  case Nil
  then show ?case by simp
next
  case (Cons current later)
  from Cons.prems have cur: "DAList.lookup current ''hasOwnProperty'' = None"
      "DAList.lookup current ''__proto__'' = None"
    and rest: "\<forall>r \<in> set later. DAList.lookup r ''hasOwnProperty'' = None
                             \<and> DAList.lookup r ''__proto__'' = None"
    by simp_all
  from mergeInto_plain [OF cur Cons.prems(2)] obtain m where
    m: "mergeInto merged current = Inr m" "prototype_array m = None"
    and look: "\<And>key. DAList.lookup (own_fields m) key =
                 mergeValue (DAList.lookup (own_fields merged) key) (DAList.lookup current key)"
    by blast
  from Cons.IH [OF rest m(2)] m(1) look show ?case by simp
qed

lemma isArray_elements: "isArray v \<Longrightarrow> v = Some (Arr (elements v))"
  by (cases v rule: isArray.cases) simp_all

lemma foldl_mergeValue_arrays:
  assumes "isArray a" and "\<forall>v \<in> set vs. isArray v"
  shows "foldl mergeValue a vs = Some (Arr (elements a @ concat (map elements vs)))"
  using assms
proof (induction vs arbitrary: a)
  case Nil
  then show ?case using isArray_elements by simp
next
  case (Cons v vs)
  from Cons.prems obtain ws where v: "v = Some (Arr ws)"
    using isArray_elements [of v] by auto
  have step: "mergeValue a v = Some (Arr (elements a @ ws))"
    using Cons.prems(1) by (simp add: mergeValue_def v)
  from Cons.prems have "foldl mergeValue (mergeValue a v) vs =
          Some (Arr (elements (mergeValue a v) @ concat (map elements vs)))"
    by (intro Cons.IH) (simp_all add: step)
  then show ?case by (simp add: step [unfolded v] v)
qed

lemma foldl_mergeValue_last:
  assumes "vs \<noteq> []" and "last vs = Some v" and "\<not> isArray (Some v)"
  shows "foldl mergeValue a vs = Some v"
proof -
  from assms(1) have "vs = butlast vs @ [last vs]" by simp
  then have "foldl mergeValue a vs = mergeValue (foldl mergeValue a (butlast vs)) (last vs)"
    by (metis foldl_Cons foldl_Nil foldl_append)
  with assms(2,3) show ?thesis by (simp add: mergeValue_def)
qed

lemma batches_of_two:
  assumes "0 < n" and "n < length xs"
  shows "2 \<le> length (batches_of n xs)"
proof -
  from assms have "batches_of n xs = take n xs # batches_of n (drop n xs)"
    by (simp add: batches_of.simps [of n xs])
  with batches_of_nonempty [of n "drop n xs"] show ?thesis
    by (cases "batches_of n (drop n xs)") simp_all
qed

text \<open>The run yields two or more results exactly for these batch sizes.\<close>

lemma processBatches_two_or_more:
  "(\<exists>rs. processBatches xs batchSize f p = Some rs \<and> 2 \<le> length rs)
     \<longleftrightarrow> 0 < batchSize \<and> batchSize < int (length xs)"
proof
  assume "\<exists>rs. processBatches xs batchSize f p = Some rs \<and> 2 \<le> length rs"
  then obtain rs where run: "processBatches xs batchSize f p = Some rs" and two: "2 \<le> length rs"
    by blast
  show "0 < batchSize \<and> batchSize < int (length xs)"
  proof (rule ccontr)
    assume "\<not> (0 < batchSize \<and> batchSize < int (length xs))"
    then consider "batchSize \<le> 0" | "0 < batchSize" and "int (length xs) \<le> batchSize"
      by linarith
    then show False
    proof cases
      case 1
      from run obtain y where y: "processBatches_run xs batchSize f p = Some y"
        by (auto simp add: processBatches_def)
      from processNextBatch_Some_progress [OF y [unfolded processBatches_run_def]] 1
      have "int (length xs) \<le> batchSize" by simp
      with 1 have "int (length xs) = 0" and "batchSize = 0" by linarith+
      then have "xs = []" and "batchSize = 0" by simp_all
      with run have "rs = [f []]"
        by (simp add: processBatches_def processBatches_run_empty)
      with two show False by simp
    next
      case 2
      then have "length xs \<le> nat batchSize" by linarith
      then have "batches_of (nat batchSize) xs = [xs]"
        by (simp add: batches_of.simps [of "nat batchSize" xs])
      with run 2(1) have "rs = [f xs]"
        by (simp add: processBatches_positive)
      with two show False by simp
    qed
  qed
next
  assume size: "0 < batchSize \<and> batchSize < int (length xs)"
  then have "0 < nat batchSize" and "nat batchSize < length xs" by linarith+
  then have "2 \<le> length (batches_of (nat batchSize) xs)"
    by (rule batches_of_two)
  with size show "\<exists>rs. processBatches xs batchSize f p = Some rs \<and> 2 \<le> length rs"
    by (simp add: processBatches_positive)
qed

text \<open>The objects of the example: \<^verbatim>\<open>{ cells: [...] }\<close> with numbers in the array.\<close>

lemma impl_of_cells_result:
  "DAList.impl_of (cells_result batch) = [(''cells'', Arr (map Num batch))]"
  by (simp add: cells_result_def DAList.update.rep_eq DAList.empty.rep_eq)

lemma lookup_cells_result:
  "DAList.lookup (cells_result batch) key =
     (if key = ''cells'' then Some (Arr (map Num batch)) else None)"
  by (simp add: DAList.lookup.rep_eq impl_of_cells_result)

lemma update_cells_result:
  "DAList.update ''cells'' (Arr (map Num ys)) (cells_result xs) = cells_result ys"
  by (simp add: cells_result_def)

lemma mergeInto_cells:
  "mergeInto \<lparr>own_fields = cells_result xs, prototype_array = None\<rparr> (cells_result ys)
     = Inr \<lparr>own_fields = cells_result (xs @ ys), prototype_array = None\<rparr>"
  using update_cells_result [of "xs @ ys" xs]
  by (simp add: mergeInto_def impl_of_cells_result mergeField_def hasOwnProperty_call_def
      lookup_cells_result get_member_def set_member_def Let_def)

lemma autoMerge_cells:
  "autoMerge [cells_result xs, cells_result ys] = Inr (cells_result (xs @ ys))"
  by (simp add: autoMerge_def mergeInto_cells)

lemma lookup_shadowing_result:
  "DAList.lookup (shadowing_result batch) ''hasOwnProperty'' = Some (Num 1)"
  by (simp add: shadowing_result_def)

text \<open>
  A later result with an own field \<^verbatim>\<open>__proto__\<close>: the assignment reaches the setter of
  \<^verbatim>\<open>Object.prototype\<close>. A number is ignored, so the field is not in the result. An array
  becomes the prototype of the accumulator, and a later field \<^verbatim>\<open>0\<close> is then merged with
  the first element of that array.
\<close>

lemma autoMerge_proto_number:
  "autoMerge [cells_result [1, 2], proto_number_result] = Inr (cells_result [1, 2, 3, 4])"
  by (simp add: autoMerge_def mergeInto_def proto_number_result_def cells_result_def
      DAList.update.rep_eq DAList.empty.rep_eq mergeField_def hasOwnProperty_call_def
      DAList.lookup.rep_eq get_member_def set_member_def Let_def)

lemma autoMerge_proto_array:
  "autoMerge [cells_result [1, 2], proto_array_result, zero_result]
     = Inr (DAList.update ''0'' (Arr [Num 7, Num 8]) (cells_result [1, 2]))"
proof -
  let ?m0 = "\<lparr>own_fields = cells_result [1, 2], prototype_array = None\<rparr>"
  let ?m1 = "\<lparr>own_fields = cells_result [1, 2], prototype_array = Some [Arr [Num 7]]\<rparr>"
  let ?m2 = "\<lparr>own_fields = DAList.update ''0'' (Arr [Num 7, Num 8]) (cells_result [1, 2]),
             prototype_array = Some [Arr [Num 7]]\<rparr>"
  have impl1: "DAList.impl_of proto_array_result = [(''__proto__'', Arr [Arr [Num 7]])]"
    by (simp add: proto_array_result_def DAList.update.rep_eq DAList.empty.rep_eq)
  have impl2: "DAList.impl_of zero_result = [(''0'', Arr [Num 8])]"
    by (simp add: zero_result_def DAList.update.rep_eq DAList.empty.rep_eq)
  have hop1: "hasOwnProperty_call proto_array_result ''__proto__'' = Inr True"
    by (simp add: hasOwnProperty_call_def DAList.lookup.rep_eq impl1)
  have hop2: "hasOwnProperty_call zero_result ''0'' = Inr True"
    by (simp add: hasOwnProperty_call_def DAList.lookup.rep_eq impl2)
  have get1: "get_member ?m0 ''__proto__'' = None"
    by (simp add: get_member_def lookup_cells_result)
  have set1: "set_member ?m0 ''__proto__'' (Arr [Arr [Num 7]]) = ?m1"
    by (simp add: set_member_def lookup_cells_result)
  have step1: "mergeInto ?m0 proto_array_result = Inr ?m1"
    by (simp add: mergeInto_def impl1 mergeField_def hop1 get1 set1 Let_def)
  have get2: "get_member ?m1 ''0'' = Some (Arr [Num 7])"
    by (simp add: get_member_def lookup_cells_result array_member_def digits.simps
        digit_char_def)
  have set2: "set_member ?m1 ''0'' (Arr [Num 7, Num 8]) = ?m2"
    by (simp add: set_member_def)
  have step2: "mergeInto ?m1 zero_result = Inr ?m2"
    by (simp add: mergeInto_def impl2 mergeField_def hop2 get2 set2 Let_def)
  show ?thesis
    by (simp add: autoMerge_def step1 step2)
qed

section \<open>AsyncBatchProcessor: the claims\<close>

text \<open>
  C1. The claim: called with an empty input array, \<^verbatim>\<open>processBatchesWithAutoMerge\<close> fails
  with the "no batches to merge" error, for every batch size and transform. The code
  does not: \<^verbatim>\<open>processBatches\<close> pushes a result before it looks at the index, so the list
  the guard inspects is never empty. Whatever the input, the promise is never rejected
  with that error; for the empty array and batch size 10 it resolves with the transform
  of the empty batch.
\<close>

theorem autoMerge_guard_unreachable:
  "processBatchesWithAutoMerge fullArray batchSize f onProgress \<noteq> Some (Inl NoBatchesToMerge)
   \<and> processBatchesWithAutoMerge [] 10 f onProgress = Some (Inr (f []))"
proof
  show "processBatchesWithAutoMerge fullArray batchSize f onProgress
          \<noteq> Some (Inl NoBatchesToMerge)"
  proof
    assume thrown: "processBatchesWithAutoMerge fullArray batchSize f onProgress
                      = Some (Inl NoBatchesToMerge)"
    then obtain y where run: "processBatches_run fullArray batchSize f onProgress = Some y"
      and merged: "autoMerge (allResults y) = Inl NoBatchesToMerge"
      by (auto simp add: processBatchesWithAutoMerge_def processBatches_def)
    from run have "allResults y \<noteq> []"
      unfolding processBatches_run_def by (rule processNextBatch_results_nonempty)
    from autoMerge_not_guard [OF this] merged show False by simp
  qed
next
  have "processBatches_run [] 10 f onProgress =
          Some \<lparr>allResults = [f []], currentIndex = 0,
                trace = Call [] # (if onProgress then [Progress NaN 0 0] else [])\<rparr>"
    by (rule processBatches_run_empty) simp
  then show "processBatchesWithAutoMerge [] 10 f onProgress = Some (Inr (f []))"
    by (simp add: processBatchesWithAutoMerge_def processBatches_def autoMerge_single)
qed

text \<open>
  C2, as the code has it. For every input array and every batch size of at least one,
  \<^verbatim>\<open>processBatches\<close> resolves; the batches it passes to the transform are, in this
  order and one call each, the consecutive batches of the requested size (the final one
  possibly smaller), which concatenate to the array; each call is followed by its
  progress report and, unless it was the last, by the request of the next frame, before
  the next call is made; the results are the transforms of the batches in batch order;
  and with the identity transform the flattened result is the input array.
\<close>

theorem processBatches_partition:
  assumes "0 < batchSize"
  shows "processBatches_run fullArray batchSize f onProgress =
           Some \<lparr>allResults = map f (batches_of (nat batchSize) fullArray),
                 currentIndex = int (length fullArray),
                 trace = batch_events onProgress (int (length fullArray)) 0
                           (batches_of (nat batchSize) fullArray)\<rparr>
         \<and> call_args (batch_events onProgress (int (length fullArray)) 0
                        (batches_of (nat batchSize) fullArray))
             = batches_of (nat batchSize) fullArray
         \<and> concat (batches_of (nat batchSize) fullArray) = fullArray
         \<and> (\<forall>b \<in> set (butlast (batches_of (nat batchSize) fullArray)).
                int (length b) = batchSize)
         \<and> int (length (last (batches_of (nat batchSize) fullArray))) \<le> batchSize
         \<and> processBatches fullArray batchSize f onProgress
             = Some (map f (batches_of (nat batchSize) fullArray))
         \<and> map_option concat (processBatches fullArray batchSize (\<lambda>batch. batch) onProgress)
             = Some fullArray"
proof -
  let ?n = "nat batchSize"
  have sizes: "\<forall>b \<in> set (butlast (batches_of ?n fullArray)). int (length b) = batchSize"
    using assms butlast_batches_of_length [of _ ?n fullArray] by auto
  have final: "int (length (last (batches_of ?n fullArray))) \<le> batchSize"
    using assms last_batches_of_length [of ?n fullArray] by simp
  have flat: "map_option concat (processBatches fullArray batchSize (\<lambda>batch. batch) onProgress)
                = Some fullArray"
    by (simp add: processBatches_positive [OF assms] concat_batches_of)
  show ?thesis
    using sizes final flat
    by (simp only: processBatches_run_positive [OF assms] processBatches_positive [OF assms]
        call_args_batch_events concat_batches_of simp_thms)
qed

theorem processBatches_partition_witness:
  "(0::int) < 2
   \<and> processBatches_run [1, 2, 3 :: int] 2 (\<lambda>batch. batch) True =
       Some \<lparr>allResults = [ [1, 2], [3] ], currentIndex = 3,
             trace = [Call [1, 2], Progress (Fin (2 / 3)) 2 3, Frame,
                      Call [3], Progress (Fin 1) 3 3]\<rparr>
   \<and> map_option concat (processBatches [1, 2, 3 :: int] 2 (\<lambda>batch. batch) True)
       = Some [1, 2, 3]"
proof -
  have pos: "(0::int) < 2" by simp
  have parts: "batches_of (nat 2) [1, 2, 3 :: int] = [ [1, 2], [3] ]"
    by (simp add: batches_of.simps)
  from processBatches_partition [OF pos, of "[1, 2, 3 :: int]" "\<lambda>batch. batch" True]
  show ?thesis
    unfolding parts by (simp add: Let_def js_div_def)
qed

text \<open>
  C2, as stated (for every batch size), fails: with batch size zero on a one-element
  array the index never advances and the promise never settles.
\<close>

theorem processBatches_zero_size_counterexample:
  "processBatches [1 :: int] 0 id False = None"
proof -
  have "processBatches_run [1 :: int] 0 id False = None"
    unfolding processBatches_run_def by (rule processNextBatch_never_resolves) simp_all
  then show ?thesis by (simp add: processBatches_def)
qed

lemma merge_of_two_or_more:
  assumes "0 < batchSize" and "batchSize < int (length fullArray)"
  shows "\<exists>first later.
            processBatches fullArray batchSize f onProgress = Some (first # later)
          \<and> first # later = map f (batches_of (nat batchSize) fullArray)
          \<and> later \<noteq> []
          \<and> (processBatchesWithAutoMerge fullArray batchSize f onProgress = Some (Inl TypeError)
               \<longleftrightarrow> (\<exists>r \<in> set later. DAList.lookup r ''hasOwnProperty'' \<noteq> None))
          \<and> ((\<forall>r \<in> set later. DAList.lookup r ''hasOwnProperty'' = None
                                \<and> DAList.lookup r ''__proto__'' = None) \<longrightarrow>
               (\<exists>merged.
                   processBatchesWithAutoMerge fullArray batchSize f onProgress
                     = Some (Inr merged)
                 \<and> (\<forall>key. DAList.lookup merged key =
                             foldl mergeValue (DAList.lookup first key)
                                   (map (\<lambda>r. DAList.lookup r key) later))
                 \<and> (\<forall>key. (\<forall>r \<in> set (first # later). isArray (DAList.lookup r key)) \<longrightarrow>
                             DAList.lookup merged key =
                               Some (Arr (concat (map (\<lambda>r. elements (DAList.lookup r key))
                                                      (first # later)))))
                 \<and> (\<forall>key v. DAList.lookup (last later) key = Some v \<and> \<not> isArray (Some v) \<longrightarrow>
                             DAList.lookup merged key = Some v)))"
proof -
  let ?results = "map f (batches_of (nat batchSize) fullArray)"
  from assms have "2 \<le> length (batches_of (nat batchSize) fullArray)"
    by (intro batches_of_two) simp_all
  then have "2 \<le> length ?results" by simp
  then obtain first second rest where results: "?results = first # second # rest"
    by (cases ?results; cases "tl ?results") auto
  let ?later = "second # rest"
  let ?m0 = "\<lparr>own_fields = first, prototype_array = None\<rparr>"
  have run: "processBatches fullArray batchSize f onProgress = Some (first # ?later)"
    using processBatches_positive [OF assms(1), of fullArray f onProgress] results by simp
  have whole: "processBatchesWithAutoMerge fullArray batchSize f onProgress
                 = Some (map_sum id own_fields (mergeResults ?m0 ?later))"
    by (simp add: processBatchesWithAutoMerge_def run autoMerge_def)
  have thrown: "processBatchesWithAutoMerge fullArray batchSize f onProgress
                  = Some (Inl TypeError)
                \<longleftrightarrow> (\<exists>r \<in> set ?later. DAList.lookup r ''hasOwnProperty'' \<noteq> None)"
  proof -
    have "map_sum id own_fields (mergeResults ?m0 ?later) = Inl TypeError
            \<longleftrightarrow> mergeResults ?m0 ?later = Inl TypeError"
      by (cases "mergeResults ?m0 ?later") simp_all
    then show ?thesis
      by (simp only: whole option.inject mergeResults_TypeError)
  qed
  have merged: "\<exists>merged.
          processBatchesWithAutoMerge fullArray batchSize f onProgress = Some (Inr merged)
        \<and> (\<forall>key. DAList.lookup merged key =
                    foldl mergeValue (DAList.lookup first key)
                          (map (\<lambda>r. DAList.lookup r key) ?later))
        \<and> (\<forall>key. (\<forall>r \<in> set (first # ?later). isArray (DAList.lookup r key)) \<longrightarrow>
                    DAList.lookup merged key =
                      Some (Arr (concat (map (\<lambda>r. elements (DAList.lookup r key))
                                             (first # ?later)))))
        \<and> (\<forall>key v. DAList.lookup (last ?later) key = Some v \<and> \<not> isArray (Some v) \<longrightarrow>
                    DAList.lookup merged key = Some v)"
    if plain: "\<forall>r \<in> set ?later. DAList.lookup r ''hasOwnProperty'' = None
                                \<and> DAList.lookup r ''__proto__'' = None"
  proof -
    have "prototype_array ?m0 = None" by simp
    from mergeResults_plain [OF plain this] obtain m where
      m: "mergeResults ?m0 ?later = Inr m"
      and look: "\<And>key. DAList.lookup (own_fields m) key =
                   foldl mergeValue (DAList.lookup first key)
                         (map (\<lambda>r. DAList.lookup r key) ?later)"
      by auto
    have res: "processBatchesWithAutoMerge fullArray batchSize f onProgress
                 = Some (Inr (own_fields m))"
      by (simp only: whole m map_sum.simps)
    have look': "\<forall>key. DAList.lookup (own_fields m) key =
                   foldl mergeValue (DAList.lookup first key)
                         (map (\<lambda>r. DAList.lookup r key) ?later)"
      using look by (rule allI)
    have arrays: "\<forall>key. (\<forall>r \<in> set (first # ?later). isArray (DAList.lookup r key)) \<longrightarrow>
                    DAList.lookup (own_fields m) key =
                      Some (Arr (concat (map (\<lambda>r. elements (DAList.lookup r key))
                                             (first # ?later))))"
    proof (intro allI impI)
      fix key
      assume all: "\<forall>r \<in> set (first # ?later). isArray (DAList.lookup r key)"
      then have a: "isArray (DAList.lookup first key)"
        and b: "\<forall>v \<in> set (map (\<lambda>r. DAList.lookup r key) ?later). isArray v"
        by simp_all
      from foldl_mergeValue_arrays [OF a b] 
      show "DAList.lookup (own_fields m) key =
              Some (Arr (concat (map (\<lambda>r. elements (DAList.lookup r key)) (first # ?later))))"
        by (simp add: look comp_def)
    qed
    have lastwins: "\<forall>key v. DAList.lookup (last ?later) key = Some v \<and> \<not> isArray (Some v) \<longrightarrow>
                      DAList.lookup (own_fields m) key = Some v"
    proof (intro allI impI)
      fix key v
      assume that: "DAList.lookup (last ?later) key = Some v \<and> \<not> isArray (Some v)"
      have "last (map (\<lambda>r. DAList.lookup r key) ?later) = DAList.lookup (last ?later) key"
        by (rule last_map) simp
      with that have "last (map (\<lambda>r. DAList.lookup r key) ?later) = Some v"
        by (simp only:)
      with that show "DAList.lookup (own_fields m) key = Some v"
        by (simp only: look) (rule foldl_mergeValue_last, simp_all)
    qed
    show ?thesis
      by (rule exI [where x = "own_fields m"])
         (rule conjI [OF res conjI [OF look' conjI [OF arrays lastwins]]])
  qed
  have later: "first # ?later = map f (batches_of (nat batchSize) fullArray)"
    by (rule results [symmetric])
  have two: "?later \<noteq> []" by simp
  have plain: "(\<forall>r \<in> set ?later. DAList.lookup r ''hasOwnProperty'' = None
                                \<and> DAList.lookup r ''__proto__'' = None) \<longrightarrow>
               (\<exists>merged.
                   processBatchesWithAutoMerge fullArray batchSize f onProgress
                     = Some (Inr merged)
                 \<and> (\<forall>key. DAList.lookup merged key =
                             foldl mergeValue (DAList.lookup first key)
                                   (map (\<lambda>r. DAList.lookup r key) ?later))
                 \<and> (\<forall>key. (\<forall>r \<in> set (first # ?later). isArray (DAList.lookup r key)) \<longrightarrow>
                             DAList.lookup merged key =
                               Some (Arr (concat (map (\<lambda>r. elements (DAList.lookup r key))
                                                      (first # ?later)))))
                 \<and> (\<forall>key v. DAList.lookup (last ?later) key = Some v \<and> \<not> isArray (Some v) \<longrightarrow>
                             DAList.lookup merged key = Some v))"
    by (rule impI) (rule merged)
  show ?thesis
    by (rule exI [where x = first], rule exI [where x = "second # rest"])
       (rule conjI [OF run conjI [OF later conjI [OF two conjI [OF thrown plain]]]])
qed

text \<open>
  C3. The claim: over two or more batches, the first result seeds the accumulator and the
  fields of every later result are merged in, arrays concatenated in batch order, every
  other field taking the later value. The run yields two or more results exactly when
  the batch size is positive and smaller than the number of items; they are then the
  transforms of the batches, in batch order. The loop asks every later result itself for its method
  \<^verbatim>\<open>hasOwnProperty\<close>, so a later result with an own field of that name makes the promise
  reject with a \<^verbatim>\<open>TypeError\<close>, and this is the only way it rejects. When no later result
  has an own field named \<^verbatim>\<open>hasOwnProperty\<close> or \<^verbatim>\<open>__proto__\<close>, the promise resolves with
  an object whose fields are those of the first result merged one after the other with
  those of the later results, as the claim says: two arrays are concatenated, any other
  later value replaces the earlier one, a field a later result lacks is kept. So a field
  that is an array in every result ends as the concatenation of these arrays in batch
  order, and a field whose value in the last result is no array ends with that value.
  Merging \<^verbatim>\<open>{cells: [1,2]}\<close> and \<^verbatim>\<open>{cells: [3,4]}\<close> gives \<^verbatim>\<open>{cells: [1,2,3,4]}\<close>. A later
  own field \<^verbatim>\<open>__proto__\<close> is not merged as a field: \<^verbatim>\<open>{cells: [1,2]}\<close> and
  \<^verbatim>\<open>{cells: [3,4], "__proto__": 5}\<close> give \<^verbatim>\<open>{cells: [1,2,3,4]}\<close>, and \<^verbatim>\<open>{cells: [1,2]}\<close>,
  \<^verbatim>\<open>{"__proto__": [[7]]}\<close>, \<^verbatim>\<open>{"0": [8]}\<close> give \<^verbatim>\<open>{cells: [1,2], "0": [7,8]}\<close>.
\<close>

theorem autoMerge_fields:
  "((\<exists>batchResults. processBatches fullArray batchSize f onProgress = Some batchResults
                      \<and> 2 \<le> length batchResults)
      \<longleftrightarrow> 0 < batchSize \<and> batchSize < int (length fullArray))
   \<and> (0 < batchSize \<and> batchSize < int (length fullArray) \<longrightarrow>
        (\<exists>first later.
               processBatches fullArray batchSize f onProgress = Some (first # later)
             \<and> first # later = map f (batches_of (nat batchSize) fullArray)
             \<and> later \<noteq> []
             \<and> (processBatchesWithAutoMerge fullArray batchSize f onProgress = Some (Inl TypeError)
                  \<longleftrightarrow> (\<exists>r \<in> set later. DAList.lookup r ''hasOwnProperty'' \<noteq> None))
             \<and> ((\<forall>r \<in> set later. DAList.lookup r ''hasOwnProperty'' = None
                                   \<and> DAList.lookup r ''__proto__'' = None) \<longrightarrow>
                  (\<exists>merged.
                      processBatchesWithAutoMerge fullArray batchSize f onProgress
                        = Some (Inr merged)
                    \<and> (\<forall>key. DAList.lookup merged key =
                                foldl mergeValue (DAList.lookup first key)
                                      (map (\<lambda>r. DAList.lookup r key) later))
                    \<and> (\<forall>key. (\<forall>r \<in> set (first # later). isArray (DAList.lookup r key)) \<longrightarrow>
                                DAList.lookup merged key =
                                  Some (Arr (concat (map (\<lambda>r. elements (DAList.lookup r key))
                                                         (first # later)))))
                    \<and> (\<forall>key v. DAList.lookup (last later) key = Some v \<and> \<not> isArray (Some v) \<longrightarrow>
                                DAList.lookup merged key = Some v)))))
   \<and> autoMerge [cells_result [1, 2], cells_result [3, 4]] = Inr (cells_result [1, 2, 3, 4])
   \<and> autoMerge [cells_result [1, 2], proto_number_result] = Inr (cells_result [1, 2, 3, 4])
   \<and> autoMerge [cells_result [1, 2], proto_array_result, zero_result]
       = Inr (DAList.update ''0'' (Arr [Num 7, Num 8]) (cells_result [1, 2]))"
proof (intro conjI impI)
  show "(\<exists>batchResults. processBatches fullArray batchSize f onProgress = Some batchResults
                        \<and> 2 \<le> length batchResults)
          \<longleftrightarrow> 0 < batchSize \<and> batchSize < int (length fullArray)"
    by (rule processBatches_two_or_more)
next
  assume "0 < batchSize \<and> batchSize < int (length fullArray)"
  then have size: "0 < batchSize" "batchSize < int (length fullArray)" by simp_all
  show "\<exists>first later.
            processBatches fullArray batchSize f onProgress = Some (first # later)
          \<and> first # later = map f (batches_of (nat batchSize) fullArray)
          \<and> later \<noteq> []
          \<and> (processBatchesWithAutoMerge fullArray batchSize f onProgress = Some (Inl TypeError)
               \<longleftrightarrow> (\<exists>r \<in> set later. DAList.lookup r ''hasOwnProperty'' \<noteq> None))
          \<and> ((\<forall>r \<in> set later. DAList.lookup r ''hasOwnProperty'' = None
                                \<and> DAList.lookup r ''__proto__'' = None) \<longrightarrow>
               (\<exists>merged.
                   processBatchesWithAutoMerge fullArray batchSize f onProgress
                     = Some (Inr merged)
                 \<and> (\<forall>key. DAList.lookup merged key =
                             foldl mergeValue (DAList.lookup first key)
                                   (map (\<lambda>r. DAList.lookup r key) later))
                 \<and> (\<forall>key. (\<forall>r \<in> set (first # later). isArray (DAList.lookup r key)) \<longrightarrow>
                             DAList.lookup merged key =
                               Some (Arr (concat (map (\<lambda>r. elements (DAList.lookup r key))
                                                      (first # later)))))
                 \<and> (\<forall>key v. DAList.lookup (last later) key = Some v \<and> \<not> isArray (Some v) \<longrightarrow>
                             DAList.lookup merged key = Some v)))"
    by (rule merge_of_two_or_more [OF size])
next
  show "autoMerge [cells_result [1, 2], cells_result [3, 4]] = Inr (cells_result [1, 2, 3, 4])"
    using autoMerge_cells [of "[1, 2]" "[3, 4]"] by simp
next
  show "autoMerge [cells_result [1, 2], proto_number_result] = Inr (cells_result [1, 2, 3, 4])"
    by (rule autoMerge_proto_number)
next
  show "autoMerge [cells_result [1, 2], proto_array_result, zero_result]
          = Inr (DAList.update ''0'' (Arr [Num 7, Num 8]) (cells_result [1, 2]))"
    by (rule autoMerge_proto_array)
qed

theorem autoMerge_fields_witness:
  "processBatches [1, 2, 3, 4] 2 cells_result False
       = Some [cells_result [1, 2], cells_result [3, 4]]
   \<and> DAList.lookup (cells_result [3, 4]) ''hasOwnProperty'' = None
   \<and> DAList.lookup (cells_result [3, 4]) ''__proto__'' = None
   \<and> processBatchesWithAutoMerge [1, 2, 3, 4] 2 cells_result False \<noteq> Some (Inl TypeError)
   \<and> (\<exists>merged. processBatchesWithAutoMerge [1, 2, 3, 4] 2 cells_result False
                   = Some (Inr merged)
               \<and> DAList.lookup merged ''cells'' = Some (Arr [Num 1, Num 2, Num 3, Num 4]))"
proof -
  have parts: "batches_of 2 [1, 2, 3, 4 :: int] = [ [1, 2], [3, 4] ]"
    by (simp add: batches_of.simps)
  have run: "processBatches [1, 2, 3, 4] 2 cells_result False
               = Some [cells_result [1, 2], cells_result [3, 4]]"
    by (simp add: processBatches_positive parts)
  have size: "(0::int) < 2 \<and> (2::int) < int (length [1, 2, 3, 4 :: int])" by simp
  from autoMerge_fields [where fullArray = "[1, 2, 3, 4]" and batchSize = 2
      and f = cells_result and onProgress = False, THEN conjunct2, THEN conjunct1, THEN mp,
      OF size]
  obtain first later where
    r: "processBatches [1, 2, 3, 4] 2 cells_result False = Some (first # later)"
    and thrown: "processBatchesWithAutoMerge [1, 2, 3, 4] 2 cells_result False
                   = Some (Inl TypeError)
                 \<longleftrightarrow> (\<exists>r \<in> set later. DAList.lookup r ''hasOwnProperty'' \<noteq> None)"
    and plain: "(\<forall>r \<in> set later. DAList.lookup r ''hasOwnProperty'' = None
                                \<and> DAList.lookup r ''__proto__'' = None) \<longrightarrow>
               (\<exists>merged.
                   processBatchesWithAutoMerge [1, 2, 3, 4] 2 cells_result False
                     = Some (Inr merged)
                 \<and> (\<forall>key. DAList.lookup merged key =
                             foldl mergeValue (DAList.lookup first key)
                                   (map (\<lambda>r. DAList.lookup r key) later))
                 \<and> (\<forall>key. (\<forall>r \<in> set (first # later). isArray (DAList.lookup r key)) \<longrightarrow>
                             DAList.lookup merged key =
                               Some (Arr (concat (map (\<lambda>r. elements (DAList.lookup r key))
                                                      (first # later)))))
                 \<and> (\<forall>key v. DAList.lookup (last later) key = Some v \<and> \<not> isArray (Some v) \<longrightarrow>
                             DAList.lookup merged key = Some v))"
    by (elim exE conjE)
  from r run have first: "first = cells_result [1, 2]" and later: "later = [cells_result [3, 4]]"
    by simp_all
  have none: "DAList.lookup (cells_result [3, 4]) ''hasOwnProperty'' = None"
      "DAList.lookup (cells_result [3, 4]) ''__proto__'' = None"
    by (simp_all add: lookup_cells_result)
  from thrown none
  have notthrown: "processBatchesWithAutoMerge [1, 2, 3, 4] 2 cells_result False
                     \<noteq> Some (Inl TypeError)"
    by (simp add: later)
  have "\<forall>r \<in> set later. DAList.lookup r ''hasOwnProperty'' = None
                          \<and> DAList.lookup r ''__proto__'' = None"
    using none by (simp add: later)
  with plain obtain merged where
    m: "processBatchesWithAutoMerge [1, 2, 3, 4] 2 cells_result False = Some (Inr merged)"
    and arrays: "\<forall>key. (\<forall>r \<in> set (first # later). isArray (DAList.lookup r key)) \<longrightarrow>
                   DAList.lookup merged key =
                     Some (Arr (concat (map (\<lambda>r. elements (DAList.lookup r key))
                                            (first # later))))"
    by (elim impE exE conjE)
  from spec [OF arrays, of "''cells''"]
  have cells: "DAList.lookup merged ''cells'' = Some (Arr [Num 1, Num 2, Num 3, Num 4])"
    by (simp add: first later lookup_cells_result)
  have "\<exists>merged. processBatchesWithAutoMerge [1, 2, 3, 4] 2 cells_result False
                   = Some (Inr merged)
               \<and> DAList.lookup merged ''cells'' = Some (Arr [Num 1, Num 2, Num 3, Num 4])"
    by (rule exI [where x = merged]) (rule conjI [OF m cells])
  with run none notthrown show ?thesis by (intro conjI)
qed

text \<open>
  The input at which the code leaves the claim: three items in batches of two, each
  result \<^verbatim>\<open>{ cells: batch, hasOwnProperty: 1 }\<close>. The run yields two results and the
  merge rejects with a \<^verbatim>\<open>TypeError\<close> instead of merging their fields.
\<close>

theorem autoMerge_shadowed_method_counterexample:
  "processBatches [1, 2, 3] 2 shadowing_result False
       = Some [shadowing_result [1, 2], shadowing_result [3]]
   \<and> processBatchesWithAutoMerge [1, 2, 3] 2 shadowing_result False = Some (Inl TypeError)"
proof -
  have parts: "batches_of 2 [1, 2, 3 :: int] = [ [1, 2], [3] ]"
    by (simp add: batches_of.simps)
  have run: "processBatches [1, 2, 3] 2 shadowing_result False
               = Some [shadowing_result [1, 2], shadowing_result [3]]"
    by (simp add: processBatches_positive parts)
  have "mergeInto m (shadowing_result [3]) = Inl TypeError" for m
    by (rule mergeInto_shadowed) (rule lookup_shadowing_result)
  then have "autoMerge [shadowing_result [1, 2], shadowing_result [3]] = Inl TypeError"
    by (simp add: autoMerge_def)
  with run show ?thesis by (simp add: processBatchesWithAutoMerge_def)
qed

text \<open>
  C10, as the code has it. For an empty input array and a batch size that is not
  negative, \<^verbatim>\<open>processBatches\<close> calls the transform exactly once, with the empty batch,
  calls the progress callback once, with \<^verbatim>\<open>NaN\<close> (that is \<open>0/0\<close>) and
  \<^verbatim>\<open>processed = total = 0\<close>, requests no frame, and resolves with the one-element list
  holding that transform result.
\<close>

theorem processBatches_empty_input:
  assumes "0 \<le> batchSize"
  shows "processBatches_run [] batchSize f True =
           Some \<lparr>allResults = [f []], currentIndex = 0,
                 trace = [Call [], Progress NaN 0 0]\<rparr>
         \<and> js_div 0 0 = NaN
         \<and> processBatches [] batchSize f True = Some [f []]"
  using assms
  by (simp add: processBatches_def processBatches_run_empty js_div_def)

theorem processBatches_empty_input_witness:
  "(0::int) \<le> 5
   \<and> processBatches ([] :: int list) 5 (\<lambda>batch. length batch) True = Some [0]"
proof -
  have nonneg: "(0::int) \<le> 5" by simp
  from processBatches_empty_input [OF nonneg, of "\<lambda>batch :: int list. length batch"]
  show ?thesis by simp
qed

text \<open>
  C10, taken for every batch size, fails: with a negative batch size on the empty array
  the index moves below zero, away from the total, and the promise never settles.
\<close>

theorem processBatches_empty_negative_counterexample:
  "processBatches ([] :: int list) (- 1) id True = None"
proof -
  have "processBatches_run ([] :: int list) (- 1) id True = None"
    unfolding processBatches_run_def by (rule processNextBatch_never_resolves) simp_all
  then show ?thesis by (simp add: processBatches_def)
qed

section \<open>ElkLayoutProcessor: identifiers through the round trip\<close>

lemma new_Map_snoc: "new_Map (entries @ [kv]) = (new_Map entries)(fst kv \<mapsto> snd kv)"
  by (simp add: new_Map_def)

lemma new_Map_Some:
  "new_Map (map (\<lambda>x. (key x, x)) xs) k = Some x \<Longrightarrow> x \<in> set xs \<and> key x = k"
proof (induction xs rule: rev_induct)
  case Nil
  then show ?case by (simp add: new_Map_def)
next
  case (snoc y ys)
  then show ?case by (cases "key y = k") (auto simp add: new_Map_snoc)
qed

lemma new_Map_None:
  "new_Map (map (\<lambda>x. (key x, x)) xs) k = None \<longleftrightarrow> k \<notin> key ` set xs"
proof (induction xs rule: rev_induct)
  case Nil
  then show ?case by (simp add: new_Map_def)
next
  case (snoc y ys)
  then show ?case by (cases "key y = k") (auto simp add: new_Map_snoc)
qed

lemma new_Map_distinct:
  "distinct (map key xs) \<Longrightarrow> x \<in> set xs \<Longrightarrow> new_Map (map (\<lambda>x. (key x, x)) xs) (key x) = Some x"
proof (induction xs rule: rev_induct)
  case Nil
  then show ?case by simp
next
  case (snoc y ys)
  show ?case
  proof (cases "x = y")
    case True
    then show ?thesis by (simp add: new_Map_snoc)
  next
    case False
    with snoc.prems have "x \<in> set ys" and "key y \<noteq> key x" and "distinct (map key ys)"
      by auto
    with snoc.IH show ?thesis by (simp add: new_Map_snoc)
  qed
qed

lemma convertX6ToElk_children:
  "root_children (convertX6ToElk config w nodes edges options) =
     Some (map (\<lambda>node. convertNode (with_defaults convert_defaults options) (node_heap w node))
               nodes)"
  by (simp add: convertX6ToElk_def Let_def)

lemma convertX6ToElk_edges:
  "root_edges (convertX6ToElk config w nodes edges options) =
     Some (map (\<lambda>edge. convertEdge (with_defaults convert_defaults options) (edge_heap w edge))
               edges)"
  by (simp add: convertX6ToElk_def Let_def)

lemma elk_id_convertNode: "elk_id (convertNode opts node) = node_id node"
  by (simp add: convertNode_def Let_def)

lemma elk_edge_id_convertEdge: "elk_edge_id (convertEdge opts edge) = edge_id edge"
  by (simp add: convertEdge_def)

lemma res_nodes_convertElkToX6:
  "map (\<lambda>e. (rn_id e, originalNode e)) (res_nodes (convertElkToX6 w elkResult nodes edges)) =
     map (\<lambda>c. (elk_id c,
                new_Map (map (\<lambda>node. (node_id (node_heap w node), node)) nodes) (elk_id c)))
         (case root_children elkResult of None \<Rightarrow> [] | Some cs \<Rightarrow> cs)"
  by (simp add: convertElkToX6_def Let_def comp_def)

lemma res_edges_convertElkToX6:
  "map (\<lambda>e. (re_id e, originalEdge e)) (res_edges (convertElkToX6 w elkResult nodes edges)) =
     map (\<lambda>c. (elk_edge_id c,
                new_Map (map (\<lambda>edge. (edge_id (edge_heap w edge), edge)) edges) (elk_edge_id c)))
         (case root_edges elkResult of None \<Rightarrow> [] | Some es \<Rightarrow> es)"
  by (simp add: convertElkToX6_def Let_def comp_def)

lemma res_node_entry:
  assumes "e \<in> set (res_nodes (convertElkToX6 w elkResult nodes edges))"
  shows "originalNode e =
           new_Map (map (\<lambda>node. (node_id (node_heap w node), node)) nodes) (rn_id e)"
proof -
  from assms have "(rn_id e, originalNode e)
      \<in> set (map (\<lambda>e. (rn_id e, originalNode e))
                  (res_nodes (convertElkToX6 w elkResult nodes edges)))"
    by (simp add: image_iff) blast
  then show ?thesis
    unfolding res_nodes_convertElkToX6 by auto
qed

lemma res_edge_entry:
  assumes "e \<in> set (res_edges (convertElkToX6 w elkResult nodes edges))"
  shows "originalEdge e =
           new_Map (map (\<lambda>edge. (edge_id (edge_heap w edge), edge)) edges) (re_id e)"
proof -
  from assms have "(re_id e, originalEdge e)
      \<in> set (map (\<lambda>e. (re_id e, originalEdge e))
                  (res_edges (convertElkToX6 w elkResult nodes edges)))"
    by (simp add: image_iff) blast
  then show ?thesis
    unfolding res_edges_convertElkToX6 by auto
qed

lemma new_Map_find:
  "new_Map (map (\<lambda>x. (key x, x)) xs) k = find (\<lambda>x. key x = k) (rev xs)"
proof (induction xs rule: rev_induct)
  case Nil
  then show ?case by (simp add: new_Map_def)
next
  case (snoc y ys)
  then show ?case by (simp add: new_Map_snoc)
qed

text \<open>
  C4, as the code has it. The descriptor has one child per node and one edge per edge,
  in order, each carrying the identifier of its original. On the way back the result has
  one entry per child and one per edge the engine returned, in the engine's order, each
  with the identifier the engine returned and with the reference found for it: the last
  original of the list that has exactly this identifier, and none when no original of
  the list has it (no error is involved: the conversion is a total function). So the
  reference of an entry, when present, is an original of the list with exactly the
  identifier of the entry, and it is absent exactly when no original has the identifier.
  When the identifiers of the originals are pairwise different, an entry whose
  identifier is that of an original refers to that very original, and a result that
  carries the identifiers of the originals in their order is resolved to the originals
  themselves.
\<close>

theorem identifier_round_trip:
  "map_option (map elk_id) (root_children (convertX6ToElk config w nodes edges options))
     = Some (map (\<lambda>node. node_id (node_heap w node)) nodes)
   \<and> map_option (map elk_edge_id) (root_edges (convertX6ToElk config w nodes edges options))
       = Some (map (\<lambda>edge. edge_id (edge_heap w edge)) edges)
   \<and> map (\<lambda>e. (rn_id e, originalNode e)) (res_nodes (convertElkToX6 w elkResult nodes edges))
       = map (\<lambda>elkNode.
                (elk_id elkNode,
                 find (\<lambda>node. node_id (node_heap w node) = elk_id elkNode) (rev nodes)))
             (case root_children elkResult of None \<Rightarrow> [] | Some children \<Rightarrow> children)
   \<and> map (\<lambda>e. (re_id e, originalEdge e)) (res_edges (convertElkToX6 w elkResult nodes edges))
       = map (\<lambda>elkEdge.
                (elk_edge_id elkEdge,
                 find (\<lambda>edge. edge_id (edge_heap w edge) = elk_edge_id elkEdge) (rev edges)))
             (case root_edges elkResult of None \<Rightarrow> [] | Some es \<Rightarrow> es)
   \<and> (\<forall>e \<in> set (res_nodes (convertElkToX6 w elkResult nodes edges)).
         (case originalNode e of
            Some node \<Rightarrow> node \<in> set nodes \<and> node_id (node_heap w node) = rn_id e
          | None \<Rightarrow> rn_id e \<notin> (\<lambda>node. node_id (node_heap w node)) ` set nodes))
   \<and> (\<forall>e \<in> set (res_edges (convertElkToX6 w elkResult nodes edges)).
         (case originalEdge e of
            Some edge \<Rightarrow> edge \<in> set edges \<and> edge_id (edge_heap w edge) = re_id e
          | None \<Rightarrow> re_id e \<notin> (\<lambda>edge. edge_id (edge_heap w edge)) ` set edges))
   \<and> (distinct (map (\<lambda>node. node_id (node_heap w node)) nodes) \<longrightarrow>
         (\<forall>e \<in> set (res_nodes (convertElkToX6 w elkResult nodes edges)).
            \<forall>node \<in> set nodes.
              node_id (node_heap w node) = rn_id e \<longrightarrow> originalNode e = Some node))
   \<and> (distinct (map (\<lambda>edge. edge_id (edge_heap w edge)) edges) \<longrightarrow>
         (\<forall>e \<in> set (res_edges (convertElkToX6 w elkResult nodes edges)).
            \<forall>edge \<in> set edges.
              edge_id (edge_heap w edge) = re_id e \<longrightarrow> originalEdge e = Some edge))
   \<and> (distinct (map (\<lambda>node. node_id (node_heap w node)) nodes)
        \<and> map_option (map elk_id) (root_children elkResult)
            = Some (map (\<lambda>node. node_id (node_heap w node)) nodes) \<longrightarrow>
         map originalNode (res_nodes (convertElkToX6 w elkResult nodes edges))
           = map Some nodes)
   \<and> (distinct (map (\<lambda>edge. edge_id (edge_heap w edge)) edges)
        \<and> map_option (map elk_edge_id) (root_edges elkResult)
            = Some (map (\<lambda>edge. edge_id (edge_heap w edge)) edges) \<longrightarrow>
         map originalEdge (res_edges (convertElkToX6 w elkResult nodes edges))
           = map Some edges)"
proof -
  have forth_nodes:
    "map_option (map elk_id) (root_children (convertX6ToElk config w nodes edges options))
       = Some (map (\<lambda>node. node_id (node_heap w node)) nodes)"
    by (simp add: convertX6ToElk_children elk_id_convertNode comp_def)
  have forth_edges:
    "map_option (map elk_edge_id) (root_edges (convertX6ToElk config w nodes edges options))
       = Some (map (\<lambda>edge. edge_id (edge_heap w edge)) edges)"
    by (simp add: convertX6ToElk_edges elk_edge_id_convertEdge comp_def)
  have back_nodes:
    "map (\<lambda>e. (rn_id e, originalNode e)) (res_nodes (convertElkToX6 w elkResult nodes edges))
       = map (\<lambda>elkNode.
                (elk_id elkNode,
                 find (\<lambda>node. node_id (node_heap w node) = elk_id elkNode) (rev nodes)))
             (case root_children elkResult of None \<Rightarrow> [] | Some children \<Rightarrow> children)"
    by (simp only: res_nodes_convertElkToX6
        new_Map_find [of "\<lambda>node. node_id (node_heap w node)" nodes])
  have back_edges:
    "map (\<lambda>e. (re_id e, originalEdge e)) (res_edges (convertElkToX6 w elkResult nodes edges))
       = map (\<lambda>elkEdge.
                (elk_edge_id elkEdge,
                 find (\<lambda>edge. edge_id (edge_heap w edge) = elk_edge_id elkEdge) (rev edges)))
             (case root_edges elkResult of None \<Rightarrow> [] | Some es \<Rightarrow> es)"
    by (simp only: res_edges_convertElkToX6
        new_Map_find [of "\<lambda>edge. edge_id (edge_heap w edge)" edges])
  have entry_nodes:
    "\<forall>e \<in> set (res_nodes (convertElkToX6 w elkResult nodes edges)).
       (case originalNode e of
          Some node \<Rightarrow> node \<in> set nodes \<and> node_id (node_heap w node) = rn_id e
        | None \<Rightarrow> rn_id e \<notin> (\<lambda>node. node_id (node_heap w node)) ` set nodes)"
  proof
    fix e assume "e \<in> set (res_nodes (convertElkToX6 w elkResult nodes edges))"
    then have entry: "originalNode e =
        new_Map (map (\<lambda>node. (node_id (node_heap w node), node)) nodes) (rn_id e)"
      by (rule res_node_entry)
    show "case originalNode e of
            Some node \<Rightarrow> node \<in> set nodes \<and> node_id (node_heap w node) = rn_id e
          | None \<Rightarrow> rn_id e \<notin> (\<lambda>node. node_id (node_heap w node)) ` set nodes"
    proof (cases "originalNode e")
      case None
      with entry have "new_Map (map (\<lambda>node. (node_id (node_heap w node), node)) nodes) (rn_id e)
                         = None"
        by simp
      then have "rn_id e \<notin> (\<lambda>node. node_id (node_heap w node)) ` set nodes"
        by (simp add: new_Map_None)
      with None show ?thesis by simp
    next
      case (Some node)
      with entry have "new_Map (map (\<lambda>node. (node_id (node_heap w node), node)) nodes) (rn_id e)
                         = Some node"
        by simp
      then have "node \<in> set nodes \<and> node_id (node_heap w node) = rn_id e"
        by (rule new_Map_Some)
      with Some show ?thesis by simp
    qed
  qed
  have entry_edges:
    "\<forall>e \<in> set (res_edges (convertElkToX6 w elkResult nodes edges)).
       (case originalEdge e of
          Some edge \<Rightarrow> edge \<in> set edges \<and> edge_id (edge_heap w edge) = re_id e
        | None \<Rightarrow> re_id e \<notin> (\<lambda>edge. edge_id (edge_heap w edge)) ` set edges)"
  proof
    fix e assume "e \<in> set (res_edges (convertElkToX6 w elkResult nodes edges))"
    then have entry: "originalEdge e =
        new_Map (map (\<lambda>edge. (edge_id (edge_heap w edge), edge)) edges) (re_id e)"
      by (rule res_edge_entry)
    show "case originalEdge e of
            Some edge \<Rightarrow> edge \<in> set edges \<and> edge_id (edge_heap w edge) = re_id e
          | None \<Rightarrow> re_id e \<notin> (\<lambda>edge. edge_id (edge_heap w edge)) ` set edges"
    proof (cases "originalEdge e")
      case None
      with entry have "new_Map (map (\<lambda>edge. (edge_id (edge_heap w edge), edge)) edges) (re_id e)
                         = None"
        by simp
      then have "re_id e \<notin> (\<lambda>edge. edge_id (edge_heap w edge)) ` set edges"
        by (simp add: new_Map_None)
      with None show ?thesis by simp
    next
      case (Some edge)
      with entry have "new_Map (map (\<lambda>edge. (edge_id (edge_heap w edge), edge)) edges) (re_id e)
                         = Some edge"
        by simp
      then have "edge \<in> set edges \<and> edge_id (edge_heap w edge) = re_id e"
        by (rule new_Map_Some)
      with Some show ?thesis by simp
    qed
  qed
  have same_nodes:
    "distinct (map (\<lambda>node. node_id (node_heap w node)) nodes) \<longrightarrow>
       (\<forall>e \<in> set (res_nodes (convertElkToX6 w elkResult nodes edges)).
          \<forall>node \<in> set nodes.
            node_id (node_heap w node) = rn_id e \<longrightarrow> originalNode e = Some node)"
  proof (intro impI ballI)
    fix e node
    assume "distinct (map (\<lambda>node. node_id (node_heap w node)) nodes)"
      and "e \<in> set (res_nodes (convertElkToX6 w elkResult nodes edges))"
      and "node \<in> set nodes" and "node_id (node_heap w node) = rn_id e"
    then show "originalNode e = Some node"
      using new_Map_distinct [of "\<lambda>node. node_id (node_heap w node)" nodes node]
      by (simp add: res_node_entry)
  qed
  have same_edges:
    "distinct (map (\<lambda>edge. edge_id (edge_heap w edge)) edges) \<longrightarrow>
       (\<forall>e \<in> set (res_edges (convertElkToX6 w elkResult nodes edges)).
          \<forall>edge \<in> set edges.
            edge_id (edge_heap w edge) = re_id e \<longrightarrow> originalEdge e = Some edge)"
  proof (intro impI ballI)
    fix e edge
    assume "distinct (map (\<lambda>edge. edge_id (edge_heap w edge)) edges)"
      and "e \<in> set (res_edges (convertElkToX6 w elkResult nodes edges))"
      and "edge \<in> set edges" and "edge_id (edge_heap w edge) = re_id e"
    then show "originalEdge e = Some edge"
      using new_Map_distinct [of "\<lambda>edge. edge_id (edge_heap w edge)" edges edge]
      by (simp add: res_edge_entry)
  qed
  have trip_nodes:
    "distinct (map (\<lambda>node. node_id (node_heap w node)) nodes)
      \<and> map_option (map elk_id) (root_children elkResult)
          = Some (map (\<lambda>node. node_id (node_heap w node)) nodes) \<longrightarrow>
       map originalNode (res_nodes (convertElkToX6 w elkResult nodes edges)) = map Some nodes"
  proof
    assume a: "distinct (map (\<lambda>node. node_id (node_heap w node)) nodes)
      \<and> map_option (map elk_id) (root_children elkResult)
          = Some (map (\<lambda>node. node_id (node_heap w node)) nodes)"
    then obtain children where c: "root_children elkResult = Some children"
      and ids: "map elk_id children = map (\<lambda>node. node_id (node_heap w node)) nodes"
      by auto
    have "map snd (map (\<lambda>e. (rn_id e, originalNode e))
                       (res_nodes (convertElkToX6 w elkResult nodes edges)))
            = map (\<lambda>k. new_Map (map (\<lambda>node. (node_id (node_heap w node), node)) nodes) k)
                  (map elk_id children)"
      unfolding res_nodes_convertElkToX6 by (simp add: c comp_def)
    also have "\<dots> = map Some nodes"
      unfolding ids using a new_Map_distinct [of "\<lambda>node. node_id (node_heap w node)" nodes]
      by (simp add: comp_def)
    finally show "map originalNode (res_nodes (convertElkToX6 w elkResult nodes edges))
                    = map Some nodes"
      by (simp add: comp_def)
  qed
  have trip_edges:
    "distinct (map (\<lambda>edge. edge_id (edge_heap w edge)) edges)
      \<and> map_option (map elk_edge_id) (root_edges elkResult)
          = Some (map (\<lambda>edge. edge_id (edge_heap w edge)) edges) \<longrightarrow>
       map originalEdge (res_edges (convertElkToX6 w elkResult nodes edges)) = map Some edges"
  proof
    assume a: "distinct (map (\<lambda>edge. edge_id (edge_heap w edge)) edges)
      \<and> map_option (map elk_edge_id) (root_edges elkResult)
          = Some (map (\<lambda>edge. edge_id (edge_heap w edge)) edges)"
    then obtain es where c: "root_edges elkResult = Some es"
      and ids: "map elk_edge_id es = map (\<lambda>edge. edge_id (edge_heap w edge)) edges"
      by auto
    have "map snd (map (\<lambda>e. (re_id e, originalEdge e))
                       (res_edges (convertElkToX6 w elkResult nodes edges)))
            = map (\<lambda>k. new_Map (map (\<lambda>edge. (edge_id (edge_heap w edge), edge)) edges) k)
                  (map elk_edge_id es)"
      unfolding res_edges_convertElkToX6 by (simp add: c comp_def)
    also have "\<dots> = map Some edges"
      unfolding ids using a new_Map_distinct [of "\<lambda>edge. edge_id (edge_heap w edge)" edges]
      by (simp add: comp_def)
    finally show "map originalEdge (res_edges (convertElkToX6 w elkResult nodes edges))
                    = map Some edges"
      by (simp add: comp_def)
  qed
  show ?thesis
    by (rule conjI [OF forth_nodes conjI [OF forth_edges conjI [OF back_nodes
          conjI [OF back_edges conjI [OF entry_nodes conjI [OF entry_edges
          conjI [OF same_nodes conjI [OF same_edges conjI [OF trip_nodes trip_edges]]]]]]]]])
qed

theorem identifier_round_trip_witness:
  "distinct (map (\<lambda>node. node_id (node_heap abc_world node)) [10, 11, 12])
   \<and> distinct (map (\<lambda>edge. edge_id (edge_heap abc_world edge)) [20, 21])
   \<and> map originalNode
         (res_nodes (convertElkToX6 abc_world
            (convertX6ToElk default_processor abc_world [10, 11, 12] [20, 21] no_options)
            [10, 11, 12] [20, 21]))
       = [Some 10, Some 11, Some 12]
   \<and> map originalEdge
         (res_edges (convertElkToX6 abc_world
            (convertX6ToElk default_processor abc_world [10, 11, 12] [20, 21] no_options)
            [10, 11, 12] [20, 21]))
       = [Some 20, Some 21]
   \<and> map (\<lambda>e. (rn_id e, originalNode e))
         (res_nodes (convertElkToX6 abc_world stale_graph [10, 11, 12] [20, 21]))
       = [(''B'', Some 11), (''Z'', None), (''A'', Some 10)]
   \<and> map (\<lambda>e. (re_id e, originalEdge e))
         (res_edges (convertElkToX6 abc_world stale_graph [10, 11, 12] [20, 21]))
       = [(''e2'', Some 21), (''zz'', None)]"
proof -
  let ?d = "convertX6ToElk default_processor abc_world [10, 11, 12] [20, 21] no_options"
  have dn: "distinct (map (\<lambda>node. node_id (node_heap abc_world node)) [10, 11, 12])"
    by (simp add: abc_world_def example_node_def)
  have de: "distinct (map (\<lambda>edge. edge_id (edge_heap abc_world edge)) [20, 21])"
    by (simp add: abc_world_def example_edge_def)
  note rt = identifier_round_trip
    [of default_processor abc_world "[10, 11, 12]" "[20, 21]" no_options ?d]
  note forth_nodes = rt [THEN conjunct1]
  note forth_edges = rt [THEN conjunct2, THEN conjunct1]
  note trips = rt [THEN conjunct2, THEN conjunct2, THEN conjunct2, THEN conjunct2,
      THEN conjunct2, THEN conjunct2, THEN conjunct2, THEN conjunct2]
  from trips [THEN conjunct1] dn forth_nodes
  have n: "map originalNode (res_nodes (convertElkToX6 abc_world ?d [10, 11, 12] [20, 21]))
             = [Some 10, Some 11, Some 12]"
    by simp
  from trips [THEN conjunct2] de forth_edges
  have e: "map originalEdge (res_edges (convertElkToX6 abc_world ?d [10, 11, 12] [20, 21]))
             = [Some 20, Some 21]"
    by simp
  note stale = identifier_round_trip
    [of default_processor abc_world "[10, 11, 12]" "[20, 21]" no_options stale_graph]
  from stale [THEN conjunct2, THEN conjunct2, THEN conjunct1]
  have sn: "map (\<lambda>e. (rn_id e, originalNode e))
              (res_nodes (convertElkToX6 abc_world stale_graph [10, 11, 12] [20, 21]))
            = [(''B'', Some 11), (''Z'', None), (''A'', Some 10)]"
    by (simp add: stale_graph_def returned_node_def abc_world_def example_node_def)
  from stale [THEN conjunct2, THEN conjunct2, THEN conjunct2, THEN conjunct1]
  have se: "map (\<lambda>e. (re_id e, originalEdge e))
              (res_edges (convertElkToX6 abc_world stale_graph [10, 11, 12] [20, 21]))
            = [(''e2'', Some 21), (''zz'', None)]"
    by (simp add: stale_graph_def returned_edge_def abc_world_def example_edge_def)
  from dn de n e sn se show ?thesis by (intro conjI)
qed

text \<open>
  C4, taken for every list of originals, fails: of two different node objects with the
  same identifier, the entry that comes from the first is resolved to the second, since
  the later entry of the identifier map replaces the earlier one.
\<close>

theorem identifier_round_trip_counterexample:
  "map originalNode
     (res_nodes (convertElkToX6 twins_world
        (convertX6ToElk default_processor twins_world [10, 11] [] no_options) [10, 11] []))
     = [Some 11, Some 11]"
  by (simp add: convertElkToX6_def convertX6ToElk_children elk_id_convertNode Let_def
      twins_world_def example_node_def new_Map_def)

section \<open>ElkLayoutProcessor: the layout directives\<close>

text \<open>The decimal numeral determines the number.\<close>

lemma below_ten: "d < 10 \<Longrightarrow> d \<in> {0, 1, 2, 3, 4, 5, 6, 7, 8, 9 :: nat}"
  by auto

lemma digit_char_inject:
  assumes "d < 10" and "e < 10" and "digit_char d = digit_char e"
  shows "d = e"
proof -
  from assms(1) have d: "d \<in> {0, 1, 2, 3, 4, 5, 6, 7, 8, 9 :: nat}" by (rule below_ten)
  from assms(2) have e: "e \<in> {0, 1, 2, 3, 4, 5, 6, 7, 8, 9 :: nat}" by (rule below_ten)
  from d e assms(3) show ?thesis
    by (auto simp add: digit_char_def)
qed

lemma digit_char_not_minus: "d < 10 \<Longrightarrow> digit_char d \<noteq> CHR ''-''"
  by (drule below_ten) (auto simp add: digit_char_def)

lemma digits_unfold_small: "n < 10 \<Longrightarrow> digits n = [digit_char n]"
  by simp

lemma digits_unfold_large:
  "\<not> n < 10 \<Longrightarrow> digits n = digits (n div 10) @ [digit_char (n mod 10)]"
  by simp

declare digits.simps [simp del]

lemma digits_nonempty: "digits n \<noteq> []"
  by (cases "n < 10") (simp_all add: digits_unfold_small digits_unfold_large)

lemma digits_no_minus: "CHR ''-'' \<notin> set (digits n)"
proof (induction n rule: less_induct)
  case (less n)
  show ?case
  proof (cases "n < 10")
    case True
    then show ?thesis
      using digit_char_not_minus [of n] by (auto simp add: digits_unfold_small)
  next
    case False
    then have "n div 10 < n" by simp
    from less.IH [OF this] False show ?thesis
      using digit_char_not_minus [of "n mod 10"] by (auto simp add: digits_unfold_large)
  qed
qed

lemma digits_inject: "digits a = digits b \<Longrightarrow> a = b"
proof (induction a arbitrary: b rule: less_induct)
  case (less a)
  show ?case
  proof (cases "a < 10")
    case a: True
    show ?thesis
    proof (cases "b < 10")
      case True
      with a less.prems show ?thesis
        by (simp add: digits_unfold_small digit_char_inject)
    next
      case False
      with a less.prems digits_nonempty [of "b div 10"] show ?thesis
        by (simp add: digits_unfold_small digits_unfold_large)
    qed
  next
    case a: False
    show ?thesis
    proof (cases "b < 10")
      case True
      with a less.prems digits_nonempty [of "a div 10"] show ?thesis
        by (simp add: digits_unfold_small digits_unfold_large)
    next
      case False
      with a less.prems have init_eq: "digits (a div 10) = digits (b div 10)"
        and last_eq: "digit_char (a mod 10) = digit_char (b mod 10)"
        by (simp_all add: digits_unfold_large)
      from a have "a div 10 < a" by simp
      from less.IH [OF this init_eq] have "a div 10 = b div 10" .
      moreover from last_eq have "a mod 10 = b mod 10"
        by (intro digit_char_inject) simp_all
      ultimately show ?thesis by (metis div_mult_mod_eq)
    qed
  qed
qed

lemma number_toString_inject: "number_toString a = number_toString b \<Longrightarrow> a = b"
proof -
  assume eq: "number_toString a = number_toString b"
  have hd_digit: "digits n \<noteq> CHR ''-'' # s" for n s
    using digits_no_minus [of n] by (metis list.set_intros(1))
  show "a = b"
  proof (cases "a < 0")
    case a: True
    show ?thesis
    proof (cases "b < 0")
      case True
      with a eq have "digits (nat (- a)) = digits (nat (- b))"
        by (simp add: number_toString_def)
      then have "nat (- a) = nat (- b)" by (rule digits_inject)
      with a True show ?thesis by simp
    next
      case False
      with a eq hd_digit [of "nat b"] show ?thesis
        by (simp add: number_toString_def) metis
    qed
  next
    case a: False
    show ?thesis
    proof (cases "b < 0")
      case True
      with a eq hd_digit [of "nat a"] show ?thesis
        by (simp add: number_toString_def)
    next
      case False
      with a eq have "digits (nat a) = digits (nat b)"
        by (simp add: number_toString_def)
      then have "nat a = nat b" by (rule digits_inject)
      with a False show ?thesis by simp
    qed
  qed
qed

lemma number_toString_minimum:
  "number_toString 30 = ''30''" "number_toString 60 = ''60''" "number_toString 20 = ''20''"
  by (simp_all add: number_toString_def digits.simps digit_char_def)

lemma buildLayoutOptions_override:
  "cfg_layoutOptions config k = Some v \<Longrightarrow> buildLayoutOptions config options k = Some v"
  by (simp add: buildLayoutOptions_def Let_def map_add_Some_iff)

lemma buildLayoutOptions_spacing:
  "cfg_layoutOptions config ''elk.spacing.nodeNode'' = None \<Longrightarrow>
     buildLayoutOptions config options ''elk.spacing.nodeNode'' =
       Some (number_toString (max (or_int (nodeNode (cfg_spacing config)) 30) 30))"
  "cfg_layoutOptions config ''elk.layered.spacing.nodeNodeBetweenLayers'' = None \<Longrightarrow>
     buildLayoutOptions config options ''elk.layered.spacing.nodeNodeBetweenLayers'' =
       Some (number_toString
               (max (or_int (nodeNodeBetweenLayers (cfg_spacing config)) 60) 60))"
  "cfg_layoutOptions config ''elk.layered.spacing.edgeNodeBetweenLayers'' = None \<Longrightarrow>
     buildLayoutOptions config options ''elk.layered.spacing.edgeNodeBetweenLayers'' =
       Some (number_toString
               (max (or_int (edgeNodeBetweenLayers (cfg_spacing config)) 30) 30))"
  "cfg_layoutOptions config ''elk.spacing.edgeEdge'' = None \<Longrightarrow>
     buildLayoutOptions config options ''elk.spacing.edgeEdge'' =
       Some (number_toString (max (or_int (edgeEdge (cfg_spacing config)) 20) 20))"
  by (simp_all add: buildLayoutOptions_def Let_def map_add_def)

lemma clamp_directive:
  assumes "d = Some (number_toString (max (or_int field m) m))" and "0 < m"
  shows "\<forall>v. field = Some v \<and> v < m \<longrightarrow>
            d = Some (number_toString m) \<and> d \<noteq> Some (number_toString v)"
    and "\<forall>v. field = Some v \<and> m \<le> v \<longrightarrow> d = Some (number_toString v)"
  using assms number_toString_inject by (auto simp add: or_int_def)

text \<open>
  C5. Each of the four spacing directives is the decimal numeral of the configured value
  clamped to its minimum (30 for \<^verbatim>\<open>nodeNode\<close>, 60 for \<^verbatim>\<open>nodeNodeBetweenLayers\<close>, 30 for
  \<^verbatim>\<open>edgeNodeBetweenLayers\<close>, 20 for \<^verbatim>\<open>edgeEdge\<close>) unless \<^verbatim>\<open>layoutOptions\<close> of the
  configuration overrides the directive: a configured value below the minimum gives the
  minimum and not the value, a value from the minimum on gives the value. A directive in
  \<^verbatim>\<open>layoutOptions\<close> of the configuration always wins over the computed one.
\<close>

theorem spacing_floor:
  "(cfg_layoutOptions config ''elk.spacing.nodeNode'' = None \<longrightarrow>
      buildLayoutOptions config options ''elk.spacing.nodeNode''
        = Some (number_toString (max (or_int (nodeNode (cfg_spacing config)) 30) 30))
      \<and> (\<forall>v. nodeNode (cfg_spacing config) = Some v \<and> v < 30 \<longrightarrow>
             buildLayoutOptions config options ''elk.spacing.nodeNode'' = Some ''30''
             \<and> buildLayoutOptions config options ''elk.spacing.nodeNode''
                 \<noteq> Some (number_toString v))
      \<and> (\<forall>v. nodeNode (cfg_spacing config) = Some v \<and> 30 \<le> v \<longrightarrow>
             buildLayoutOptions config options ''elk.spacing.nodeNode''
               = Some (number_toString v)))
   \<and> (cfg_layoutOptions config ''elk.layered.spacing.nodeNodeBetweenLayers'' = None \<longrightarrow>
      buildLayoutOptions config options ''elk.layered.spacing.nodeNodeBetweenLayers''
        = Some (number_toString
                  (max (or_int (nodeNodeBetweenLayers (cfg_spacing config)) 60) 60))
      \<and> (\<forall>v. nodeNodeBetweenLayers (cfg_spacing config) = Some v \<and> v < 60 \<longrightarrow>
             buildLayoutOptions config options ''elk.layered.spacing.nodeNodeBetweenLayers''
               = Some ''60''
             \<and> buildLayoutOptions config options ''elk.layered.spacing.nodeNodeBetweenLayers''
                 \<noteq> Some (number_toString v))
      \<and> (\<forall>v. nodeNodeBetweenLayers (cfg_spacing config) = Some v \<and> 60 \<le> v \<longrightarrow>
             buildLayoutOptions config options ''elk.layered.spacing.nodeNodeBetweenLayers''
               = Some (number_toString v)))
   \<and> (cfg_layoutOptions config ''elk.layered.spacing.edgeNodeBetweenLayers'' = None \<longrightarrow>
      buildLayoutOptions config options ''elk.layered.spacing.edgeNodeBetweenLayers''
        = Some (number_toString
                  (max (or_int (edgeNodeBetweenLayers (cfg_spacing config)) 30) 30))
      \<and> (\<forall>v. edgeNodeBetweenLayers (cfg_spacing config) = Some v \<and> v < 30 \<longrightarrow>
             buildLayoutOptions config options ''elk.layered.spacing.edgeNodeBetweenLayers''
               = Some ''30''
             \<and> buildLayoutOptions config options ''elk.layered.spacing.edgeNodeBetweenLayers''
                 \<noteq> Some (number_toString v))
      \<and> (\<forall>v. edgeNodeBetweenLayers (cfg_spacing config) = Some v \<and> 30 \<le> v \<longrightarrow>
             buildLayoutOptions config options ''elk.layered.spacing.edgeNodeBetweenLayers''
               = Some (number_toString v)))
   \<and> (cfg_layoutOptions config ''elk.spacing.edgeEdge'' = None \<longrightarrow>
      buildLayoutOptions config options ''elk.spacing.edgeEdge''
        = Some (number_toString (max (or_int (edgeEdge (cfg_spacing config)) 20) 20))
      \<and> (\<forall>v. edgeEdge (cfg_spacing config) = Some v \<and> v < 20 \<longrightarrow>
             buildLayoutOptions config options ''elk.spacing.edgeEdge'' = Some ''20''
             \<and> buildLayoutOptions config options ''elk.spacing.edgeEdge''
                 \<noteq> Some (number_toString v))
      \<and> (\<forall>v. edgeEdge (cfg_spacing config) = Some v \<and> 20 \<le> v \<longrightarrow>
             buildLayoutOptions config options ''elk.spacing.edgeEdge''
               = Some (number_toString v)))
   \<and> (\<forall>k v. cfg_layoutOptions config k = Some v \<longrightarrow>
         buildLayoutOptions config options k = Some v)"
  (is "(_ \<longrightarrow> ?D1 \<and> ?L1 \<and> ?U1) \<and> (_ \<longrightarrow> ?D2 \<and> ?L2 \<and> ?U2)
        \<and> (_ \<longrightarrow> ?D3 \<and> ?L3 \<and> ?U3) \<and> (_ \<longrightarrow> ?D4 \<and> ?L4 \<and> ?U4) \<and> ?O")
proof -
  have first: "cfg_layoutOptions config ''elk.spacing.nodeNode'' = None \<longrightarrow> ?D1 \<and> ?L1 \<and> ?U1"
  proof
    assume none: "cfg_layoutOptions config ''elk.spacing.nodeNode'' = None"
    from none have d: ?D1 by (rule buildLayoutOptions_spacing(1))
    have pos: "(0::int) < 30" by simp
    from clamp_directive(1) [OF d pos] have l: ?L1
      unfolding number_toString_minimum .
    from clamp_directive(2) [OF d pos] have u: ?U1 .
    from d l u show "?D1 \<and> ?L1 \<and> ?U1" by (intro conjI)
  qed
  have second: "cfg_layoutOptions config ''elk.layered.spacing.nodeNodeBetweenLayers'' = None
                  \<longrightarrow> ?D2 \<and> ?L2 \<and> ?U2"
  proof
    assume none: "cfg_layoutOptions config ''elk.layered.spacing.nodeNodeBetweenLayers'' = None"
    from none have d: ?D2 by (rule buildLayoutOptions_spacing(2))
    have pos: "(0::int) < 60" by simp
    from clamp_directive(1) [OF d pos] have l: ?L2
      unfolding number_toString_minimum .
    from clamp_directive(2) [OF d pos] have u: ?U2 .
    from d l u show "?D2 \<and> ?L2 \<and> ?U2" by (intro conjI)
  qed
  have third: "cfg_layoutOptions config ''elk.layered.spacing.edgeNodeBetweenLayers'' = None
                  \<longrightarrow> ?D3 \<and> ?L3 \<and> ?U3"
  proof
    assume none: "cfg_layoutOptions config ''elk.layered.spacing.edgeNodeBetweenLayers'' = None"
    from none have d: ?D3 by (rule buildLayoutOptions_spacing(3))
    have pos: "(0::int) < 30" by simp
    from clamp_directive(1) [OF d pos] have l: ?L3
      unfolding number_toString_minimum .
    from clamp_directive(2) [OF d pos] have u: ?U3 .
    from d l u show "?D3 \<and> ?L3 \<and> ?U3" by (intro conjI)
  qed
  have fourth: "cfg_layoutOptions config ''elk.spacing.edgeEdge'' = None \<longrightarrow> ?D4 \<and> ?L4 \<and> ?U4"
  proof
    assume none: "cfg_layoutOptions config ''elk.spacing.edgeEdge'' = None"
    from none have d: ?D4 by (rule buildLayoutOptions_spacing(4))
    have pos: "(0::int) < 20" by simp
    from clamp_directive(1) [OF d pos] have l: ?L4
      unfolding number_toString_minimum .
    from clamp_directive(2) [OF d pos] have u: ?U4 .
    from d l u show "?D4 \<and> ?L4 \<and> ?U4" by (intro conjI)
  qed
  have overrides: ?O
    by (simp add: buildLayoutOptions_override)
  from first second third fourth overrides show ?thesis by (intro conjI)
qed

theorem spacing_floor_witness:
  "cfg_layoutOptions default_processor ''elk.spacing.nodeNode'' = None
   \<and> nodeNode (cfg_spacing default_processor) = Some 20 \<and> (20 :: int) < 30
   \<and> buildLayoutOptions default_processor no_options ''elk.spacing.nodeNode'' = Some ''30''
   \<and> cfg_layoutOptions (default_processor\<lparr>cfg_layoutOptions := [''elk.spacing.nodeNode'' \<mapsto> ''5'']\<rparr>)
         ''elk.spacing.nodeNode'' = Some ''5''
   \<and> buildLayoutOptions
         (default_processor\<lparr>cfg_layoutOptions := [''elk.spacing.nodeNode'' \<mapsto> ''5'']\<rparr>)
         no_options ''elk.spacing.nodeNode'' = Some ''5''"
proof -
  let ?over = "default_processor\<lparr>cfg_layoutOptions := [''elk.spacing.nodeNode'' \<mapsto> ''5'']\<rparr>"
  have none: "cfg_layoutOptions default_processor ''elk.spacing.nodeNode'' = None"
    by (simp add: default_processor_def new_ElkLayoutProcessor_def empty_config_def)
  have twenty: "nodeNode (cfg_spacing default_processor) = Some 20 \<and> (20 :: int) < 30"
    by (simp add: default_processor_def new_ElkLayoutProcessor_def empty_config_def
        default_spacing_def)
  have over: "cfg_layoutOptions ?over ''elk.spacing.nodeNode'' = Some ''5''"
    by simp
  from spacing_floor [of default_processor no_options] none twenty
  have a: "buildLayoutOptions default_processor no_options ''elk.spacing.nodeNode'' = Some ''30''"
    by blast
  from spacing_floor [of ?over no_options] over
  have b: "buildLayoutOptions ?over no_options ''elk.spacing.nodeNode'' = Some ''5''"
    by blast
  from none twenty over a b show ?thesis by (intro conjI) simp_all
qed

section \<open>ElkLayoutProcessor: applying a layout\<close>

lemma foldl_applyNodeAnimated:
  "0 < d \<Longrightarrow> foldl (applyNodeAnimated d) w rs = foldl x6_exec w (node_writes d rs)"
  by (induction rs arbitrary: w)
     (simp_all add: node_writes_def applyNodeAnimated_def split: option.split)

lemma foldl_applyNodeDirect:
  "\<not> 0 < d \<Longrightarrow> foldl applyNodeDirect w rs = foldl x6_exec w (node_writes d rs)"
  by (induction rs arbitrary: w)
     (simp_all add: node_writes_def applyNodeDirect_def split: option.split)

lemma foldl_applyEdge: "foldl applyEdge w rs = foldl x6_exec w (edge_writes rs)"
  by (induction rs arbitrary: w)
     (simp_all add: edge_writes_def applyEdge_def split: option.split)

lemma applyResult_calls:
  "applyResult res d w =
     foldl x6_exec w (node_writes d (res_nodes res) @ edge_writes (res_edges res))"
  by (cases "0 < d")
     (simp_all add: applyResult_def Let_def foldl_applyNodeAnimated foldl_applyNodeDirect
        foldl_applyEdge)

text \<open>What a sequence of changing calls does to the world.\<close>

lemma exec_calls_log: "x6_calls (foldl x6_exec w cs) = x6_calls w @ cs"
proof (induction cs arbitrary: w)
  case Nil
  then show ?case by simp
next
  case (Cons c cs)
  then show ?case by (cases c) simp_all
qed

lemma exec_calls_graph:
  "graph_nodes (foldl x6_exec w cs) = graph_nodes w
   \<and> graph_edges (foldl x6_exec w cs) = graph_edges w
   \<and> elk_calls (foldl x6_exec w cs) = elk_calls w"
proof (induction cs arbitrary: w)
  case Nil
  then show ?case by simp
next
  case (Cons c cs)
  then show ?case by (cases c) simp_all
qed

lemma exec_calls_node_untouched:
  "Some node \<notin> written_node ` set cs \<Longrightarrow>
     node_heap (foldl x6_exec w cs) node = node_heap w node"
proof (induction cs arbitrary: w)
  case Nil
  then show ?case by simp
next
  case (Cons c cs)
  then show ?case by (cases c) auto
qed

lemma exec_calls_edge_untouched:
  "Some edge \<notin> written_edge ` set cs \<Longrightarrow>
     edge_heap (foldl x6_exec w cs) edge = edge_heap w edge"
proof (induction cs arbitrary: w)
  case Nil
  then show ?case by simp
next
  case (Cons c cs)
  then show ?case by (cases c) auto
qed

lemma exec_calls_node_rest:
  "(node_heap (foldl x6_exec w cs) node)\<lparr>node_position := p\<rparr>
     = (node_heap w node)\<lparr>node_position := p\<rparr>"
proof (induction cs arbitrary: w)
  case Nil
  then show ?case by simp
next
  case (Cons c cs)
  then show ?case by (cases c) (simp_all add: fun_upd_def)
qed

lemma exec_calls_edge_rest:
  "(edge_heap (foldl x6_exec w cs) edge)\<lparr>edge_vertices := vs\<rparr>
     = (edge_heap w edge)\<lparr>edge_vertices := vs\<rparr>"
proof (induction cs arbitrary: w)
  case Nil
  then show ?case by simp
next
  case (Cons c cs)
  then show ?case by (cases c) (simp_all add: fun_upd_def)
qed

lemma exec_calls_last_position:
  assumes "Some node \<notin> written_node ` set after"
  shows "node_position (node_heap (foldl x6_exec w (before @ SetPosition node x y t # after)) node)
           = (x, y)"
  using assms by (simp add: exec_calls_node_untouched)

lemma exec_calls_last_vertices:
  assumes "Some edge \<notin> written_edge ` set after"
  shows "edge_vertices (edge_heap (foldl x6_exec w (before @ SetVertices edge vs # after)) edge)
           = vs"
  using assms by (simp add: exec_calls_edge_untouched)

lemma node_writes_simps:
  "node_writes d [] = []"
  "node_writes d (r # rs) =
     (case originalNode r of
        None \<Rightarrow> []
      | Some node \<Rightarrow> [SetPosition node (rn_x r) (rn_y r) (if 0 < d then Some d else None)])
     @ node_writes d rs"
  by (simp_all add: node_writes_def)

lemma edge_writes_simps:
  "edge_writes [] = []"
  "edge_writes (r # rs) =
     (case (originalEdge r, re_vertices r) of
        (Some edge, Some vertices) \<Rightarrow> if vertices = [] then [] else [SetVertices edge vertices]
      | _ \<Rightarrow> [])
     @ edge_writes rs"
  by (simp_all add: edge_writes_def)

lemma written_node_node_writes:
  "Some node \<in> written_node ` set (node_writes d rs) \<longleftrightarrow>
     (\<exists>r \<in> set rs. originalNode r = Some node)"
proof (induction rs)
  case Nil
  then show ?case by (simp add: node_writes_simps)
next
  case (Cons r rs)
  then show ?case
    by (cases "originalNode r") (auto simp add: node_writes_simps)
qed

lemma written_node_edge_writes: "Some node \<notin> written_node ` set (edge_writes rs)"
proof (induction rs)
  case Nil
  then show ?case by (simp add: edge_writes_simps)
next
  case (Cons r rs)
  then show ?case
    by (cases "originalEdge r"; cases "re_vertices r") (auto simp add: edge_writes_simps)
qed

lemma written_edge_node_writes: "Some edge \<notin> written_edge ` set (node_writes d rs)"
proof (induction rs)
  case Nil
  then show ?case by (simp add: node_writes_simps)
next
  case (Cons r rs)
  then show ?case
    by (cases "originalNode r") (auto simp add: node_writes_simps)
qed

lemma written_edge_edge_writes:
  "Some edge \<in> written_edge ` set (edge_writes rs) \<longleftrightarrow>
     (\<exists>r \<in> set rs. \<exists>vs. originalEdge r = Some edge \<and> re_vertices r = Some vs \<and> vs \<noteq> [])"
proof (induction rs)
  case Nil
  then show ?case by (simp add: edge_writes_simps)
next
  case (Cons r rs)
  then show ?case
    by (cases "originalEdge r"; cases "re_vertices r") (auto simp add: edge_writes_simps)
qed

lemma node_writes_append: "node_writes d (rs @ rs') = node_writes d rs @ node_writes d rs'"
  by (simp add: node_writes_def)

lemma edge_writes_append: "edge_writes (rs @ rs') = edge_writes rs @ edge_writes rs'"
  by (simp add: edge_writes_def)

lemma applyResult_node_untouched:
  assumes "\<forall>r \<in> set (res_nodes res). originalNode r \<noteq> Some node"
  shows "node_heap (applyResult res d w) node = node_heap w node"
proof -
  from assms have "Some node \<notin> written_node ` set (node_writes d (res_nodes res))"
    by (simp add: written_node_node_writes)
  then have "Some node \<notin> written_node
                ` set (node_writes d (res_nodes res) @ edge_writes (res_edges res))"
    using written_node_edge_writes [of node "res_edges res"] by (simp add: image_Un)
  then show ?thesis
    unfolding applyResult_calls by (rule exec_calls_node_untouched)
qed

lemma applyResult_edge_untouched:
  assumes "\<forall>r \<in> set (res_edges res).
             originalEdge r \<noteq> Some edge \<or> re_vertices r = None \<or> re_vertices r = Some []"
  shows "edge_heap (applyResult res d w) edge = edge_heap w edge"
proof -
  from assms have "Some edge \<notin> written_edge ` set (edge_writes (res_edges res))"
    by (auto simp add: written_edge_edge_writes)
  then have "Some edge \<notin> written_edge
                ` set (node_writes d (res_nodes res) @ edge_writes (res_edges res))"
    using written_edge_node_writes [of edge d "res_nodes res"] by (simp add: image_Un)
  then show ?thesis
    unfolding applyResult_calls by (rule exec_calls_edge_untouched)
qed

lemma applyResult_node_position:
  assumes "res_nodes res = before @ r # after" and "originalNode r = Some node"
    and "\<forall>r' \<in> set after. originalNode r' \<noteq> Some node"
  shows "node_position (node_heap (applyResult res d w) node) = (rn_x r, rn_y r)"
proof -
  let ?t = "if 0 < d then Some d else None"
  let ?rest = "node_writes d after @ edge_writes (res_edges res)"
  have calls: "node_writes d (res_nodes res) @ edge_writes (res_edges res)
                 = node_writes d before @ SetPosition node (rn_x r) (rn_y r) ?t # ?rest"
    by (simp add: assms(1,2) node_writes_append node_writes_simps)
  from assms(3) have "Some node \<notin> written_node ` set (node_writes d after)"
    by (simp add: written_node_node_writes)
  then have "Some node \<notin> written_node ` set ?rest"
    using written_node_edge_writes [of node "res_edges res"] by (simp add: image_Un)
  then show ?thesis
    unfolding applyResult_calls calls by (rule exec_calls_last_position)
qed

lemma applyResult_edge_vertices:
  assumes "res_edges res = before @ r # after" and "originalEdge r = Some edge"
    and "re_vertices r = Some vs" and "vs \<noteq> []"
    and "\<forall>r' \<in> set after. originalEdge r' \<noteq> Some edge"
  shows "edge_vertices (edge_heap (applyResult res d w) edge) = vs"
proof -
  let ?front = "node_writes d (res_nodes res) @ edge_writes before"
  have calls: "node_writes d (res_nodes res) @ edge_writes (res_edges res)
                 = ?front @ SetVertices edge vs # edge_writes after"
    by (simp add: assms(1,2,3,4) edge_writes_append edge_writes_simps)
  from assms(5) have "Some edge \<notin> written_edge ` set (edge_writes after)"
    by (auto simp add: written_edge_edge_writes)
  then show ?thesis
    unfolding applyResult_calls calls by (rule exec_calls_last_vertices)
qed

lemma applyLayoutToGraph_laid_out:
  assumes "graph_nodes w \<noteq> []"
    and "elk (convertX6ToElk config w (graph_nodes w) (graph_edges w) options) = Inr laid"
  shows "applyLayoutToGraph elk config options d w =
           (let w' = w\<lparr>elk_calls := elk_calls w
                        @ [convertX6ToElk config w (graph_nodes w) (graph_edges w) options]\<rparr>;
                res = convertElkToX6 w' laid (graph_nodes w) (graph_edges w)
            in (Inr res, applyResult res d w'))"
  using assms by (simp add: applyLayoutToGraph_def performLayout_def Let_def)

text \<open>
  C6, as the code has it. On a graph without nodes, \<^verbatim>\<open>applyLayoutToGraph\<close>,
  \<^verbatim>\<open>applyFlowchartLayout\<close> and \<^verbatim>\<open>smartLayout\<close> return the empty result, with no nodes,
  no edges and a layout size of zero by zero, whatever the engine would do: the world is
  left as it was, so the engine has not been handed anything and no X6 object has been
  touched.
\<close>

theorem empty_graph_short_circuit:
  assumes "graph_nodes w = []"
  shows "applyLayoutToGraph elk config options d w = (Inr empty_result, w)
         \<and> applyFlowchartLayout elk options elkConfig duration w = (Inr empty_result, w)
         \<and> smartLayout elk options w = (Inr empty_result, w)
         \<and> empty_result = \<lparr>res_nodes = [], res_edges = [], layoutSize = (0, 0)\<rparr>"
  using assms
  by (simp add: applyLayoutToGraph_def applyFlowchartLayout_def smartLayout_def Let_def
      empty_result_def)

theorem empty_graph_short_circuit_witness:
  "graph_nodes empty_world = []
   \<and> applyLayoutToGraph failing_engine default_processor no_options 300 empty_world
       = (Inr \<lparr>res_nodes = [], res_edges = [], layoutSize = (0, 0)\<rparr>, empty_world)
   \<and> elk_calls empty_world = []"
proof -
  have none: "graph_nodes empty_world = []" by (simp add: empty_world_def)
  from empty_graph_short_circuit [OF none, of failing_engine default_processor no_options 300]
  have "applyLayoutToGraph failing_engine default_processor no_options 300 empty_world
          = (Inr \<lparr>res_nodes = [], res_edges = [], layoutSize = (0, 0)\<rparr>, empty_world)"
    by simp
  with none show ?thesis by (simp add: empty_world_def)
qed

text \<open>
  C6, taken for \<^verbatim>\<open>performLayout\<close> as well, fails: called with no nodes it still hands a
  descriptor to the engine, and a failure of the engine is its result.
\<close>

theorem performLayout_empty_counterexample:
  "length (elk_calls (snd (performLayout echo_engine default_processor [] [] no_options
                             empty_world))) = 1
   \<and> fst (performLayout failing_engine default_processor [] [] no_options empty_world)
       = Inl (EngineFailure ''layout failed'')"
  by (simp add: performLayout_def Let_def echo_engine_def failing_engine_def empty_world_def)

text \<open>
  C7, as the code has it. After the layout has been computed, \<^verbatim>\<open>applyLayoutToGraph\<close>
  makes exactly these changing calls, in this order: for each result node with an
  original, \<^verbatim>\<open>position\<close> with the new coordinates, with an \<^verbatim>\<open>ease-in-out\<close> transition
  of the given duration when that is positive and without options otherwise; then for
  each result edge with an original and a bend-point list that is not empty,
  \<^verbatim>\<open>setVertices\<close> with that list. An entry without original causes no call, and neither
  does a matched edge whose bend-point list is empty, which therefore keeps its
  vertices. A node that no entry refers to is unchanged, an edge that no entry with
  bend points refers to is unchanged; of a node only the position and of an edge only
  the vertices can change; a node ends at the position of the last entry that refers to
  it, an edge with the vertices of the last such entry. The lists of nodes and edges of
  the graph stay as they are.
\<close>

theorem apply_step_frame:
  "(graph_nodes w \<noteq> []
      \<and> elk (convertX6ToElk config w (graph_nodes w) (graph_edges w) options) = Inr laid \<longrightarrow>
      applyLayoutToGraph elk config options d w =
        (let w' = w\<lparr>elk_calls := elk_calls w
                     @ [convertX6ToElk config w (graph_nodes w) (graph_edges w) options]\<rparr>;
             res = convertElkToX6 w' laid (graph_nodes w) (graph_edges w)
         in (Inr res, applyResult res d w')))
   \<and> applyResult res d w
       = foldl x6_exec w (node_writes d (res_nodes res) @ edge_writes (res_edges res))
   \<and> x6_calls (applyResult res d w)
       = x6_calls w @ node_writes d (res_nodes res) @ edge_writes (res_edges res)
   \<and> (\<forall>node. (\<forall>r \<in> set (res_nodes res). originalNode r \<noteq> Some node) \<longrightarrow>
         node_heap (applyResult res d w) node = node_heap w node)
   \<and> (\<forall>edge. (\<forall>r \<in> set (res_edges res).
                 originalEdge r \<noteq> Some edge \<or> re_vertices r = None \<or> re_vertices r = Some [])
         \<longrightarrow> edge_heap (applyResult res d w) edge = edge_heap w edge)
   \<and> (\<forall>node p. (node_heap (applyResult res d w) node)\<lparr>node_position := p\<rparr>
                  = (node_heap w node)\<lparr>node_position := p\<rparr>)
   \<and> (\<forall>edge vs. (edge_heap (applyResult res d w) edge)\<lparr>edge_vertices := vs\<rparr>
                   = (edge_heap w edge)\<lparr>edge_vertices := vs\<rparr>)
   \<and> (\<forall>before r after node.
         res_nodes res = before @ r # after \<and> originalNode r = Some node
           \<and> (\<forall>r' \<in> set after. originalNode r' \<noteq> Some node) \<longrightarrow>
         node_position (node_heap (applyResult res d w) node) = (rn_x r, rn_y r))
   \<and> (\<forall>before r after edge vs.
         res_edges res = before @ r # after \<and> originalEdge r = Some edge
           \<and> re_vertices r = Some vs \<and> vs \<noteq> []
           \<and> (\<forall>r' \<in> set after. originalEdge r' \<noteq> Some edge) \<longrightarrow>
         edge_vertices (edge_heap (applyResult res d w) edge) = vs)
   \<and> graph_nodes (applyResult res d w) = graph_nodes w
   \<and> graph_edges (applyResult res d w) = graph_edges w
   \<and> elk_calls (applyResult res d w) = elk_calls w"
proof (intro conjI allI impI)
  assume "graph_nodes w \<noteq> []
            \<and> elk (convertX6ToElk config w (graph_nodes w) (graph_edges w) options) = Inr laid"
  then show "applyLayoutToGraph elk config options d w =
        (let w' = w\<lparr>elk_calls := elk_calls w
                     @ [convertX6ToElk config w (graph_nodes w) (graph_edges w) options]\<rparr>;
             res = convertElkToX6 w' laid (graph_nodes w) (graph_edges w)
         in (Inr res, applyResult res d w'))"
    by (intro applyLayoutToGraph_laid_out) simp_all
next
  show "applyResult res d w
          = foldl x6_exec w (node_writes d (res_nodes res) @ edge_writes (res_edges res))"
    by (rule applyResult_calls)
  show "x6_calls (applyResult res d w)
          = x6_calls w @ node_writes d (res_nodes res) @ edge_writes (res_edges res)"
    by (simp add: applyResult_calls exec_calls_log)
  show "graph_nodes (applyResult res d w) = graph_nodes w"
    by (simp add: applyResult_calls exec_calls_graph)
  show "graph_edges (applyResult res d w) = graph_edges w"
    by (simp add: applyResult_calls exec_calls_graph)
  show "elk_calls (applyResult res d w) = elk_calls w"
    by (simp add: applyResult_calls exec_calls_graph)
next
  fix node assume "\<forall>r \<in> set (res_nodes res). originalNode r \<noteq> Some node"
  then show "node_heap (applyResult res d w) node = node_heap w node"
    by (rule applyResult_node_untouched)
next
  fix edge
  assume "\<forall>r \<in> set (res_edges res).
            originalEdge r \<noteq> Some edge \<or> re_vertices r = None \<or> re_vertices r = Some []"
  then show "edge_heap (applyResult res d w) edge = edge_heap w edge"
    by (rule applyResult_edge_untouched)
next
  fix node p
  show "(node_heap (applyResult res d w) node)\<lparr>node_position := p\<rparr>
          = (node_heap w node)\<lparr>node_position := p\<rparr>"
    by (simp add: applyResult_calls exec_calls_node_rest)
next
  fix edge vs
  show "(edge_heap (applyResult res d w) edge)\<lparr>edge_vertices := vs\<rparr>
          = (edge_heap w edge)\<lparr>edge_vertices := vs\<rparr>"
    by (simp add: applyResult_calls exec_calls_edge_rest)
next
  fix before r after node
  assume "res_nodes res = before @ r # after \<and> originalNode r = Some node
            \<and> (\<forall>r' \<in> set after. originalNode r' \<noteq> Some node)"
  then show "node_position (node_heap (applyResult res d w) node) = (rn_x r, rn_y r)"
    by (intro applyResult_node_position [of res before r after]) simp_all
next
  fix before r after edge vs
  assume "res_edges res = before @ r # after \<and> originalEdge r = Some edge
            \<and> re_vertices r = Some vs \<and> vs \<noteq> []
            \<and> (\<forall>r' \<in> set after. originalEdge r' \<noteq> Some edge)"
  then show "edge_vertices (edge_heap (applyResult res d w) edge) = vs"
    by (intro applyResult_edge_vertices [of res before r after]) simp_all
qed

theorem apply_step_frame_witness:
  "map originalNode (res_nodes example_result) = [Some 10, None]
   \<and> x6_calls (applyResult example_result 300 abc_world)
       = [SetPosition 10 12 34 (Some 300), SetVertices 20 [(1, 2)]]
   \<and> node_heap (applyResult example_result 300 abc_world) 11 = example_node ''B''
   \<and> node_position (node_heap (applyResult example_result 300 abc_world) 10) = (12, 34)
   \<and> edge_vertices (edge_heap (applyResult example_result 300 abc_world) 20) = [(1, 2)]"
proof -
  note frame = apply_step_frame [where w = abc_world and res = example_result and d = 300]
  let ?a = "\<lparr>rn_id = ''A'', rn_x = 12, rn_y = 34, rn_width = 80, rn_height = 40,
              originalNode = Some 10\<rparr>"
  let ?gone = "\<lparr>rn_id = ''gone'', rn_x = 5, rn_y = 6, rn_width = 80, rn_height = 40,
                 originalNode = None\<rparr>"
  let ?e = "\<lparr>re_id = ''e1'', re_source = ''A'', re_target = ''B'', re_vertices = Some [(1, 2)],
              originalEdge = Some 20\<rparr>"
  have originals: "map originalNode (res_nodes example_result) = [Some 10, None]"
    by (simp add: example_result_def)
  from frame have "x6_calls (applyResult example_result 300 abc_world)
      = x6_calls abc_world @ node_writes 300 (res_nodes example_result)
          @ edge_writes (res_edges example_result)"
    by blast
  then have calls: "x6_calls (applyResult example_result 300 abc_world)
      = [SetPosition 10 12 34 (Some 300), SetVertices 20 [(1, 2)]]"
    by (simp add: abc_world_def example_result_def node_writes_simps edge_writes_simps)
  have "\<forall>r \<in> set (res_nodes example_result). originalNode r \<noteq> Some 11"
    by (simp add: example_result_def)
  with frame have "node_heap (applyResult example_result 300 abc_world) 11 = node_heap abc_world 11"
    by blast
  then have other: "node_heap (applyResult example_result 300 abc_world) 11 = example_node ''B''"
    by (simp add: abc_world_def)
  have "res_nodes example_result = [] @ ?a # [?gone] \<and> originalNode ?a = Some 10
          \<and> (\<forall>r' \<in> set [?gone]. originalNode r' \<noteq> Some 10)"
    by (simp add: example_result_def)
  with frame
  have "node_position (node_heap (applyResult example_result 300 abc_world) 10)
          = (rn_x ?a, rn_y ?a)"
    by blast
  then have moved: "node_position (node_heap (applyResult example_result 300 abc_world) 10)
                      = (12, 34)"
    by simp
  have "res_edges example_result = [] @ ?e # [] \<and> originalEdge ?e = Some 20
          \<and> re_vertices ?e = Some [(1, 2)] \<and> [(1, 2) :: point] \<noteq> []
          \<and> (\<forall>r' \<in> set []. originalEdge r' \<noteq> Some 20)"
    by (simp add: example_result_def)
  with frame
  have routed: "edge_vertices (edge_heap (applyResult example_result 300 abc_world) 20)
                  = [(1, 2)]"
    by blast
  from originals calls other moved routed show ?thesis by (intro conjI)
qed

text \<open>
  C7, as stated, fails for an edge whose new bend-point list is empty. The engine that
  returns the descriptor unchanged routes no edge; both edges of \<open>abc_world\<close> are matched
  and get the empty list as their new bend points, yet no \<^verbatim>\<open>setVertices\<close> call is made,
  and the first edge keeps the vertex it had.
\<close>

theorem apply_step_empty_bend_points_counterexample:
  "map originalEdge (res_edges (projr (fst
      (applyLayoutToGraph echo_engine default_processor no_options 0 abc_world))))
     = [Some 20, Some 21]
   \<and> map re_vertices (res_edges (projr (fst
        (applyLayoutToGraph echo_engine default_processor no_options 0 abc_world))))
       = [Some [], Some []]
   \<and> x6_calls (snd (applyLayoutToGraph echo_engine default_processor no_options 0 abc_world))
       = [SetPosition 10 0 0 None, SetPosition 11 0 0 None, SetPosition 12 0 0 None]
   \<and> edge_vertices (edge_heap
        (snd (applyLayoutToGraph echo_engine default_processor no_options 0 abc_world)) 20)
       = [(7, 7)]"
proof -
  let ?d = "convertX6ToElk default_processor abc_world [10, 11, 12] [20, 21] no_options"
  let ?w' = "abc_world\<lparr>elk_calls := elk_calls abc_world @ [?d]\<rparr>"
  let ?res = "convertElkToX6 ?w' ?d [10, 11, 12] [20, 21]"
  have run: "applyLayoutToGraph echo_engine default_processor no_options 0 abc_world
               = (Inr ?res, applyResult ?res 0 ?w')"
    by (simp add: applyLayoutToGraph_def performLayout_def Let_def echo_engine_def
        abc_world_def)
  have nodes: "res_nodes ?res =
      [\<lparr>rn_id = ''A'', rn_x = 0, rn_y = 0, rn_width = 80, rn_height = 40, originalNode = Some 10\<rparr>,
       \<lparr>rn_id = ''B'', rn_x = 0, rn_y = 0, rn_width = 80, rn_height = 40, originalNode = Some 11\<rparr>,
       \<lparr>rn_id = ''C'', rn_x = 0, rn_y = 0, rn_width = 80, rn_height = 40, originalNode = Some 12\<rparr>]"
    by (simp add: convertElkToX6_def convertX6ToElk_children convertNode_def Let_def
        abc_world_def example_node_def new_Map_def or_num_def with_defaults_def
        convert_defaults_def no_options_def)
  have edges: "res_edges ?res =
      [\<lparr>re_id = ''e1'', re_source = ''A'', re_target = ''B'', re_vertices = Some [],
        originalEdge = Some 20\<rparr>,
       \<lparr>re_id = ''e2'', re_source = ''B'', re_target = ''C'', re_vertices = Some [],
        originalEdge = Some 21\<rparr>]"
    by (simp add: convertElkToX6_def convertX6ToElk_edges convertEdge_def Let_def
        abc_world_def example_edge_def new_Map_def firstOrEmpty_def)
  have calls: "x6_calls (applyResult ?res 0 ?w')
      = [SetPosition 10 0 0 None, SetPosition 11 0 0 None, SetPosition 12 0 0 None]"
  proof -
    have "x6_calls ?w' = []" by (simp add: abc_world_def)
    then show ?thesis
      unfolding applyResult_calls exec_calls_log nodes edges
      by (simp add: node_writes_simps edge_writes_simps)
  qed
  have "edge_heap (applyResult ?res 0 ?w') 20 = edge_heap ?w' 20"
    by (rule applyResult_edge_untouched) (simp add: edges)
  then have kept: "edge_vertices (edge_heap (applyResult ?res 0 ?w') 20) = [(7, 7)]"
    by (simp add: abc_world_def example_edge_def)
  show ?thesis
    unfolding run fst_conv snd_conv sum.sel calls kept edges by simp
qed

section \<open>ElkLayoutProcessor: presets\<close>

lemma createPresetConfig_own:
  "createPresetConfig ''flowchart'' = Own flowchart_preset"
  "createPresetConfig ''hierarchy'' = Own hierarchy_preset"
  "createPresetConfig ''network'' = Own network_preset"
  "createPresetConfig ''circular'' = Own circular_preset"
  "createPresetConfig ''clear'' = Own clear_preset"
  by (simp_all add: createPresetConfig_def js_get_def presets_def or_member_def)

lemma createPresetConfig_js_own:
  "createPresetConfig_js ''flowchart'' = Own flowchart_preset"
  "createPresetConfig_js ''hierarchy'' = Own hierarchy_preset_js"
  "createPresetConfig_js ''network'' = Own network_preset_js"
  "createPresetConfig_js ''circular'' = Own circular_preset_js"
  "createPresetConfig_js ''compact'' = Own compact_preset_js"
  "createPresetConfig_js ''clear'' = Own clear_preset"
  by (simp_all add: createPresetConfig_js_def js_get_def presets_js_def or_member_def)

text \<open>
  The fallback as far as it reaches: a name that is neither a preset nor a member of
  \<^verbatim>\<open>Object.prototype\<close> gives the flowchart bundle, in both editions; so does
  \<^verbatim>\<open>compact\<close> in the TypeScript edition, which has no such preset.
\<close>

lemma createPresetConfig_fallback:
  assumes "preset \<notin> fst ` set presets" and "preset \<notin> set object_prototype_members"
  shows "createPresetConfig preset = createPresetConfig ''flowchart''"
proof -
  from assms(1) have "map_of presets preset = None"
    by (simp add: map_of_eq_None_iff)
  with assms(2) have "js_get presets preset = Undefined"
    by (simp add: js_get_def)
  then show ?thesis
    by (simp add: createPresetConfig_def or_member_def split: js_member.split)
qed

lemma createPresetConfig_js_fallback:
  assumes "preset \<notin> fst ` set presets_js" and "preset \<notin> set object_prototype_members"
  shows "createPresetConfig_js preset = createPresetConfig_js ''flowchart''"
proof -
  from assms(1) have "map_of presets_js preset = None"
    by (simp add: map_of_eq_None_iff)
  with assms(2) have "js_get presets_js preset = Undefined"
    by (simp add: js_get_def)
  then show ?thesis
    by (simp add: createPresetConfig_js_def or_member_def split: js_member.split)
qed

lemma createPresetConfig_compact: "createPresetConfig ''compact'' = Own flowchart_preset"
  by (simp add: createPresetConfig_def js_get_def presets_def or_member_def
      object_prototype_members_def)

text \<open>
  C9. The claim: a preset name outside the known set gives the same bundle as
  \<^verbatim>\<open>flowchart\<close>. The code misses the names every object inherits from
  \<^verbatim>\<open>Object.prototype\<close>: \<^verbatim>\<open>presets['constructor']\<close> is the inherited constructor
  function, which is truthy, so the \<^verbatim>\<open>||\<close> never reaches \<^verbatim>\<open>presets.flowchart\<close>. In both
  editions of the class, \<^verbatim>\<open>createPresetConfig('constructor')\<close> is that inherited member,
  not the bundle that \<^verbatim>\<open>createPresetConfig('flowchart')\<close> returns.
\<close>

theorem createPresetConfig_inherited_name:
  "''constructor'' \<notin> fst ` set presets
   \<and> createPresetConfig ''constructor'' = Inherited ''constructor''
   \<and> createPresetConfig ''flowchart'' = Own flowchart_preset
   \<and> createPresetConfig ''constructor'' \<noteq> createPresetConfig ''flowchart''
   \<and> ''constructor'' \<notin> fst ` set presets_js
   \<and> createPresetConfig_js ''constructor'' = Inherited ''constructor''
   \<and> createPresetConfig_js ''flowchart'' = Own flowchart_preset
   \<and> createPresetConfig_js ''constructor'' \<noteq> createPresetConfig_js ''flowchart''"
  by (simp add: createPresetConfig_def createPresetConfig_js_def js_get_def presets_def
      presets_js_def or_member_def object_prototype_members_def)

section \<open>ElkLayoutProcessor: the density-adaptive selection\<close>

lemma Math_round_nearest: "of_int (Math_round x) \<le> x + 1 / 2 \<and> x - 1 / 2 < of_int (Math_round x)"
  unfolding Math_round_def by linarith

lemma as_config_presets_js:
  "as_config (createPresetConfig_js ''clear'') = clear_preset"
  "as_config (createPresetConfig_js ''flowchart'') = flowchart_preset"
  "as_config (createPresetConfig_js ''network'') = network_preset_js"
  "as_config (createPresetConfig_js ''compact'') = compact_preset_js"
  "as_config (createPresetConfig_js ''hierarchy'') = hierarchy_preset_js"
  by (simp_all add: createPresetConfig_js_own as_config_def)

lemma scaled_spacing:
  "scale_spacing m \<lparr>nodeNodeBetweenLayers = Some a, edgeNodeBetweenLayers = Some b,
                     nodeNode = Some c, edgeEdge = Some d\<rparr>
     = \<lparr>nodeNodeBetweenLayers = Some (Math_round (of_int a * m)),
        edgeNodeBetweenLayers = Some (Math_round (of_int b * m)),
        nodeNode = Some (Math_round (of_int c * m)),
        edgeEdge = Some (Math_round (of_int d * m))\<rparr>"
  "scale_spacing m \<lparr>nodeNodeBetweenLayers = None, edgeNodeBetweenLayers = None,
                     nodeNode = Some c, edgeEdge = Some d\<rparr>
     = \<lparr>nodeNodeBetweenLayers = None, edgeNodeBetweenLayers = None,
        nodeNode = Some (Math_round (of_int c * m)),
        edgeEdge = Some (Math_round (of_int d * m))\<rparr>"
  by (simp_all add: scale_spacing_def)

lemma smartLayout_plan_clear:
  assumes "int (length (graph_nodes w)) \<le> 10" and "js_lt (graph_density w) (3 / 10)"
  shows "smartLayout_plan w options =
           (clear_preset\<lparr>spacing := map_option
                (scale_spacing (max 1 (min 2 (of_int (int (length (graph_nodes w))) / 15))))
                (spacing clear_preset)\<rparr>,
            with_defaults
              \<lparr>defaultNodeSize = Some (120, 50), autoCalculateSize = Some True,
               edgeRouting = Some ORTHOGONAL, preserveNodeData = None\<rparr> options,
            min 800 (int (length (graph_nodes w)) * 20))"
  using assms by (auto simp add: smartLayout_plan_def Let_def as_config_presets_js)

lemma smartLayout_plan_flowchart:
  assumes "\<not> (int (length (graph_nodes w)) \<le> 10 \<and> js_lt (graph_density w) (3 / 10))"
    and "int (length (graph_nodes w)) \<le> 20" and "graph_maxDegree w \<le> 3"
  shows "smartLayout_plan w options =
           (flowchart_preset\<lparr>spacing := map_option
                (scale_spacing (max 1 (min 2 (of_int (int (length (graph_nodes w))) / 15))))
                (spacing flowchart_preset)\<rparr>,
            with_defaults
              \<lparr>defaultNodeSize = Some (120, 50), autoCalculateSize = Some True,
               edgeRouting = Some ORTHOGONAL, preserveNodeData = None\<rparr> options,
            min 800 (int (length (graph_nodes w)) * 20))"
  using assms by (auto simp add: smartLayout_plan_def Let_def as_config_presets_js)

lemma smartLayout_plan_network:
  assumes "\<not> (int (length (graph_nodes w)) \<le> 10 \<and> js_lt (graph_density w) (3 / 10))"
    and "\<not> (int (length (graph_nodes w)) \<le> 20 \<and> graph_maxDegree w \<le> 3)"
    and "js_gt (graph_density w) (1 / 2) \<or> 5 < graph_maxDegree w"
  shows "smartLayout_plan w options =
           (network_preset_js\<lparr>spacing := map_option
                (scale_spacing (max 1 (min 2 (of_int (int (length (graph_nodes w))) / 15))))
                (spacing network_preset_js)\<rparr>,
            (with_defaults
              \<lparr>defaultNodeSize = Some (120, 50), autoCalculateSize = Some True,
               edgeRouting = Some ORTHOGONAL, preserveNodeData = None\<rparr> options)
              \<lparr>edgeRouting := Some SPLINES\<rparr>,
            min 800 (int (length (graph_nodes w)) * 20))"
  using assms by (auto simp add: smartLayout_plan_def Let_def as_config_presets_js)

lemma smartLayout_plan_compact:
  assumes "\<not> (int (length (graph_nodes w)) \<le> 10 \<and> js_lt (graph_density w) (3 / 10))"
    and "\<not> (int (length (graph_nodes w)) \<le> 20 \<and> graph_maxDegree w \<le> 3)"
    and "\<not> (js_gt (graph_density w) (1 / 2) \<or> 5 < graph_maxDegree w)"
    and "30 < int (length (graph_nodes w))"
  shows "smartLayout_plan w options =
           (compact_preset_js\<lparr>spacing := map_option
                (scale_spacing (max 1 (min 2 (of_int (int (length (graph_nodes w))) / 15))))
                (spacing compact_preset_js)\<rparr>,
            with_defaults
              \<lparr>defaultNodeSize = Some (120, 50), autoCalculateSize = Some True,
               edgeRouting = Some ORTHOGONAL, preserveNodeData = None\<rparr> options,
            min 800 (int (length (graph_nodes w)) * 20))"
  using assms by (auto simp add: smartLayout_plan_def Let_def as_config_presets_js)

lemma smartLayout_plan_hierarchy:
  assumes "\<not> (int (length (graph_nodes w)) \<le> 10 \<and> js_lt (graph_density w) (3 / 10))"
    and "\<not> (int (length (graph_nodes w)) \<le> 20 \<and> graph_maxDegree w \<le> 3)"
    and "\<not> (js_gt (graph_density w) (1 / 2) \<or> 5 < graph_maxDegree w)"
    and "\<not> 30 < int (length (graph_nodes w))"
  shows "smartLayout_plan w options =
           (hierarchy_preset_js\<lparr>spacing := map_option
                (scale_spacing (max 1 (min 2 (of_int (int (length (graph_nodes w))) / 15))))
                (spacing hierarchy_preset_js)\<rparr>,
            with_defaults
              \<lparr>defaultNodeSize = Some (120, 50), autoCalculateSize = Some True,
               edgeRouting = Some ORTHOGONAL, preserveNodeData = None\<rparr> options,
            min 800 (int (length (graph_nodes w)) * 20))"
  using assms by (auto simp add: smartLayout_plan_def Let_def as_config_presets_js)

lemma preset_spacings:
  "spacing clear_preset = Some \<lparr>nodeNodeBetweenLayers = Some 120, edgeNodeBetweenLayers = Some 60,
                                nodeNode = Some 80, edgeEdge = Some 40\<rparr>"
  "spacing flowchart_preset = Some \<lparr>nodeNodeBetweenLayers = Some 80, edgeNodeBetweenLayers = Some 40,
                                    nodeNode = Some 60, edgeEdge = Some 20\<rparr>"
  "spacing network_preset_js = Some \<lparr>nodeNodeBetweenLayers = None, edgeNodeBetweenLayers = None,
                                     nodeNode = Some 80, edgeEdge = Some 40\<rparr>"
  "spacing compact_preset_js = Some \<lparr>nodeNodeBetweenLayers = Some 40, edgeNodeBetweenLayers = Some 20,
                                     nodeNode = Some 30, edgeEdge = Some 15\<rparr>"
  "spacing hierarchy_preset_js = Some \<lparr>nodeNodeBetweenLayers = Some 100, edgeNodeBetweenLayers = Some 50,
                                       nodeNode = Some 60, edgeEdge = Some 30\<rparr>"
  by (simp_all add: clear_preset_def flowchart_preset_def network_preset_js_def
      compact_preset_js_def hierarchy_preset_js_def)

lemma graph_density_exact:
  assumes "2 \<le> length (graph_nodes w)"
  shows "graph_density w =
           Fin (of_int (int (length (graph_edges w)))
                / (of_int (int (length (graph_nodes w)))
                     * (of_int (int (length (graph_nodes w))) - 1) / 2))"
proof -
  let ?n = "int (length (graph_nodes w))"
  have "even (?n * (?n - 1))" by simp
  then obtain k where k: "?n * (?n - 1) = 2 * k" by (elim evenE)
  then have half: "?n * (?n - 1) div 2 = k" by simp
  from assms have "0 < ?n" and "0 < ?n - 1" by auto
  then have "0 < ?n * (?n - 1)" by (rule mult_pos_pos)
  with k have "k \<noteq> 0" by simp
  have "(of_int ?n :: rat) * (of_int ?n - 1) = of_int (?n * (?n - 1))" by simp
  also have "\<dots> = 2 * of_int k" by (simp only: k of_int_mult of_int_numeral)
  finally have "(of_int ?n :: rat) * (of_int ?n - 1) / 2 = of_int k" by simp
  with \<open>k \<noteq> 0\<close> show ?thesis
    by (simp add: graph_density_def Let_def js_div_def half)
qed

text \<open>
  The \<^verbatim>\<open>Map\<close> of the degree count holds, for every identifier some edge starts or ends
  at, the number of edge ends at it, so \<^verbatim>\<open>maxDegree\<close> is the largest of these numbers.
\<close>

lemma or_int_degree: "0 \<le> n \<Longrightarrow> or_int (if n = 0 then None else Some n) 0 = n"
  by (simp add: or_int_def)

lemma degree_of_nonneg: "0 \<le> degree_of ends i"
  by (simp add: degree_of_def)

lemma degree_of_snoc:
  "degree_of (ends @ [(s, t)]) i =
     degree_of ends i + (if s = i then 1 else 0) + (if t = i then 1 else 0)"
  by (simp add: degree_of_def)

lemma degree_of_zero:
  "degree_of ends i = 0 \<longleftrightarrow> i \<notin> fst ` set ends \<union> snd ` set ends"
proof -
  have "degree_of ends i = 0 \<longleftrightarrow>
          filter (\<lambda>e. fst e = i) ends = [] \<and> filter (\<lambda>e. snd e = i) ends = []"
    by (simp add: degree_of_def flip: of_nat_add)
  also have "\<dots> \<longleftrightarrow> i \<notin> fst ` set ends \<union> snd ` set ends"
    by (auto simp add: filter_empty_conv)
  finally show ?thesis .
qed

lemma degreeMap_of_snoc:
  "degreeMap_of (ends @ [(s, t)]) =
     (let dm = AList.update s (or_int (map_of (degreeMap_of ends) s) 0 + 1) (degreeMap_of ends)
      in AList.update t (or_int (map_of dm t) 0 + 1) dm)"
  by (simp add: degreeMap_of_def Let_def)

lemma degreeMap_of_counts:
  "distinct (map fst (degreeMap_of ends))
   \<and> (\<forall>i. map_of (degreeMap_of ends) i =
             (if degree_of ends i = 0 then None else Some (degree_of ends i)))"
proof (induction ends rule: rev_induct)
  case Nil
  then show ?case by (simp add: degreeMap_of_def degree_of_def)
next
  case (snoc e ends)
  obtain s t where e: "e = (s, t)" by (cases e)
  let ?dm = "degreeMap_of ends"
  let ?dm1 = "AList.update s (degree_of ends s + 1) ?dm"
  from snoc.IH have dist: "distinct (map fst ?dm)"
    and look: "\<And>i. map_of ?dm i = (if degree_of ends i = 0 then None else Some (degree_of ends i))"
    by simp_all
  have read: "or_int (map_of ?dm i) 0 = degree_of ends i" for i
    by (simp only: look or_int_degree [OF degree_of_nonneg])
  have look1: "map_of ?dm1 = (map_of ?dm)(s \<mapsto> degree_of ends s + 1)"
    by (simp add: update_conv')
  have read1: "or_int (map_of ?dm1 t) 0 = degree_of ends t + (if s = t then 1 else 0)"
    using degree_of_nonneg [of ends t]
    by (simp add: look1 read) (simp add: or_int_def)
  have whole: "degreeMap_of (ends @ [(s, t)]) =
                 AList.update t (degree_of ends t + (if s = t then 1 else 0) + 1) ?dm1"
    by (simp only: degreeMap_of_snoc Let_def read read1)
  have "distinct (map fst (degreeMap_of (ends @ [(s, t)])))"
    unfolding whole using dist by (simp add: distinct_update)
  moreover have "map_of (degreeMap_of (ends @ [(s, t)])) i =
      (if degree_of (ends @ [(s, t)]) i = 0 then None
       else Some (degree_of (ends @ [(s, t)]) i))" for i
    using degree_of_nonneg [of ends i]
    by (simp add: whole update_conv' look1 look degree_of_snoc) auto
  ultimately show ?case unfolding e by simp
qed

lemma maxDegree_of_Max: "maxDegree_of dm = Max (insert 0 (snd ` set dm))"
proof -
  have "Max (set (0 # map snd dm)) = fold max (map snd dm) 0"
    by (rule Max.set_eq_fold)
  then show ?thesis by (simp add: maxDegree_of_def)
qed

lemma maxDegree_of_degreeMap_of:
  "maxDegree_of (degreeMap_of ends) =
     Max (insert 0 (degree_of ends ` (fst ` set ends \<union> snd ` set ends)))"
proof -
  let ?dm = "degreeMap_of ends"
  from degreeMap_of_counts [of ends] have dist: "distinct (map fst ?dm)"
    and look: "\<And>i. map_of ?dm i = (if degree_of ends i = 0 then None else Some (degree_of ends i))"
    by simp_all
  have "snd ` set ?dm = ran (map_of ?dm)"
    using dist by (simp add: ran_distinct)
  also have "\<dots> = degree_of ends ` (fst ` set ends \<union> snd ` set ends)"
  proof (intro set_eqI iffI)
    fix d assume "d \<in> ran (map_of ?dm)"
    then obtain i where "map_of ?dm i = Some d" by (auto simp add: ran_def)
    with look [of i] have "degree_of ends i \<noteq> 0" and "d = degree_of ends i"
      by (simp_all split: if_splits)
    then show "d \<in> degree_of ends ` (fst ` set ends \<union> snd ` set ends)"
      by (auto simp add: degree_of_zero)
  next
    fix d assume "d \<in> degree_of ends ` (fst ` set ends \<union> snd ` set ends)"
    then obtain i where i: "i \<in> fst ` set ends \<union> snd ` set ends" and d: "d = degree_of ends i"
      by blast
    from i have "degree_of ends i \<noteq> 0" by (simp only: degree_of_zero) simp
    with look [of i] d have "map_of ?dm i = Some d" by simp
    then show "d \<in> ran (map_of ?dm)" by (auto simp add: ran_def)
  qed
  finally show ?thesis by (simp only: maxDegree_of_Max)
qed

lemma graph_maxDegree_Max:
  "graph_maxDegree w =
     Max (insert 0 (degree_of
        (map (\<lambda>edge. (edge_source (edge_heap w edge), edge_target (edge_heap w edge)))
             (graph_edges w))
      ` (fst ` set (map (\<lambda>edge. (edge_source (edge_heap w edge), edge_target (edge_heap w edge)))
                        (graph_edges w))
         \<union> snd ` set (map (\<lambda>edge. (edge_source (edge_heap w edge), edge_target (edge_heap w edge)))
                          (graph_edges w)))))"
  unfolding graph_maxDegree_def by (rule maxDegree_of_degreeMap_of)

text \<open>
  C8, as the code has it. On a graph with at least one node, \<^verbatim>\<open>smartLayout\<close> lays the
  graph out with a configuration chosen from the node count \<open>n\<close>, the edge density (the
  edge count divided by \<open>n (n - 1) / 2\<close>; \<^verbatim>\<open>NaN\<close> or infinite for a single node, and then
  neither below 0.3) and the maximum degree: the largest number of edge ends at one
  identifier, over the identifiers the edges start or end at, and 0 when there is no
  edge. The choice is made by the first of these tests that holds: \<open>n \<le> 10\<close> and density
  below 0.3 gives \<^verbatim>\<open>clear\<close>; \<open>n \<le> 20\<close> and degree at most 3 gives \<^verbatim>\<open>flowchart\<close>; density
  above 0.5 or degree above 5 gives the force-directed \<^verbatim>\<open>network\<close> preset and \<^verbatim>\<open>SPLINES\<close>
  routing; \<open>n > 30\<close> gives \<^verbatim>\<open>compact\<close>; anything else gives \<^verbatim>\<open>hierarchy\<close>. Every spacing
  value \<open>v\<close> of the chosen preset is replaced by \<open>v\<close> times \<open>max 1 (min 2 (n / 15))\<close>,
  rounded to the nearest integer; the factor lies between 1 and 2.
\<close>

theorem smartLayout_selection:
  fixes w :: world and options :: X6ToElkOptions and elk :: engine
  defines "n \<equiv> int (length (graph_nodes w))"
    and "density \<equiv> graph_density w"
    and "maxDegree \<equiv> graph_maxDegree w"
    and "ends \<equiv> map (\<lambda>edge. (edge_source (edge_heap w edge), edge_target (edge_heap w edge)))
                     (graph_edges w)"
    and "m \<equiv> max 1 (min 2 (of_int (int (length (graph_nodes w))) / 15)) :: rat"
    and "layoutConfig \<equiv> fst (smartLayout_plan w options)"
    and "convOptions \<equiv> fst (snd (smartLayout_plan w options))"
    and "base \<equiv> with_defaults
                   \<lparr>defaultNodeSize = Some (120, 50), autoCalculateSize = Some True,
                    edgeRouting = Some ORTHOGONAL, preserveNodeData = None\<rparr> options"
  assumes nonempty: "graph_nodes w \<noteq> []"
  shows "smartLayout elk options w =
           applyLayoutToGraph elk (new_ElkLayoutProcessor layoutConfig) convOptions
             (min 800 (n * 20)) w
         \<and> density = js_div (int (length (graph_edges w))) (n * (n - 1) div 2)
         \<and> (2 \<le> n \<longrightarrow>
              density = Fin (of_int (int (length (graph_edges w)))
                             / (of_int n * (of_int n - 1) / 2)))
         \<and> maxDegree = Max (insert 0 (degree_of ends ` (fst ` set ends \<union> snd ` set ends)))
         \<and> 1 \<le> m \<and> m \<le> 2
         \<and> (n \<le> 10 \<and> js_lt density (3 / 10) \<longrightarrow>
              layoutConfig = clear_preset
                \<lparr>spacing := Some \<lparr>nodeNodeBetweenLayers = Some (Math_round (120 * m)),
                                   edgeNodeBetweenLayers = Some (Math_round (60 * m)),
                                   nodeNode = Some (Math_round (80 * m)),
                                   edgeEdge = Some (Math_round (40 * m))\<rparr>\<rparr>
              \<and> convOptions = base)
         \<and> (\<not> (n \<le> 10 \<and> js_lt density (3 / 10)) \<and> n \<le> 20 \<and> maxDegree \<le> 3 \<longrightarrow>
              layoutConfig = flowchart_preset
                \<lparr>spacing := Some \<lparr>nodeNodeBetweenLayers = Some (Math_round (80 * m)),
                                   edgeNodeBetweenLayers = Some (Math_round (40 * m)),
                                   nodeNode = Some (Math_round (60 * m)),
                                   edgeEdge = Some (Math_round (20 * m))\<rparr>\<rparr>
              \<and> convOptions = base)
         \<and> (\<not> (n \<le> 10 \<and> js_lt density (3 / 10)) \<and> \<not> (n \<le> 20 \<and> maxDegree \<le> 3)
               \<and> (js_gt density (1 / 2) \<or> 5 < maxDegree) \<longrightarrow>
              layoutConfig = network_preset_js
                \<lparr>spacing := Some \<lparr>nodeNodeBetweenLayers = None,
                                   edgeNodeBetweenLayers = None,
                                   nodeNode = Some (Math_round (80 * m)),
                                   edgeEdge = Some (Math_round (40 * m))\<rparr>\<rparr>
              \<and> algorithm layoutConfig = Some force
              \<and> convOptions = base\<lparr>edgeRouting := Some SPLINES\<rparr>)
         \<and> (\<not> (n \<le> 10 \<and> js_lt density (3 / 10)) \<and> \<not> (n \<le> 20 \<and> maxDegree \<le> 3)
               \<and> \<not> (js_gt density (1 / 2) \<or> 5 < maxDegree) \<and> 30 < n \<longrightarrow>
              layoutConfig = compact_preset_js
                \<lparr>spacing := Some \<lparr>nodeNodeBetweenLayers = Some (Math_round (40 * m)),
                                   edgeNodeBetweenLayers = Some (Math_round (20 * m)),
                                   nodeNode = Some (Math_round (30 * m)),
                                   edgeEdge = Some (Math_round (15 * m))\<rparr>\<rparr>
              \<and> convOptions = base)
         \<and> (\<not> (n \<le> 10 \<and> js_lt density (3 / 10)) \<and> \<not> (n \<le> 20 \<and> maxDegree \<le> 3)
               \<and> \<not> (js_gt density (1 / 2) \<or> 5 < maxDegree) \<and> \<not> 30 < n \<longrightarrow>
              layoutConfig = hierarchy_preset_js
                \<lparr>spacing := Some \<lparr>nodeNodeBetweenLayers = Some (Math_round (100 * m)),
                                   edgeNodeBetweenLayers = Some (Math_round (50 * m)),
                                   nodeNode = Some (Math_round (60 * m)),
                                   edgeEdge = Some (Math_round (30 * m))\<rparr>\<rparr>
              \<and> convOptions = base)
         \<and> (\<forall>x. of_int (Math_round x) \<le> x + 1 / 2 \<and> x - 1 / 2 < of_int (Math_round x))"
proof -
  have run: "smartLayout elk options w =
               applyLayoutToGraph elk (new_ElkLayoutProcessor layoutConfig) convOptions
                 (min 800 (n * 20)) w"
  proof -
    have "snd (snd (smartLayout_plan w options)) = min 800 (n * 20)"
      by (simp add: smartLayout_plan_def Let_def n_def)
    with nonempty show ?thesis
      by (auto simp add: smartLayout_def layoutConfig_def convOptions_def split: prod.split)
  qed
  have dens: "density = js_div (int (length (graph_edges w))) (n * (n - 1) div 2)"
    by (simp add: density_def graph_density_def Let_def n_def)
  have exact: "2 \<le> n \<longrightarrow>
      density = Fin (of_int (int (length (graph_edges w))) / (of_int n * (of_int n - 1) / 2))"
    using graph_density_exact [of w] by (simp add: density_def n_def)
  have degree: "maxDegree = Max (insert 0 (degree_of ends ` (fst ` set ends \<union> snd ` set ends)))"
    unfolding maxDegree_def ends_def by (rule graph_maxDegree_Max)
  have factor: "1 \<le> m \<and> m \<le> 2"
    by (simp add: m_def)
  have clear: "n \<le> 10 \<and> js_lt density (3 / 10) \<longrightarrow>
      layoutConfig = clear_preset
        \<lparr>spacing := Some \<lparr>nodeNodeBetweenLayers = Some (Math_round (120 * m)),
                           edgeNodeBetweenLayers = Some (Math_round (60 * m)),
                           nodeNode = Some (Math_round (80 * m)),
                           edgeEdge = Some (Math_round (40 * m))\<rparr>\<rparr>
      \<and> convOptions = base"
    unfolding n_def density_def m_def layoutConfig_def convOptions_def base_def
    by (auto simp add: smartLayout_plan_clear preset_spacings scaled_spacing)
  have flowchart: "\<not> (n \<le> 10 \<and> js_lt density (3 / 10)) \<and> n \<le> 20 \<and> maxDegree \<le> 3 \<longrightarrow>
      layoutConfig = flowchart_preset
        \<lparr>spacing := Some \<lparr>nodeNodeBetweenLayers = Some (Math_round (80 * m)),
                           edgeNodeBetweenLayers = Some (Math_round (40 * m)),
                           nodeNode = Some (Math_round (60 * m)),
                           edgeEdge = Some (Math_round (20 * m))\<rparr>\<rparr>
      \<and> convOptions = base"
    unfolding n_def density_def m_def maxDegree_def layoutConfig_def convOptions_def base_def
    by (intro impI) (simp add: smartLayout_plan_flowchart preset_spacings scaled_spacing)
  have network: "\<not> (n \<le> 10 \<and> js_lt density (3 / 10)) \<and> \<not> (n \<le> 20 \<and> maxDegree \<le> 3)
       \<and> (js_gt density (1 / 2) \<or> 5 < maxDegree) \<longrightarrow>
      layoutConfig = network_preset_js
        \<lparr>spacing := Some \<lparr>nodeNodeBetweenLayers = None,
                           edgeNodeBetweenLayers = None,
                           nodeNode = Some (Math_round (80 * m)),
                           edgeEdge = Some (Math_round (40 * m))\<rparr>\<rparr>
      \<and> algorithm layoutConfig = Some force
      \<and> convOptions = base\<lparr>edgeRouting := Some SPLINES\<rparr>"
    unfolding n_def density_def m_def maxDegree_def layoutConfig_def convOptions_def base_def
    by (intro impI)
       (simp add: smartLayout_plan_network preset_spacings scaled_spacing,
        simp add: network_preset_js_def)
  have compact: "\<not> (n \<le> 10 \<and> js_lt density (3 / 10)) \<and> \<not> (n \<le> 20 \<and> maxDegree \<le> 3)
       \<and> \<not> (js_gt density (1 / 2) \<or> 5 < maxDegree) \<and> 30 < n \<longrightarrow>
      layoutConfig = compact_preset_js
        \<lparr>spacing := Some \<lparr>nodeNodeBetweenLayers = Some (Math_round (40 * m)),
                           edgeNodeBetweenLayers = Some (Math_round (20 * m)),
                           nodeNode = Some (Math_round (30 * m)),
                           edgeEdge = Some (Math_round (15 * m))\<rparr>\<rparr>
      \<and> convOptions = base"
    unfolding n_def density_def m_def maxDegree_def layoutConfig_def convOptions_def base_def
    by (intro impI) (simp add: smartLayout_plan_compact preset_spacings scaled_spacing)
  have hierarchy: "\<not> (n \<le> 10 \<and> js_lt density (3 / 10)) \<and> \<not> (n \<le> 20 \<and> maxDegree \<le> 3)
       \<and> \<not> (js_gt density (1 / 2) \<or> 5 < maxDegree) \<and> \<not> 30 < n \<longrightarrow>
      layoutConfig = hierarchy_preset_js
        \<lparr>spacing := Some \<lparr>nodeNodeBetweenLayers = Some (Math_round (100 * m)),
                           edgeNodeBetweenLayers = Some (Math_round (50 * m)),
                           nodeNode = Some (Math_round (60 * m)),
                           edgeEdge = Some (Math_round (30 * m))\<rparr>\<rparr>
      \<and> convOptions = base"
    unfolding n_def density_def m_def maxDegree_def layoutConfig_def convOptions_def base_def
    by (intro impI) (simp add: smartLayout_plan_hierarchy preset_spacings scaled_spacing)
  have rounding: "\<forall>x. of_int (Math_round x) \<le> x + 1 / 2 \<and> x - 1 / 2 < of_int (Math_round x)"
    using Math_round_nearest by (rule allI)
  from factor have low: "1 \<le> m" and high: "m \<le> 2" by simp_all
  show ?thesis
    by (rule conjI [OF run conjI [OF dens conjI [OF exact conjI [OF degree conjI [OF low
          conjI [OF high conjI [OF clear conjI [OF flowchart conjI [OF network
          conjI [OF compact conjI [OF hierarchy rounding]]]]]]]]]]])
qed

lemma sixteen_world_features:
  "graph_nodes sixteen_world \<noteq> []"
  "int (length (graph_nodes sixteen_world)) = 16"
  "graph_maxDegree sixteen_world = 0"
  "graph_density sixteen_world = Fin 0"
  by (simp_all add: sixteen_world_def graph_maxDegree_def degreeMap_of_def maxDegree_of_def
      graph_density_def js_div_def Let_def)

lemma sixteen_world_rounding:
  "Math_round (80 * max 1 (min 2 (of_int 16 / 15))) = 85"
  "Math_round (40 * max 1 (min 2 (of_int 16 / 15))) = 43"
  "Math_round (60 * max 1 (min 2 (of_int 16 / 15))) = 64"
  "Math_round (20 * max 1 (min 2 (of_int 16 / 15))) = 21"
  by (simp_all add: Math_round_def floor_eq_iff)

text \<open>The features of the example graphs.\<close>

lemma graph_of_ends:
  "map (\<lambda>edge. (edge_source (edge_heap (graph_of n ends) edge),
                 edge_target (edge_heap (graph_of n ends) edge)))
       (graph_edges (graph_of n ends)) = ends"
proof -
  have "map (\<lambda>edge. (edge_source (edge_heap (graph_of n ends) edge),
                      edge_target (edge_heap (graph_of n ends) edge)))
            [0..<length ends] = map (\<lambda>r. ends ! r) [0..<length ends]"
    by (rule map_cong) (simp_all add: graph_of_def example_edge_def)
  then show ?thesis by (simp add: graph_of_def map_nth)
qed

lemma graph_of_features:
  "int (length (graph_nodes (graph_of n ends))) = int n"
  "graph_nodes (graph_of n ends) \<noteq> [] \<longleftrightarrow> 0 < n"
  "graph_density (graph_of n ends) = js_div (int (length ends)) (int n * (int n - 1) div 2)"
  "graph_maxDegree (graph_of n ends) = maxDegree_of (degreeMap_of ends)"
proof -
  show "int (length (graph_nodes (graph_of n ends))) = int n"
    by (simp add: graph_of_def)
  show "graph_nodes (graph_of n ends) \<noteq> [] \<longleftrightarrow> 0 < n"
    by (simp add: graph_of_def)
  show "graph_density (graph_of n ends) = js_div (int (length ends)) (int n * (int n - 1) div 2)"
    by (simp add: graph_density_def Let_def graph_of_def)
  show "graph_maxDegree (graph_of n ends) = maxDegree_of (degreeMap_of ends)"
    by (simp only: graph_maxDegree_def graph_of_ends)
qed

lemma example_degrees:
  "maxDegree_of (degreeMap_of (star 2)) = 2"
  "maxDegree_of (degreeMap_of (star 3)) = 3"
  "maxDegree_of (degreeMap_of (star 4)) = 4"
  "maxDegree_of (degreeMap_of (star 5)) = 5"
  "maxDegree_of (degreeMap_of (star 6)) = 6"
  "maxDegree_of (degreeMap_of complete_five) = 4"
  "maxDegree_of (degreeMap_of (star 4 @ [(''1'', ''2'')])) = 4"
  by (simp_all add: star_def complete_five_def degreeMap_of_def maxDegree_of_def or_int_def
      Let_def)

lemma example_counts:
  "length (star 2) = 2" "length (star 3) = 3" "length (star 4) = 4" "length (star 5) = 5"
  "length (star 6) = 6" "length complete_five = 10" "length (star 4 @ [(''1'', ''2'')]) = 5"
  by (simp_all add: star_def complete_five_def)

lemma example_densities:
  "graph_density (graph_of 5 (star 2)) = Fin (1 / 5)"
  "graph_density (graph_of 5 (star 3)) = Fin (3 / 10)"
  "graph_density (graph_of 11 (star 3)) = Fin (3 / 55)"
  "graph_density (graph_of 11 (star 4)) = Fin (4 / 55)"
  "graph_density (graph_of 11 (star 5)) = Fin (1 / 11)"
  "graph_density (graph_of 11 (star 6)) = Fin (6 / 55)"
  "graph_density (graph_of 5 complete_five) = Fin 1"
  "graph_density (graph_of 5 (star 4 @ [(''1'', ''2'')])) = Fin (1 / 2)"
  "graph_density (graph_of 31 (star 4)) = Fin (4 / 465)"
  by (simp_all add: graph_of_features example_counts js_div_def)

lemma example_rounding:
  "Math_round (120 * max 1 (min 2 (of_int (int (length (graph_nodes (graph_of 5 ends)))) / 15))) = 120"
  "Math_round (60 * max 1 (min 2 (of_int (int (length (graph_nodes (graph_of 5 ends)))) / 15))) = 60"
  "Math_round (80 * max 1 (min 2 (of_int (int (length (graph_nodes (graph_of 5 ends)))) / 15))) = 80"
  "Math_round (40 * max 1 (min 2 (of_int (int (length (graph_nodes (graph_of 5 ends)))) / 15))) = 40"
  "Math_round (20 * max 1 (min 2 (of_int (int (length (graph_nodes (graph_of 5 ends)))) / 15))) = 20"
  "Math_round (80 * max 1 (min 2 (of_int (int (length (graph_nodes (graph_of 11 ends)))) / 15))) = 80"
  "Math_round (40 * max 1 (min 2 (of_int (int (length (graph_nodes (graph_of 11 ends)))) / 15))) = 40"
  "Math_round (60 * max 1 (min 2 (of_int (int (length (graph_nodes (graph_of 11 ends)))) / 15))) = 60"
  "Math_round (20 * max 1 (min 2 (of_int (int (length (graph_nodes (graph_of 11 ends)))) / 15))) = 20"
  "Math_round (100 * max 1 (min 2 (of_int (int (length (graph_nodes (graph_of 11 ends)))) / 15))) = 100"
  "Math_round (50 * max 1 (min 2 (of_int (int (length (graph_nodes (graph_of 11 ends)))) / 15))) = 50"
  "Math_round (30 * max 1 (min 2 (of_int (int (length (graph_nodes (graph_of 11 ends)))) / 15))) = 30"
  "Math_round (100 * max 1 (min 2 (of_int (int (length (graph_nodes (graph_of 5 ends)))) / 15))) = 100"
  "Math_round (50 * max 1 (min 2 (of_int (int (length (graph_nodes (graph_of 5 ends)))) / 15))) = 50"
  "Math_round (30 * max 1 (min 2 (of_int (int (length (graph_nodes (graph_of 5 ends)))) / 15))) = 30"
  "Math_round (40 * max 1 (min 2 (of_int (int (length (graph_nodes (graph_of 31 ends)))) / 15))) = 80"
  "Math_round (20 * max 1 (min 2 (of_int (int (length (graph_nodes (graph_of 31 ends)))) / 15))) = 40"
  "Math_round (30 * max 1 (min 2 (of_int (int (length (graph_nodes (graph_of 31 ends)))) / 15))) = 60"
  "Math_round (15 * max 1 (min 2 (of_int (int (length (graph_nodes (graph_of 31 ends)))) / 15))) = 30"
  by (simp_all add: graph_of_features Math_round_def floor_eq_iff)

theorem smartLayout_selection_witness:
  "graph_nodes sixteen_world \<noteq> []
   \<and> (2 :: int) \<le> int (length (graph_nodes sixteen_world))
   \<and> \<not> (int (length (graph_nodes sixteen_world)) \<le> 10
         \<and> js_lt (graph_density sixteen_world) (3 / 10))
   \<and> int (length (graph_nodes sixteen_world)) \<le> 20
   \<and> graph_maxDegree sixteen_world \<le> 3
   \<and> graph_density sixteen_world = Fin 0
   \<and> fst (smartLayout_plan sixteen_world no_options) =
       flowchart_preset
         \<lparr>spacing := Some \<lparr>nodeNodeBetweenLayers = Some 85, edgeNodeBetweenLayers = Some 43,
                            nodeNode = Some 64, edgeEdge = Some 21\<rparr>\<rparr>
   \<and> graph_density (graph_of 5 (star 2)) = Fin (1 / 5)
   \<and> graph_maxDegree (graph_of 5 (star 2)) = 2
   \<and> fst (smartLayout_plan (graph_of 5 (star 2)) no_options) =
       clear_preset
         \<lparr>spacing := Some \<lparr>nodeNodeBetweenLayers = Some 120, edgeNodeBetweenLayers = Some 60, nodeNode = Some 80, edgeEdge = Some 40\<rparr>\<rparr>
   \<and> graph_density (graph_of 5 (star 3)) = Fin (3 / 10)
   \<and> graph_maxDegree (graph_of 5 (star 3)) = 3
   \<and> fst (smartLayout_plan (graph_of 5 (star 3)) no_options) =
       flowchart_preset
         \<lparr>spacing := Some \<lparr>nodeNodeBetweenLayers = Some 80, edgeNodeBetweenLayers = Some 40, nodeNode = Some 60, edgeEdge = Some 20\<rparr>\<rparr>
   \<and> graph_density (graph_of 11 (star 3)) = Fin (3 / 55)
   \<and> graph_maxDegree (graph_of 11 (star 3)) = 3
   \<and> fst (smartLayout_plan (graph_of 11 (star 3)) no_options) =
       flowchart_preset
         \<lparr>spacing := Some \<lparr>nodeNodeBetweenLayers = Some 80, edgeNodeBetweenLayers = Some 40, nodeNode = Some 60, edgeEdge = Some 20\<rparr>\<rparr>
   \<and> graph_density (graph_of 11 (star 4)) = Fin (4 / 55)
   \<and> graph_maxDegree (graph_of 11 (star 4)) = 4
   \<and> fst (smartLayout_plan (graph_of 11 (star 4)) no_options) =
       hierarchy_preset_js
         \<lparr>spacing := Some \<lparr>nodeNodeBetweenLayers = Some 100, edgeNodeBetweenLayers = Some 50, nodeNode = Some 60, edgeEdge = Some 30\<rparr>\<rparr>
   \<and> graph_density (graph_of 11 (star 5)) = Fin (1 / 11)
   \<and> graph_maxDegree (graph_of 11 (star 5)) = 5
   \<and> fst (smartLayout_plan (graph_of 11 (star 5)) no_options) =
       hierarchy_preset_js
         \<lparr>spacing := Some \<lparr>nodeNodeBetweenLayers = Some 100, edgeNodeBetweenLayers = Some 50, nodeNode = Some 60, edgeEdge = Some 30\<rparr>\<rparr>
   \<and> graph_density (graph_of 11 (star 6)) = Fin (6 / 55)
   \<and> graph_maxDegree (graph_of 11 (star 6)) = 6
   \<and> fst (smartLayout_plan (graph_of 11 (star 6)) no_options) =
       network_preset_js
         \<lparr>spacing := Some \<lparr>nodeNodeBetweenLayers = None, edgeNodeBetweenLayers = None, nodeNode = Some 80, edgeEdge = Some 40\<rparr>\<rparr>
   \<and> edgeRouting (fst (snd (smartLayout_plan (graph_of 11 (star 6)) no_options))) = Some SPLINES
   \<and> graph_density (graph_of 5 complete_five) = Fin (1)
   \<and> graph_maxDegree (graph_of 5 complete_five) = 4
   \<and> fst (smartLayout_plan (graph_of 5 complete_five) no_options) =
       network_preset_js
         \<lparr>spacing := Some \<lparr>nodeNodeBetweenLayers = None, edgeNodeBetweenLayers = None, nodeNode = Some 80, edgeEdge = Some 40\<rparr>\<rparr>
   \<and> edgeRouting (fst (snd (smartLayout_plan (graph_of 5 complete_five) no_options))) = Some SPLINES
   \<and> graph_density (graph_of 5 (star 4 @ [(''1'', ''2'')])) = Fin (1 / 2)
   \<and> graph_maxDegree (graph_of 5 (star 4 @ [(''1'', ''2'')])) = 4
   \<and> fst (smartLayout_plan (graph_of 5 (star 4 @ [(''1'', ''2'')])) no_options) =
       hierarchy_preset_js
         \<lparr>spacing := Some \<lparr>nodeNodeBetweenLayers = Some 100, edgeNodeBetweenLayers = Some 50, nodeNode = Some 60, edgeEdge = Some 30\<rparr>\<rparr>
   \<and> graph_density (graph_of 31 (star 4)) = Fin (4 / 465)
   \<and> graph_maxDegree (graph_of 31 (star 4)) = 4
   \<and> fst (smartLayout_plan (graph_of 31 (star 4)) no_options) =
       compact_preset_js
         \<lparr>spacing := Some \<lparr>nodeNodeBetweenLayers = Some 80, edgeNodeBetweenLayers = Some 40, nodeNode = Some 60, edgeEdge = Some 30\<rparr>\<rparr>"
proof -
  note sel = smartLayout_selection [OF sixteen_world_features(1), where options = no_options]
  have branch: "\<not> (int (length (graph_nodes sixteen_world)) \<le> 10
                     \<and> js_lt (graph_density sixteen_world) (3 / 10))
                \<and> int (length (graph_nodes sixteen_world)) \<le> 20
                \<and> graph_maxDegree sixteen_world \<le> 3"
    by (simp add: sixteen_world_features)
  with sel have "fst (smartLayout_plan sixteen_world no_options) =
      flowchart_preset
        \<lparr>spacing := Some
           \<lparr>nodeNodeBetweenLayers = Some (Math_round (80 * max 1 (min 2
               (of_int (int (length (graph_nodes sixteen_world))) / 15)))),
            edgeNodeBetweenLayers = Some (Math_round (40 * max 1 (min 2
               (of_int (int (length (graph_nodes sixteen_world))) / 15)))),
            nodeNode = Some (Math_round (60 * max 1 (min 2
               (of_int (int (length (graph_nodes sixteen_world))) / 15)))),
            edgeEdge = Some (Math_round (20 * max 1 (min 2
               (of_int (int (length (graph_nodes sixteen_world))) / 15))))\<rparr>\<rparr>"
    by blast
  then have chosen: "fst (smartLayout_plan sixteen_world no_options) =
      flowchart_preset
        \<lparr>spacing := Some \<lparr>nodeNodeBetweenLayers = Some 85, edgeNodeBetweenLayers = Some 43,
                           nodeNode = Some 64, edgeEdge = Some 21\<rparr>\<rparr>"
    unfolding sixteen_world_features(2) sixteen_world_rounding .
  from chosen branch have sixteen:
    "graph_nodes sixteen_world \<noteq> []
   \<and> (2 :: int) \<le> int (length (graph_nodes sixteen_world))
   \<and> \<not> (int (length (graph_nodes sixteen_world)) \<le> 10
         \<and> js_lt (graph_density sixteen_world) (3 / 10))
   \<and> int (length (graph_nodes sixteen_world)) \<le> 20
   \<and> graph_maxDegree sixteen_world \<le> 3
   \<and> graph_density sixteen_world = Fin 0
   \<and> fst (smartLayout_plan sixteen_world no_options) =
       flowchart_preset
         \<lparr>spacing := Some \<lparr>nodeNodeBetweenLayers = Some 85, edgeNodeBetweenLayers = Some 43,
                            nodeNode = Some 64, edgeEdge = Some 21\<rparr>\<rparr>"
    by (simp add: sixteen_world_features)
  have sparse_nodes: "graph_nodes (graph_of 5 (star 2)) \<noteq> []"
    by (simp add: graph_of_features)
  have sparse_density: "graph_density (graph_of 5 (star 2)) = Fin (1 / 5)"
    by (simp add: example_densities)
  have sparse_degree: "graph_maxDegree (graph_of 5 (star 2)) = 2"
    by (simp add: graph_of_features example_degrees)
  have sparse_branch: "int (length (graph_nodes (graph_of 5 (star 2)))) \<le> 10 \<and> js_lt (graph_density (graph_of 5 (star 2))) (3 / 10)"
    by (simp add: sparse_density sparse_degree graph_of_features(1))
  note sparse_sel = smartLayout_selection [OF sparse_nodes, where options = no_options]
  from sparse_sel sparse_branch
  have "fst (smartLayout_plan (graph_of 5 (star 2)) no_options) =
       clear_preset
         \<lparr>spacing := Some \<lparr>nodeNodeBetweenLayers = Some (Math_round (120 * max 1 (min 2 (of_int (int (length (graph_nodes (graph_of 5 (star 2))))) / 15)))), edgeNodeBetweenLayers = Some (Math_round (60 * max 1 (min 2 (of_int (int (length (graph_nodes (graph_of 5 (star 2))))) / 15)))), nodeNode = Some (Math_round (80 * max 1 (min 2 (of_int (int (length (graph_nodes (graph_of 5 (star 2))))) / 15)))), edgeEdge = Some (Math_round (40 * max 1 (min 2 (of_int (int (length (graph_nodes (graph_of 5 (star 2))))) / 15))))\<rparr>\<rparr>"
    by blast
  then have sparse_chosen: "fst (smartLayout_plan (graph_of 5 (star 2)) no_options) =
       clear_preset
         \<lparr>spacing := Some \<lparr>nodeNodeBetweenLayers = Some 120, edgeNodeBetweenLayers = Some 60, nodeNode = Some 80, edgeEdge = Some 40\<rparr>\<rparr>"
    unfolding example_rounding .

  have dense_enough_nodes: "graph_nodes (graph_of 5 (star 3)) \<noteq> []"
    by (simp add: graph_of_features)
  have dense_enough_density: "graph_density (graph_of 5 (star 3)) = Fin (3 / 10)"
    by (simp add: example_densities)
  have dense_enough_degree: "graph_maxDegree (graph_of 5 (star 3)) = 3"
    by (simp add: graph_of_features example_degrees)
  have dense_enough_branch: "\<not> (int (length (graph_nodes (graph_of 5 (star 3)))) \<le> 10 \<and> js_lt (graph_density (graph_of 5 (star 3))) (3 / 10)) \<and> int (length (graph_nodes (graph_of 5 (star 3)))) \<le> 20 \<and> graph_maxDegree (graph_of 5 (star 3)) \<le> 3"
    by (simp add: dense_enough_density dense_enough_degree graph_of_features(1))
  note dense_enough_sel = smartLayout_selection [OF dense_enough_nodes, where options = no_options]
  from dense_enough_sel dense_enough_branch
  have "fst (smartLayout_plan (graph_of 5 (star 3)) no_options) =
       flowchart_preset
         \<lparr>spacing := Some \<lparr>nodeNodeBetweenLayers = Some (Math_round (80 * max 1 (min 2 (of_int (int (length (graph_nodes (graph_of 5 (star 3))))) / 15)))), edgeNodeBetweenLayers = Some (Math_round (40 * max 1 (min 2 (of_int (int (length (graph_nodes (graph_of 5 (star 3))))) / 15)))), nodeNode = Some (Math_round (60 * max 1 (min 2 (of_int (int (length (graph_nodes (graph_of 5 (star 3))))) / 15)))), edgeEdge = Some (Math_round (20 * max 1 (min 2 (of_int (int (length (graph_nodes (graph_of 5 (star 3))))) / 15))))\<rparr>\<rparr>"
    by blast
  then have dense_enough_chosen: "fst (smartLayout_plan (graph_of 5 (star 3)) no_options) =
       flowchart_preset
         \<lparr>spacing := Some \<lparr>nodeNodeBetweenLayers = Some 80, edgeNodeBetweenLayers = Some 40, nodeNode = Some 60, edgeEdge = Some 20\<rparr>\<rparr>"
    unfolding example_rounding .

  have three_nodes: "graph_nodes (graph_of 11 (star 3)) \<noteq> []"
    by (simp add: graph_of_features)
  have three_density: "graph_density (graph_of 11 (star 3)) = Fin (3 / 55)"
    by (simp add: example_densities)
  have three_degree: "graph_maxDegree (graph_of 11 (star 3)) = 3"
    by (simp add: graph_of_features example_degrees)
  have three_branch: "\<not> (int (length (graph_nodes (graph_of 11 (star 3)))) \<le> 10 \<and> js_lt (graph_density (graph_of 11 (star 3))) (3 / 10)) \<and> int (length (graph_nodes (graph_of 11 (star 3)))) \<le> 20 \<and> graph_maxDegree (graph_of 11 (star 3)) \<le> 3"
    by (simp add: three_density three_degree graph_of_features(1))
  note three_sel = smartLayout_selection [OF three_nodes, where options = no_options]
  from three_sel three_branch
  have "fst (smartLayout_plan (graph_of 11 (star 3)) no_options) =
       flowchart_preset
         \<lparr>spacing := Some \<lparr>nodeNodeBetweenLayers = Some (Math_round (80 * max 1 (min 2 (of_int (int (length (graph_nodes (graph_of 11 (star 3))))) / 15)))), edgeNodeBetweenLayers = Some (Math_round (40 * max 1 (min 2 (of_int (int (length (graph_nodes (graph_of 11 (star 3))))) / 15)))), nodeNode = Some (Math_round (60 * max 1 (min 2 (of_int (int (length (graph_nodes (graph_of 11 (star 3))))) / 15)))), edgeEdge = Some (Math_round (20 * max 1 (min 2 (of_int (int (length (graph_nodes (graph_of 11 (star 3))))) / 15))))\<rparr>\<rparr>"
    by blast
  then have three_chosen: "fst (smartLayout_plan (graph_of 11 (star 3)) no_options) =
       flowchart_preset
         \<lparr>spacing := Some \<lparr>nodeNodeBetweenLayers = Some 80, edgeNodeBetweenLayers = Some 40, nodeNode = Some 60, edgeEdge = Some 20\<rparr>\<rparr>"
    unfolding example_rounding .

  have four_nodes: "graph_nodes (graph_of 11 (star 4)) \<noteq> []"
    by (simp add: graph_of_features)
  have four_density: "graph_density (graph_of 11 (star 4)) = Fin (4 / 55)"
    by (simp add: example_densities)
  have four_degree: "graph_maxDegree (graph_of 11 (star 4)) = 4"
    by (simp add: graph_of_features example_degrees)
  have four_branch: "\<not> (int (length (graph_nodes (graph_of 11 (star 4)))) \<le> 10 \<and> js_lt (graph_density (graph_of 11 (star 4))) (3 / 10)) \<and> \<not> (int (length (graph_nodes (graph_of 11 (star 4)))) \<le> 20 \<and> graph_maxDegree (graph_of 11 (star 4)) \<le> 3) \<and> \<not> (js_gt (graph_density (graph_of 11 (star 4))) (1 / 2) \<or> 5 < graph_maxDegree (graph_of 11 (star 4))) \<and> \<not> 30 < int (length (graph_nodes (graph_of 11 (star 4))))"
    by (simp add: four_density four_degree graph_of_features(1))
  note four_sel = smartLayout_selection [OF four_nodes, where options = no_options]
  from four_sel four_branch
  have "fst (smartLayout_plan (graph_of 11 (star 4)) no_options) =
       hierarchy_preset_js
         \<lparr>spacing := Some \<lparr>nodeNodeBetweenLayers = Some (Math_round (100 * max 1 (min 2 (of_int (int (length (graph_nodes (graph_of 11 (star 4))))) / 15)))), edgeNodeBetweenLayers = Some (Math_round (50 * max 1 (min 2 (of_int (int (length (graph_nodes (graph_of 11 (star 4))))) / 15)))), nodeNode = Some (Math_round (60 * max 1 (min 2 (of_int (int (length (graph_nodes (graph_of 11 (star 4))))) / 15)))), edgeEdge = Some (Math_round (30 * max 1 (min 2 (of_int (int (length (graph_nodes (graph_of 11 (star 4))))) / 15))))\<rparr>\<rparr>"
    by blast
  then have four_chosen: "fst (smartLayout_plan (graph_of 11 (star 4)) no_options) =
       hierarchy_preset_js
         \<lparr>spacing := Some \<lparr>nodeNodeBetweenLayers = Some 100, edgeNodeBetweenLayers = Some 50, nodeNode = Some 60, edgeEdge = Some 30\<rparr>\<rparr>"
    unfolding example_rounding .

  have five_nodes: "graph_nodes (graph_of 11 (star 5)) \<noteq> []"
    by (simp add: graph_of_features)
  have five_density: "graph_density (graph_of 11 (star 5)) = Fin (1 / 11)"
    by (simp add: example_densities)
  have five_degree: "graph_maxDegree (graph_of 11 (star 5)) = 5"
    by (simp add: graph_of_features example_degrees)
  have five_branch: "\<not> (int (length (graph_nodes (graph_of 11 (star 5)))) \<le> 10 \<and> js_lt (graph_density (graph_of 11 (star 5))) (3 / 10)) \<and> \<not> (int (length (graph_nodes (graph_of 11 (star 5)))) \<le> 20 \<and> graph_maxDegree (graph_of 11 (star 5)) \<le> 3) \<and> \<not> (js_gt (graph_density (graph_of 11 (star 5))) (1 / 2) \<or> 5 < graph_maxDegree (graph_of 11 (star 5))) \<and> \<not> 30 < int (length (graph_nodes (graph_of 11 (star 5))))"
    by (simp add: five_density five_degree graph_of_features(1))
  note five_sel = smartLayout_selection [OF five_nodes, where options = no_options]
  from five_sel five_branch
  have "fst (smartLayout_plan (graph_of 11 (star 5)) no_options) =
       hierarchy_preset_js
         \<lparr>spacing := Some \<lparr>nodeNodeBetweenLayers = Some (Math_round (100 * max 1 (min 2 (of_int (int (length (graph_nodes (graph_of 11 (star 5))))) / 15)))), edgeNodeBetweenLayers = Some (Math_round (50 * max 1 (min 2 (of_int (int (length (graph_nodes (graph_of 11 (star 5))))) / 15)))), nodeNode = Some (Math_round (60 * max 1 (min 2 (of_int (int (length (graph_nodes (graph_of 11 (star 5))))) / 15)))), edgeEdge = Some (Math_round (30 * max 1 (min 2 (of_int (int (length (graph_nodes (graph_of 11 (star 5))))) / 15))))\<rparr>\<rparr>"
    by blast
  then have five_chosen: "fst (smartLayout_plan (graph_of 11 (star 5)) no_options) =
       hierarchy_preset_js
         \<lparr>spacing := Some \<lparr>nodeNodeBetweenLayers = Some 100, edgeNodeBetweenLayers = Some 50, nodeNode = Some 60, edgeEdge = Some 30\<rparr>\<rparr>"
    unfolding example_rounding .

  have six_nodes: "graph_nodes (graph_of 11 (star 6)) \<noteq> []"
    by (simp add: graph_of_features)
  have six_density: "graph_density (graph_of 11 (star 6)) = Fin (6 / 55)"
    by (simp add: example_densities)
  have six_degree: "graph_maxDegree (graph_of 11 (star 6)) = 6"
    by (simp add: graph_of_features example_degrees)
  have six_branch: "\<not> (int (length (graph_nodes (graph_of 11 (star 6)))) \<le> 10 \<and> js_lt (graph_density (graph_of 11 (star 6))) (3 / 10)) \<and> \<not> (int (length (graph_nodes (graph_of 11 (star 6)))) \<le> 20 \<and> graph_maxDegree (graph_of 11 (star 6)) \<le> 3) \<and> (js_gt (graph_density (graph_of 11 (star 6))) (1 / 2) \<or> 5 < graph_maxDegree (graph_of 11 (star 6)))"
    by (simp add: six_density six_degree graph_of_features(1))
  note six_sel = smartLayout_selection [OF six_nodes, where options = no_options]
  from six_sel six_branch
  have "fst (smartLayout_plan (graph_of 11 (star 6)) no_options) =
       network_preset_js
         \<lparr>spacing := Some \<lparr>nodeNodeBetweenLayers = None, edgeNodeBetweenLayers = None, nodeNode = Some (Math_round (80 * max 1 (min 2 (of_int (int (length (graph_nodes (graph_of 11 (star 6))))) / 15)))), edgeEdge = Some (Math_round (40 * max 1 (min 2 (of_int (int (length (graph_nodes (graph_of 11 (star 6))))) / 15))))\<rparr>\<rparr>"
    by blast
  then have six_chosen: "fst (smartLayout_plan (graph_of 11 (star 6)) no_options) =
       network_preset_js
         \<lparr>spacing := Some \<lparr>nodeNodeBetweenLayers = None, edgeNodeBetweenLayers = None, nodeNode = Some 80, edgeEdge = Some 40\<rparr>\<rparr>"
    unfolding example_rounding .
  from six_sel six_branch
  have "fst (snd (smartLayout_plan (graph_of 11 (star 6)) no_options)) =
          (with_defaults
             \<lparr>defaultNodeSize = Some (120, 50), autoCalculateSize = Some True,
              edgeRouting = Some ORTHOGONAL, preserveNodeData = None\<rparr> no_options)
            \<lparr>edgeRouting := Some SPLINES\<rparr>"
    by blast
  then have six_routing: "edgeRouting (fst (snd (smartLayout_plan (graph_of 11 (star 6)) no_options))) = Some SPLINES"
    by simp

  have complete_nodes: "graph_nodes (graph_of 5 complete_five) \<noteq> []"
    by (simp add: graph_of_features)
  have complete_density: "graph_density (graph_of 5 complete_five) = Fin (1)"
    by (simp add: example_densities)
  have complete_degree: "graph_maxDegree (graph_of 5 complete_five) = 4"
    by (simp add: graph_of_features example_degrees)
  have complete_branch: "\<not> (int (length (graph_nodes (graph_of 5 complete_five))) \<le> 10 \<and> js_lt (graph_density (graph_of 5 complete_five)) (3 / 10)) \<and> \<not> (int (length (graph_nodes (graph_of 5 complete_five))) \<le> 20 \<and> graph_maxDegree (graph_of 5 complete_five) \<le> 3) \<and> (js_gt (graph_density (graph_of 5 complete_five)) (1 / 2) \<or> 5 < graph_maxDegree (graph_of 5 complete_five))"
    by (simp add: complete_density complete_degree graph_of_features(1))
  note complete_sel = smartLayout_selection [OF complete_nodes, where options = no_options]
  from complete_sel complete_branch
  have "fst (smartLayout_plan (graph_of 5 complete_five) no_options) =
       network_preset_js
         \<lparr>spacing := Some \<lparr>nodeNodeBetweenLayers = None, edgeNodeBetweenLayers = None, nodeNode = Some (Math_round (80 * max 1 (min 2 (of_int (int (length (graph_nodes (graph_of 5 complete_five)))) / 15)))), edgeEdge = Some (Math_round (40 * max 1 (min 2 (of_int (int (length (graph_nodes (graph_of 5 complete_five)))) / 15))))\<rparr>\<rparr>"
    by blast
  then have complete_chosen: "fst (smartLayout_plan (graph_of 5 complete_five) no_options) =
       network_preset_js
         \<lparr>spacing := Some \<lparr>nodeNodeBetweenLayers = None, edgeNodeBetweenLayers = None, nodeNode = Some 80, edgeEdge = Some 40\<rparr>\<rparr>"
    unfolding example_rounding .
  from complete_sel complete_branch
  have "fst (snd (smartLayout_plan (graph_of 5 complete_five) no_options)) =
          (with_defaults
             \<lparr>defaultNodeSize = Some (120, 50), autoCalculateSize = Some True,
              edgeRouting = Some ORTHOGONAL, preserveNodeData = None\<rparr> no_options)
            \<lparr>edgeRouting := Some SPLINES\<rparr>"
    by blast
  then have complete_routing: "edgeRouting (fst (snd (smartLayout_plan (graph_of 5 complete_five) no_options))) = Some SPLINES"
    by simp

  have half_nodes: "graph_nodes (graph_of 5 (star 4 @ [(''1'', ''2'')])) \<noteq> []"
    by (simp add: graph_of_features)
  have half_density: "graph_density (graph_of 5 (star 4 @ [(''1'', ''2'')])) = Fin (1 / 2)"
    by (simp add: example_densities)
  have half_degree: "graph_maxDegree (graph_of 5 (star 4 @ [(''1'', ''2'')])) = 4"
    by (simp add: graph_of_features example_degrees)
  have half_branch: "\<not> (int (length (graph_nodes (graph_of 5 (star 4 @ [(''1'', ''2'')])))) \<le> 10 \<and> js_lt (graph_density (graph_of 5 (star 4 @ [(''1'', ''2'')]))) (3 / 10)) \<and> \<not> (int (length (graph_nodes (graph_of 5 (star 4 @ [(''1'', ''2'')])))) \<le> 20 \<and> graph_maxDegree (graph_of 5 (star 4 @ [(''1'', ''2'')])) \<le> 3) \<and> \<not> (js_gt (graph_density (graph_of 5 (star 4 @ [(''1'', ''2'')]))) (1 / 2) \<or> 5 < graph_maxDegree (graph_of 5 (star 4 @ [(''1'', ''2'')]))) \<and> \<not> 30 < int (length (graph_nodes (graph_of 5 (star 4 @ [(''1'', ''2'')]))))"
    by (simp add: half_density half_degree graph_of_features(1))
  note half_sel = smartLayout_selection [OF half_nodes, where options = no_options]
  from half_sel half_branch
  have "fst (smartLayout_plan (graph_of 5 (star 4 @ [(''1'', ''2'')])) no_options) =
       hierarchy_preset_js
         \<lparr>spacing := Some \<lparr>nodeNodeBetweenLayers = Some (Math_round (100 * max 1 (min 2 (of_int (int (length (graph_nodes (graph_of 5 (star 4 @ [(''1'', ''2'')]))))) / 15)))), edgeNodeBetweenLayers = Some (Math_round (50 * max 1 (min 2 (of_int (int (length (graph_nodes (graph_of 5 (star 4 @ [(''1'', ''2'')]))))) / 15)))), nodeNode = Some (Math_round (60 * max 1 (min 2 (of_int (int (length (graph_nodes (graph_of 5 (star 4 @ [(''1'', ''2'')]))))) / 15)))), edgeEdge = Some (Math_round (30 * max 1 (min 2 (of_int (int (length (graph_nodes (graph_of 5 (star 4 @ [(''1'', ''2'')]))))) / 15))))\<rparr>\<rparr>"
    by blast
  then have half_chosen: "fst (smartLayout_plan (graph_of 5 (star 4 @ [(''1'', ''2'')])) no_options) =
       hierarchy_preset_js
         \<lparr>spacing := Some \<lparr>nodeNodeBetweenLayers = Some 100, edgeNodeBetweenLayers = Some 50, nodeNode = Some 60, edgeEdge = Some 30\<rparr>\<rparr>"
    unfolding example_rounding .

  have large_nodes: "graph_nodes (graph_of 31 (star 4)) \<noteq> []"
    by (simp add: graph_of_features)
  have large_density: "graph_density (graph_of 31 (star 4)) = Fin (4 / 465)"
    by (simp add: example_densities)
  have large_degree: "graph_maxDegree (graph_of 31 (star 4)) = 4"
    by (simp add: graph_of_features example_degrees)
  have large_branch: "\<not> (int (length (graph_nodes (graph_of 31 (star 4)))) \<le> 10 \<and> js_lt (graph_density (graph_of 31 (star 4))) (3 / 10)) \<and> \<not> (int (length (graph_nodes (graph_of 31 (star 4)))) \<le> 20 \<and> graph_maxDegree (graph_of 31 (star 4)) \<le> 3) \<and> \<not> (js_gt (graph_density (graph_of 31 (star 4))) (1 / 2) \<or> 5 < graph_maxDegree (graph_of 31 (star 4))) \<and> 30 < int (length (graph_nodes (graph_of 31 (star 4))))"
    by (simp add: large_density large_degree graph_of_features(1))
  note large_sel = smartLayout_selection [OF large_nodes, where options = no_options]
  from large_sel large_branch
  have "fst (smartLayout_plan (graph_of 31 (star 4)) no_options) =
       compact_preset_js
         \<lparr>spacing := Some \<lparr>nodeNodeBetweenLayers = Some (Math_round (40 * max 1 (min 2 (of_int (int (length (graph_nodes (graph_of 31 (star 4))))) / 15)))), edgeNodeBetweenLayers = Some (Math_round (20 * max 1 (min 2 (of_int (int (length (graph_nodes (graph_of 31 (star 4))))) / 15)))), nodeNode = Some (Math_round (30 * max 1 (min 2 (of_int (int (length (graph_nodes (graph_of 31 (star 4))))) / 15)))), edgeEdge = Some (Math_round (15 * max 1 (min 2 (of_int (int (length (graph_nodes (graph_of 31 (star 4))))) / 15))))\<rparr>\<rparr>"
    by blast
  then have large_chosen: "fst (smartLayout_plan (graph_of 31 (star 4)) no_options) =
       compact_preset_js
         \<lparr>spacing := Some \<lparr>nodeNodeBetweenLayers = Some 80, edgeNodeBetweenLayers = Some 40, nodeNode = Some 60, edgeEdge = Some 30\<rparr>\<rparr>"
    unfolding example_rounding .
  from sparse_density
    sparse_degree
    sparse_chosen
    dense_enough_density
    dense_enough_degree
    dense_enough_chosen
    three_density
    three_degree
    three_chosen
    four_density
    four_degree
    four_chosen
    five_density
    five_degree
    five_chosen
    six_density
    six_degree
    six_chosen
    six_routing
    complete_density
    complete_degree
    complete_chosen
    complete_routing
    half_density
    half_degree
    half_chosen
    large_density
    large_degree
    large_chosen
  have examples:
    "graph_density (graph_of 5 (star 2)) = Fin (1 / 5)
   \<and> graph_maxDegree (graph_of 5 (star 2)) = 2
   \<and> fst (smartLayout_plan (graph_of 5 (star 2)) no_options) =
       clear_preset
         \<lparr>spacing := Some \<lparr>nodeNodeBetweenLayers = Some 120, edgeNodeBetweenLayers = Some 60, nodeNode = Some 80, edgeEdge = Some 40\<rparr>\<rparr>
   \<and> graph_density (graph_of 5 (star 3)) = Fin (3 / 10)
   \<and> graph_maxDegree (graph_of 5 (star 3)) = 3
   \<and> fst (smartLayout_plan (graph_of 5 (star 3)) no_options) =
       flowchart_preset
         \<lparr>spacing := Some \<lparr>nodeNodeBetweenLayers = Some 80, edgeNodeBetweenLayers = Some 40, nodeNode = Some 60, edgeEdge = Some 20\<rparr>\<rparr>
   \<and> graph_density (graph_of 11 (star 3)) = Fin (3 / 55)
   \<and> graph_maxDegree (graph_of 11 (star 3)) = 3
   \<and> fst (smartLayout_plan (graph_of 11 (star 3)) no_options) =
       flowchart_preset
         \<lparr>spacing := Some \<lparr>nodeNodeBetweenLayers = Some 80, edgeNodeBetweenLayers = Some 40, nodeNode = Some 60, edgeEdge = Some 20\<rparr>\<rparr>
   \<and> graph_density (graph_of 11 (star 4)) = Fin (4 / 55)
   \<and> graph_maxDegree (graph_of 11 (star 4)) = 4
   \<and> fst (smartLayout_plan (graph_of 11 (star 4)) no_options) =
       hierarchy_preset_js
         \<lparr>spacing := Some \<lparr>nodeNodeBetweenLayers = Some 100, edgeNodeBetweenLayers = Some 50, nodeNode = Some 60, edgeEdge = Some 30\<rparr>\<rparr>
   \<and> graph_density (graph_of 11 (star 5)) = Fin (1 / 11)
   \<and> graph_maxDegree (graph_of 11 (star 5)) = 5
   \<and> fst (smartLayout_plan (graph_of 11 (star 5)) no_options) =
       hierarchy_preset_js
         \<lparr>spacing := Some \<lparr>nodeNodeBetweenLayers = Some 100, edgeNodeBetweenLayers = Some 50, nodeNode = Some 60, edgeEdge = Some 30\<rparr>\<rparr>
   \<and> graph_density (graph_of 11 (star 6)) = Fin (6 / 55)
   \<and> graph_maxDegree (graph_of 11 (star 6)) = 6
   \<and> fst (smartLayout_plan (graph_of 11 (star 6)) no_options) =
       network_preset_js
         \<lparr>spacing := Some \<lparr>nodeNodeBetweenLayers = None, edgeNodeBetweenLayers = None, nodeNode = Some 80, edgeEdge = Some 40\<rparr>\<rparr>
   \<and> edgeRouting (fst (snd (smartLayout_plan (graph_of 11 (star 6)) no_options))) = Some SPLINES
   \<and> graph_density (graph_of 5 complete_five) = Fin (1)
   \<and> graph_maxDegree (graph_of 5 complete_five) = 4
   \<and> fst (smartLayout_plan (graph_of 5 complete_five) no_options) =
       network_preset_js
         \<lparr>spacing := Some \<lparr>nodeNodeBetweenLayers = None, edgeNodeBetweenLayers = None, nodeNode = Some 80, edgeEdge = Some 40\<rparr>\<rparr>
   \<and> edgeRouting (fst (snd (smartLayout_plan (graph_of 5 complete_five) no_options))) = Some SPLINES
   \<and> graph_density (graph_of 5 (star 4 @ [(''1'', ''2'')])) = Fin (1 / 2)
   \<and> graph_maxDegree (graph_of 5 (star 4 @ [(''1'', ''2'')])) = 4
   \<and> fst (smartLayout_plan (graph_of 5 (star 4 @ [(''1'', ''2'')])) no_options) =
       hierarchy_preset_js
         \<lparr>spacing := Some \<lparr>nodeNodeBetweenLayers = Some 100, edgeNodeBetweenLayers = Some 50, nodeNode = Some 60, edgeEdge = Some 30\<rparr>\<rparr>
   \<and> graph_density (graph_of 31 (star 4)) = Fin (4 / 465)
   \<and> graph_maxDegree (graph_of 31 (star 4)) = 4
   \<and> fst (smartLayout_plan (graph_of 31 (star 4)) no_options) =
       compact_preset_js
         \<lparr>spacing := Some \<lparr>nodeNodeBetweenLayers = Some 80, edgeNodeBetweenLayers = Some 40, nodeNode = Some 60, edgeEdge = Some 30\<rparr>\<rparr>"
    by (intro conjI)
  from sixteen examples show ?thesis by blast
qed

text \<open>
  C8, as stated, fails in its last part: the spacing values are rounded after the
  scaling. With sixteen nodes the factor is 16/15, and the layer distance 80 of the
  flowchart preset becomes 85, which is not 80 times 16/15.
\<close>

theorem smartLayout_scaling_counterexample:
  "map_option nodeNodeBetweenLayers (spacing (fst (smartLayout_plan sixteen_world no_options)))
     = Some (Some 85)
   \<and> (of_int 85 :: rat) \<noteq> 80 * max 1 (min 2 (16 / 15))"
proof -
  have "smartLayout_plan sixteen_world no_options =
          (flowchart_preset\<lparr>spacing := map_option
               (scale_spacing (max 1 (min 2
                  (of_int (int (length (graph_nodes sixteen_world))) / 15))))
               (spacing flowchart_preset)\<rparr>,
           with_defaults
             \<lparr>defaultNodeSize = Some (120, 50), autoCalculateSize = Some True,
              edgeRouting = Some ORTHOGONAL, preserveNodeData = None\<rparr> no_options,
           min 800 (int (length (graph_nodes sixteen_world)) * 20))"
    by (rule smartLayout_plan_flowchart) (simp_all add: sixteen_world_features)
  then have "map_option nodeNodeBetweenLayers
               (spacing (fst (smartLayout_plan sixteen_world no_options)))
             = Some (Some (Math_round (80 * max 1 (min 2 (of_int 16 / 15)))))"
    by (simp add: preset_spacings scaled_spacing sixteen_world_features(2))
  then show ?thesis
    unfolding sixteen_world_rounding by simp
qed

end
